theory Spec2Isabelle
  imports Complex_Main
begin

section \<open>JavaScript values and feature attributes\<close>

text \<open>
  The attribute values the decision logic looks at are numbers, strings and the two
  absent values. Identifiers and usage codes are integer-valued, so a number is an
  \<open>int\<close>; \<open>NaN\<close> does not occur among them.
\<close>

datatype jsval = JUndefined | JNull | JBool bool | JNum int | JStr string

text \<open>Truthiness, as \<open>||\<close>, \<open>if\<close> and \<open>!\<close> see it.\<close>

fun truthy :: "jsval \<Rightarrow> bool" where
  "truthy JUndefined = False"
| "truthy JNull = False"
| "truthy (JBool b) = b"
| "truthy (JNum n) = (n \<noteq> 0)"
| "truthy (JStr s) = (s \<noteq> [])"

text \<open>\<open>a || b\<close>: the left operand when it is truthy, the right one otherwise.\<close>

definition jsOr :: "jsval \<Rightarrow> jsval \<Rightarrow> jsval" where
  "jsOr a b = (if truthy a then a else b)"

text \<open>
  An attribute object: field names with their values. Reading a field that is not
  there gives \<open>undefined\<close>.
\<close>

type_synonym attributes = "(string \<times> jsval) list"

definition getAttr :: "attributes \<Rightarrow> string \<Rightarrow> jsval" where
  "getAttr a k = (case map_of a k of None \<Rightarrow> JUndefined | Some v \<Rightarrow> v)"

section \<open>Geometries and the geometry engine\<close>

text \<open>
  A coordinate is the array \<open>[x, y]\<close>. A geometry is a point, a polyline (its
  \<open>paths\<close>) or a polygon (its \<open>rings\<close>), each with the \<open>wkid\<close> of its spatial
  reference.
\<close>

type_synonym coord = "real \<times> real"

record point =
  px :: real
  py :: real
  pwkid :: nat

datatype geometry =
    Point point
  | Polyline "coord list list" nat
  | Polygon "coord list list" nat

fun wkid :: "geometry \<Rightarrow> nat" where
  "wkid (Point p) = pwkid p"
| "wkid (Polyline ps w) = w"
| "wkid (Polygon rs w) = w"

definition mkPoint :: "coord \<Rightarrow> nat \<Rightarrow> point" where
  "mkPoint c w = \<lparr>px = fst c, py = snd c, pwkid = w\<rparr>"

text \<open>
  The operations of the host engine that the decision logic calls. They are black
  boxes with the contract of a function, typed as the code calls them: the first
  argument of \<open>distance\<close> and the second of \<open>contains\<close> and
  \<open>nearestCoordinate\<close> is always a point; \<open>cut\<close> gives \<open>None\<close> for
  \<open>null\<close>; \<open>nearestCoordinate\<close> gives the coordinate and its distance, or
  \<open>None\<close>; \<open>union\<close> is the union of a two-element array; \<open>project\<close> is the
  projection to Web Mercator (wkid 102100), \<open>projectPoint\<close> the same call on a
  point; \<open>centroid\<close> is the polygon's \<open>centroid\<close> property. Distances are in
  meters.
\<close>

record geometryEngine =
  ge_distance :: "point \<Rightarrow> geometry \<Rightarrow> real"
  ge_contains :: "geometry \<Rightarrow> point \<Rightarrow> bool"
  ge_buffer :: "geometry \<Rightarrow> real \<Rightarrow> geometry"
  ge_union :: "geometry \<Rightarrow> geometry \<Rightarrow> geometry"
  ge_project :: "geometry \<Rightarrow> geometry"
  ge_projectPoint :: "point \<Rightarrow> point"
  ge_cut :: "geometry \<Rightarrow> geometry \<Rightarrow> geometry list option"
  ge_nearestCoordinate :: "geometry \<Rightarrow> point \<Rightarrow> (point \<times> real) option"
  ge_centroid :: "geometry \<Rightarrow> point"

text \<open>A polygon graphic: its geometry and its attributes.\<close>

record graphic =
  g_geometry :: geometry
  g_attributes :: attributes

text \<open>
  A boundary line feature: a polyline (kept as its paths and wkid) and attributes.
\<close>

record lineFeature =
  lf_paths :: "coord list list"
  lf_wkid :: nat
  lf_attributes :: attributes

definition lineGeometry :: "lineFeature \<Rightarrow> geometry" where
  "lineGeometry f = Polyline (lf_paths f) (lf_wkid f)"

section \<open>Parcel identifier\<close>

text \<open>
  \<open>attributes.objectid || attributes.__OBJECTID || attributes.OBJECTID\<close>, as in
  \<open>generateOrFindConnectionNode\<close> and \<open>highlightCadastralFrontage\<close>.
\<close>

definition polygonId :: "attributes \<Rightarrow> jsval" where
  "polygonId a =
     jsOr (jsOr (getAttr a ''objectid'') (getAttr a ''__OBJECTID'')) (getAttr a ''OBJECTID'')"

text \<open>The same chain with the last resort \<open>'Unknown'\<close>, as in \<open>completeSubdivision\<close>.\<close>

definition originalPolygonId :: "attributes \<Rightarrow> jsval" where
  "originalPolygonId a = jsOr (polygonId a) (JStr ''Unknown'')"

section \<open>Frontage classification\<close>

datatype usage = FRONTAGE | INTERIOR | OTHER

text \<open>The frontage test of the \<open>frontageLines\<close> filter.\<close>

definition isFrontage :: "attributes \<Rightarrow> bool" where
  "isFrontage a =
     (let usageCode = getAttr a ''usage_code''; renderNormal = getAttr a ''render_normal''
      in usageCode = JNum 1 \<or> usageCode = JStr ''1-Y'' \<or> usageCode = JStr ''1-N''
         \<or> renderNormal = JStr ''1-Y'' \<or> renderNormal = JStr ''1-N'')"

text \<open>The label computed in the \<open>validLines\<close> filter.\<close>

definition usageLabel :: "attributes \<Rightarrow> usage" where
  "usageLabel a =
     (let usageCode = getAttr a ''usage_code''; renderNormal = getAttr a ''render_normal''
      in if usageCode = JNum 1 \<or> usageCode = JStr ''1-Y'' \<or> usageCode = JStr ''1-N''
            \<or> renderNormal = JStr ''1-Y'' \<or> renderNormal = JStr ''1-N''
         then FRONTAGE
         else if usageCode = JNum 2 then INTERIOR
         else OTHER)"

section \<open>Endpoint filter of the queried boundary lines\<close>

definition ENDPOINT_DISTANCE_THRESHOLD :: real where
  "ENDPOINT_DISTANCE_THRESHOLD = 1.5"

text \<open>
  The predicate of the \<open>validLines\<close> filter: the first path must have two points at
  least, and both of its ends must be close to the polygon.
\<close>

definition validLine :: "geometryEngine \<Rightarrow> geometry \<Rightarrow> lineFeature \<Rightarrow> bool" where
  "validLine ge polygonGeometry f =
     (case lf_paths f of
        [] \<Rightarrow> False
      | path # _ \<Rightarrow>
          if length path < 2 then False
          else
            let startPoint = hd path;
                endPoint = last path;
                startPointGeom = mkPoint startPoint (lf_wkid f);
                endPointGeom = mkPoint endPoint (lf_wkid f);
                startDistance = ge_distance ge startPointGeom polygonGeometry;
                endDistance = ge_distance ge endPointGeom polygonGeometry
            in startDistance \<le> ENDPOINT_DISTANCE_THRESHOLD
               \<and> endDistance \<le> ENDPOINT_DISTANCE_THRESHOLD)"

definition validLines :: "geometryEngine \<Rightarrow> geometry \<Rightarrow> lineFeature list \<Rightarrow> lineFeature list" where
  "validLines ge polygonGeometry features = filter (validLine ge polygonGeometry) features"

text \<open>The frontage lines are filtered out of the valid lines only.\<close>

definition frontageLinesOf :: "geometryEngine \<Rightarrow> geometry \<Rightarrow> lineFeature list \<Rightarrow> lineFeature list" where
  "frontageLinesOf ge polygonGeometry features =
     filter (\<lambda>line. isFrontage (lf_attributes line)) (validLines ge polygonGeometry features)"

section \<open>Edge-proximity matcher\<close>

record edge =
  edge_start :: coord
  edge_end :: coord

definition edgeMatchesFrontageLine ::
  "edge \<Rightarrow> geometry \<Rightarrow> geometryEngine \<Rightarrow> nat \<Rightarrow> bool" where
  "edgeMatchesFrontageLine e frontageLineGeometry ge spatialReference =
     (let distanceThreshold = 2.0;
          edgeStartPoint = mkPoint (edge_start e) spatialReference;
          edgeEndPoint = mkPoint (edge_end e) spatialReference;
          startDistance = ge_distance ge edgeStartPoint frontageLineGeometry;
          endDistance = ge_distance ge edgeEndPoint frontageLineGeometry
      in (startDistance \<le> distanceThreshold) \<and> (endDistance \<le> distanceThreshold))"

section \<open>Strings\<close>

text \<open>Decimal digits of a number, for template strings and \<open>toString\<close>.\<close>

definition digitChar :: "nat \<Rightarrow> char" where
  "digitChar n = ''0123456789'' ! n"

function showNat :: "nat \<Rightarrow> string" where
  "showNat n = (if n < 10 then [digitChar n] else showNat (n div 10) @ [digitChar (n mod 10)])"
  by pat_completeness auto
termination
  by (relation "measure id") auto

declare showNat.simps [simp del]

definition showInt :: "int \<Rightarrow> string" where
  "showInt i = (if i < 0 then CHR ''-'' # showNat (nat (- i)) else showNat (nat i))"

text \<open>\<open>String(v)\<close>, the conversion a template string applies to a value.\<close>

fun jsString :: "jsval \<Rightarrow> string" where
  "jsString JUndefined = ''undefined''"
| "jsString JNull = ''null''"
| "jsString (JBool b) = (if b then ''true'' else ''false'')"
| "jsString (JNum n) = showInt n"
| "jsString (JStr s) = s"

text \<open>\<open>xs.join(sep)\<close> on strings.\<close>

fun joinWith :: "string \<Rightarrow> string list \<Rightarrow> string" where
  "joinWith sep [] = []"
| "joinWith sep [x] = x"
| "joinWith sep (x # y # ys) = x @ sep @ joinWith sep (y # ys)"

text \<open>
  \<open>s.replace(/\s+/g, ' ')\<close>; the strings it is applied to hold no whitespace but
  the space.
\<close>

fun collapseSpaces :: "string \<Rightarrow> string" where
  "collapseSpaces [] = []"
| "collapseSpaces [c] = [c]"
| "collapseSpaces (c # d # cs) =
     (if c = CHR '' '' \<and> d = CHR '' '' then collapseSpaces (d # cs)
      else c # collapseSpaces (d # cs))"

section \<open>Subdivision session\<close>

datatype pointType = boundary | midpoint

fun typeName :: "pointType \<Rightarrow> string" where
  "typeName boundary = ''boundary''"
| "typeName midpoint = ''midpoint''"

record pointData =
  pd_point :: point
  pd_type :: pointType
  pd_snapped :: bool
  pd_originalClick :: point

text \<open>
  One result of a completed subdivision, as \<open>completeSubdivision\<close> builds it.
\<close>

record subPolygonResult =
  spr_geometry :: geometry
  spr_frontageLines :: "lineFeature list"
  spr_index :: nat
  spr_originalPolygonId :: jsval

text \<open>
  The graphics of the subdivision layer: the marker of a placed point, a completed
  subdivision line (geometry, \<open>subdivisionType\<close>, \<open>pointCount\<close>) and a rendered
  sub-polygon (geometry, \<open>subIndex\<close>, \<open>frontageCount\<close>, \<open>objectid\<close>,
  \<open>originalPolygonId\<close>). Symbols and the \<open>createdAt\<close> stamp are left out.
\<close>

datatype layerGraphic =
    PointMarker point pointType
  | SubdivisionLine geometry string nat
  | SubPolygonGraphic geometry nat nat string jsval

text \<open>What \<open>alert\<close> shows at the end of a completion.\<close>

datatype alert = SubdivisionComplete nat | SubdivisionFailed string

text \<open>
  The variables of the subdivision module and the fields of \<open>appState\<close> it reads
  and writes.
\<close>

record subdivisionState =
  subdivisionMode :: bool
  currentPolygonGeometry :: "geometry option"
  currentPolygonGraphic :: "graphic option"
  drawingPoints :: "pointData list"
  subdivisionLayer :: "layerGraphic list"
  currentFrontageLines :: "lineFeature list option"
  subPolygonData :: "subPolygonResult list option"
  alerts :: "alert list"

definition enableSubdivisionMode ::
  "geometry \<Rightarrow> graphic option \<Rightarrow> subdivisionState \<Rightarrow> subdivisionState" where
  "enableSubdivisionMode polygonGeometry polygonGraphic s =
     s\<lparr>subdivisionMode := True,
       currentPolygonGeometry := Some polygonGeometry,
       currentPolygonGraphic := polygonGraphic,
       drawingPoints := []\<rparr>"

definition disableSubdivisionMode :: "subdivisionState \<Rightarrow> subdivisionState" where
  "disableSubdivisionMode s =
     s\<lparr>subdivisionMode := False,
       currentPolygonGeometry := None,
       currentPolygonGraphic := None,
       drawingPoints := []\<rparr>"

definition clearSubdivisions :: "subdivisionState \<Rightarrow> subdivisionState" where
  "clearSubdivisions s = s\<lparr>subdivisionLayer := [], drawingPoints := []\<rparr>"

text \<open>
  The loop of \<open>findNearestEdgePoint\<close> over the edges of the outer ring. The pair
  \<open>(nearestPoint, minDistance)\<close> starts as \<open>(null, Infinity)\<close>, here \<open>None\<close>.
\<close>

fun nearestOnRing ::
  "geometryEngine \<Rightarrow> point \<Rightarrow> nat \<Rightarrow> coord list \<Rightarrow> (point \<times> real) option
   \<Rightarrow> (point \<times> real) option" where
  "nearestOnRing ge clickPoint w (edgeStart # edgeEnd # rest) best =
     (let edgeGeometry = Polyline [[edgeStart, edgeEnd]] w;
          nearestOnEdge = ge_nearestCoordinate ge edgeGeometry clickPoint;
          best' = (case nearestOnEdge of
                     None \<Rightarrow> best
                   | Some (coordinate, distance) \<Rightarrow>
                       (case best of
                          None \<Rightarrow> Some (coordinate, distance)
                        | Some (nearestPoint, minDistance) \<Rightarrow>
                            if distance < minDistance then Some (coordinate, distance)
                            else best))
      in nearestOnRing ge clickPoint w (edgeEnd # rest) best')"
| "nearestOnRing ge clickPoint w ring best = best"

text \<open>
  Errors are values: a thrown exception is \<open>Inl\<close> of its message. Reading
  \<open>rings[0].length\<close> of a geometry without rings is a \<open>TypeError\<close>.
\<close>

definition findNearestEdgePoint ::
  "point \<Rightarrow> geometry \<Rightarrow> geometryEngine \<Rightarrow> string + point option" where
  "findNearestEdgePoint clickPoint polygonGeometry ge =
     (case polygonGeometry of
        Polygon (ring # _) w \<Rightarrow> Inr (map_option fst (nearestOnRing ge clickPoint w ring None))
      | _ \<Rightarrow> Inl ''TypeError'')"

text \<open>The type string of \<open>drawSubdivisionLine\<close>; \<open>slice(1, -1)\<close> drops both ends.\<close>

definition subdivisionTypeOf :: "pointType list \<Rightarrow> string" where
  "subdivisionTypeOf types =
     (if list_all (\<lambda>t. t = boundary) types then ''boundary to boundary''
      else collapseSpaces
             (''boundary to '' @ joinWith '' to '' (map typeName (butlast (tl types)))
              @ '' to boundary''))"

definition drawSubdivisionLine :: "subdivisionState \<Rightarrow> subdivisionState" where
  "drawSubdivisionLine s =
     (if length (drawingPoints s) < 2 then s
      else
        let path = map (\<lambda>pd. (px (pd_point pd), py (pd_point pd))) (drawingPoints s);
            lineGeometry = Polyline [path] (pwkid (pd_point (hd (drawingPoints s))));
            types = map pd_type (drawingPoints s);
            subdivisionType = subdivisionTypeOf types;
            lineGraphic = SubdivisionLine lineGeometry subdivisionType (length (drawingPoints s))
        in s\<lparr>subdivisionLayer := subdivisionLayer s @ [lineGraphic], drawingPoints := []\<rparr>)"

text \<open>
  \<open>handleSubdivisionClick\<close>: the result is whether the click was handled, with the
  new state. Measuring the distance to a nearest edge point that does not exist is an
  error.
\<close>

definition handleSubdivisionClick ::
  "point \<Rightarrow> geometryEngine \<Rightarrow> subdivisionState \<Rightarrow> string + (bool \<times> subdivisionState)" where
  "handleSubdivisionClick mapPoint ge s =
     (case currentPolygonGeometry s of
        None \<Rightarrow> Inr (False, s)
      | Some polygonGeometry \<Rightarrow>
          if \<not> subdivisionMode s then Inr (False, s)
          else
            let pointGeometry = \<lparr>px = px mapPoint, py = py mapPoint, pwkid = pwkid mapPoint\<rparr>;
                isInside = ge_contains ge polygonGeometry pointGeometry
            in (case findNearestEdgePoint mapPoint polygonGeometry ge of
                 Inl e \<Rightarrow> Inl e
               | Inr None \<Rightarrow> Inl ''TypeError''
               | Inr (Some nearestEdgePoint) \<Rightarrow>
                   let distanceToEdge = ge_distance ge pointGeometry (Point nearestEdgePoint);
                       pointData =
                         (if drawingPoints s = [] then
                            \<lparr>pd_point = nearestEdgePoint, pd_type = boundary,
                             pd_snapped = True, pd_originalClick = mapPoint\<rparr>
                          else if \<not> isInside then
                            \<lparr>pd_point = nearestEdgePoint, pd_type = boundary,
                             pd_snapped = True, pd_originalClick = mapPoint\<rparr>
                          else if distanceToEdge < 5 then
                            \<lparr>pd_point = nearestEdgePoint, pd_type = boundary,
                             pd_snapped = True, pd_originalClick = mapPoint\<rparr>
                          else
                            \<lparr>pd_point = pointGeometry, pd_type = midpoint,
                             pd_snapped = False, pd_originalClick = mapPoint\<rparr>);
                       s1 = s\<lparr>drawingPoints := drawingPoints s @ [pointData],
                              subdivisionLayer := subdivisionLayer s
                                @ [PointMarker (pd_point pointData) (pd_type pointData)]\<rparr>
                   in if length (drawingPoints s1) \<ge> 2 \<and> pd_type pointData = boundary
                      then Inr (True, drawSubdivisionLine s1)
                      else Inr (True, s1)))"

text \<open>Clicks arrive one after the other; an error ends the run.\<close>

fun runClicks ::
  "point list \<Rightarrow> geometryEngine \<Rightarrow> subdivisionState \<Rightarrow> string + subdivisionState" where
  "runClicks [] ge s = Inr s"
| "runClicks (p # ps) ge s =
     (case handleSubdivisionClick p ge s of
        Inl e \<Rightarrow> Inl e
      | Inr (handled, s') \<Rightarrow> runClicks ps ge s')"

text \<open>The geometries of the completed lines, in the order of the layer.\<close>

fun getSubdivisionLines :: "layerGraphic list \<Rightarrow> geometry list" where
  "getSubdivisionLines [] = []"
| "getSubdivisionLines (SubdivisionLine g t n # gs) = g # getSubdivisionLines gs"
| "getSubdivisionLines (_ # gs) = getSubdivisionLines gs"

section \<open>Completing a subdivision\<close>

text \<open>
  Step 1, the cut loop: every polygon of the working list is cut by the line; a cut
  that gives \<open>null\<close> or an empty array keeps the polygon.
\<close>

fun cutEach :: "geometryEngine \<Rightarrow> geometry \<Rightarrow> geometry list \<Rightarrow> geometry list" where
  "cutEach ge line [] = []"
| "cutEach ge line (poly # polys) =
     (case ge_cut ge poly line of
        Some (r # rs) \<Rightarrow> (r # rs) @ cutEach ge line polys
      | _ \<Rightarrow> poly # cutEach ge line polys)"

fun cutAll :: "geometryEngine \<Rightarrow> geometry list \<Rightarrow> geometry list \<Rightarrow> geometry list" where
  "cutAll ge [] subPolygons = subPolygons"
| "cutAll ge (line # subdivisionLines) subPolygons =
     cutAll ge subdivisionLines (cutEach ge line subPolygons)"

fun ringEdges :: "coord list \<Rightarrow> edge list" where
  "ringEdges (a # b # rest) = \<lparr>edge_start = a, edge_end = b\<rparr> # ringEdges (b # rest)"
| "ringEdges ring = []"

definition extractPolygonEdges :: "geometry \<Rightarrow> string + edge list" where
  "extractPolygonEdges polygon =
     (case polygon of
        Polygon (ring # _) w \<Rightarrow> Inr (ringEdges ring)
      | _ \<Rightarrow> Inl ''TypeError'')"

text \<open>
  Step 2 for one sub-polygon: each edge takes the attributes of the first parent
  frontage line it matches; an edge that matches none gives nothing.
\<close>

definition calculateSubPolygonFrontage ::
  "geometry \<Rightarrow> geometryEngine \<Rightarrow> lineFeature list \<Rightarrow> string + lineFeature list" where
  "calculateSubPolygonFrontage subPolygon ge parentFrontageLines =
     (if parentFrontageLines = [] then Inr []
      else
        (case extractPolygonEdges subPolygon of
           Inl e \<Rightarrow> Inl e
         | Inr subPolygonEdges \<Rightarrow>
             Inr (concat (map
               (\<lambda>e. case List.find
                          (\<lambda>parentFrontage.
                             edgeMatchesFrontageLine e (lineGeometry parentFrontage) ge (wkid subPolygon))
                          parentFrontageLines of
                       None \<Rightarrow> []
                     | Some parentFrontage \<Rightarrow>
                         [\<lparr>lf_paths = [[edge_start e, edge_end e]],
                           lf_wkid = wkid subPolygon,
                           lf_attributes = lf_attributes parentFrontage\<rparr>])
               subPolygonEdges))))"

fun frontageResults ::
  "geometryEngine \<Rightarrow> lineFeature list \<Rightarrow> jsval \<Rightarrow> nat \<Rightarrow> geometry list
   \<Rightarrow> string + subPolygonResult list" where
  "frontageResults ge parentFrontageLines opid i [] = Inr []"
| "frontageResults ge parentFrontageLines opid i (subPoly # rest) =
     (case calculateSubPolygonFrontage subPoly ge parentFrontageLines of
        Inl e \<Rightarrow> Inl e
      | Inr subFrontageLines \<Rightarrow>
          (case frontageResults ge parentFrontageLines opid (Suc i) rest of
             Inl e \<Rightarrow> Inl e
           | Inr results \<Rightarrow>
               Inr (\<lparr>spr_geometry = subPoly, spr_frontageLines = subFrontageLines,
                     spr_index = i, spr_originalPolygonId = opid\<rparr> # results)))"

text \<open>The graphics \<open>renderSubPolygons\<close> adds, one for each result.\<close>

fun renderedGraphics :: "nat \<Rightarrow> subPolygonResult list \<Rightarrow> layerGraphic list" where
  "renderedGraphics index [] = []"
| "renderedGraphics index (result # results) =
     SubPolygonGraphic (spr_geometry result) index (length (spr_frontageLines result))
       (''SUB_'' @ jsString (spr_originalPolygonId result) @ ''_'' @ showNat index)
       (spr_originalPolygonId result)
     # renderedGraphics (Suc index) results"

text \<open>
  Where an exception of the platform can strike during a completion, with its message.
  Four of these points throw into the \<open>try\<close> block: the cut loop
  (\<open>geometryEngine.cut\<close>), the frontage propagation (the engine calls of
  \<open>edgeMatchesFrontageLine\<close>, made only when there is a parent frontage), the
  rendering (adding the graphic after so many were added), and the visualization, either
  while the geometries of the sub-polygons are united (\<open>VisualStep False\<close>) or after
  \<open>updateNodeVisualizationForProperty\<close> stored the frontage lines
  (\<open>VisualStep True\<close>). Two do not: the calls of \<open>generateOrFindConnectionNode\<close> in
  step 4 return promises that are not awaited, and the setback computation of step 5
  sits in a \<open>try\<close> of its own, whose \<open>catch\<close> logs a warning. The module of the
  node registry is imported statically elsewhere, so the dynamic imports of steps 4 and
  5 resolve.
\<close>

datatype step =
    CutStep | FrontageStep | RenderStep nat | AssignStep | SetbackStep | VisualStep bool

text \<open>Step 2, over the sub-polygons in order.\<close>

definition propagateFrontage ::
  "geometryEngine \<Rightarrow> (step \<times> string) option \<Rightarrow> lineFeature list \<Rightarrow> jsval \<Rightarrow> geometry list
   \<Rightarrow> string + subPolygonResult list" where
  "propagateFrontage ge fault parentFrontageLines opid subPolygons =
     (case fault of
        Some (FrontageStep, msg) \<Rightarrow>
          if parentFrontageLines \<noteq> [] then Inl msg
          else frontageResults ge parentFrontageLines opid 0 subPolygons
      | _ \<Rightarrow> frontageResults ge parentFrontageLines opid 0 subPolygons)"

text \<open>
  Step 3, \<open>renderSubPolygons\<close>: the results are stored in
  \<open>appState.subPolygonData\<close> first, then one graphic is added for each. The result is
  the message of the exception, if one is thrown.
\<close>

definition renderSubPolygons ::
  "(step \<times> string) option \<Rightarrow> subPolygonResult list \<Rightarrow> subdivisionState
   \<Rightarrow> string option \<times> subdivisionState" where
  "renderSubPolygons fault subPolygonResults s =
     (let s1 = s\<lparr>subPolygonData := Some subPolygonResults\<rparr>;
          graphics = renderedGraphics 0 subPolygonResults
      in case fault of
           Some (RenderStep k, msg) \<Rightarrow>
             if k < length graphics
             then (Some msg, s1\<lparr>subdivisionLayer := subdivisionLayer s1 @ take k graphics\<rparr>)
             else (None, s1\<lparr>subdivisionLayer := subdivisionLayer s1 @ graphics\<rparr>)
         | _ \<Rightarrow> (None, s1\<lparr>subdivisionLayer := subdivisionLayer s1 @ graphics\<rparr>))"

text \<open>
  \<open>updateNodeVisualizationForProperty\<close>, as far as this state goes: it returns at
  once without frontage lines or without an electrical layer; otherwise it stores the
  frontage lines in \<open>appState.currentFrontageLines\<close> and redraws the nodes, with calls
  of the engine.
\<close>

definition updateNodeVisualizationForProperty ::
  "(step \<times> string) option \<Rightarrow> bool \<Rightarrow> lineFeature list \<Rightarrow> subdivisionState
   \<Rightarrow> string option \<times> subdivisionState" where
  "updateNodeVisualizationForProperty fault electricalReady frontageLines s =
     (if frontageLines = [] \<or> \<not> electricalReady then (None, s)
      else
        (case fault of
           Some (VisualStep True, msg) \<Rightarrow>
             (Some msg, s\<lparr>currentFrontageLines := Some frontageLines\<rparr>)
         | _ \<Rightarrow> (None, s\<lparr>currentFrontageLines := Some frontageLines\<rparr>)))"

text \<open>
  Step 5, \<open>updateNodeVisualizationForSubPolygons\<close>: the frontage lines and the
  geometries of the sub-polygons that have a frontage are collected; with no frontage
  line nothing is called; otherwise the geometries are united, which calls the engine
  when there are two of them or more, and the visualization is updated once.
\<close>

definition updateNodeVisualizationForSubPolygons ::
  "(step \<times> string) option \<Rightarrow> bool \<Rightarrow> subPolygonResult list \<Rightarrow> subdivisionState
   \<Rightarrow> string option \<times> subdivisionState" where
  "updateNodeVisualizationForSubPolygons fault electricalReady subPolygonResults s =
     (let allFrontageLines = concat (map spr_frontageLines subPolygonResults);
          allSubPolygonGeometries =
            map spr_geometry
              (filter (\<lambda>result. spr_frontageLines result \<noteq> []) subPolygonResults)
      in if allFrontageLines = [] then (None, s)
         else
           (case fault of
              Some (VisualStep False, msg) \<Rightarrow>
                if 1 < length allSubPolygonGeometries then (Some msg, s)
                else updateNodeVisualizationForProperty fault electricalReady allFrontageLines s
            | _ \<Rightarrow> updateNodeVisualizationForProperty fault electricalReady allFrontageLines s))"

text \<open>
  The \<open>try\<close> block: the message of the exception that leaves it, or the number of
  sub-polygons, with the state as the block left it. Step 4 starts the node assignments
  and leaves this state as it is.
\<close>

definition completionBody ::
  "geometryEngine \<Rightarrow> (step \<times> string) option \<Rightarrow> bool \<Rightarrow> geometry \<Rightarrow> graphic
   \<Rightarrow> geometry list \<Rightarrow> lineFeature list \<Rightarrow> subdivisionState
   \<Rightarrow> (string + nat) \<times> subdivisionState" where
  "completionBody ge fault electricalReady polygonGeometry polygonGraphic subdivisionLines
       parentFrontageLines s =
     (case fault of
        Some (CutStep, msg) \<Rightarrow> (Inl msg, s)
      | _ \<Rightarrow>
        (let subPolygons = cutAll ge subdivisionLines [polygonGeometry]
         in (case propagateFrontage ge fault parentFrontageLines
                    (originalPolygonId (g_attributes polygonGraphic)) subPolygons of
               Inl e \<Rightarrow> (Inl e, s)
             | Inr subPolygonResults \<Rightarrow>
                 (case renderSubPolygons fault subPolygonResults s of
                    (Some msg, s1) \<Rightarrow> (Inl msg, s1)
                  | (None, s2) \<Rightarrow>
                      (case updateNodeVisualizationForSubPolygons fault electricalReady
                              subPolygonResults s2 of
                         (Some msg, s3) \<Rightarrow> (Inl msg, s3)
                       | (None, s3) \<Rightarrow> (Inr (length subPolygons), s3))))))"

text \<open>
  \<open>completeSubdivision\<close>: the two guards, the \<open>try\<close> block, and its \<open>catch\<close>,
  which reports the failure and does nothing else.
\<close>

definition completeSubdivision ::
  "geometryEngine \<Rightarrow> (step \<times> string) option \<Rightarrow> bool \<Rightarrow> subdivisionState
   \<Rightarrow> subdivisionState" where
  "completeSubdivision ge fault electricalReady s =
     (case (currentPolygonGeometry s, currentPolygonGraphic s) of
        (Some polygonGeometry, Some polygonGraphic) \<Rightarrow>
          (let subdivisionLines = getSubdivisionLines (subdivisionLayer s)
           in if subdivisionLines = [] then s
              else
                (let parentFrontageLines =
                       (case currentFrontageLines s of None \<Rightarrow> [] | Some fl \<Rightarrow> fl)
                 in (case completionBody ge fault electricalReady polygonGeometry polygonGraphic
                            subdivisionLines parentFrontageLines s of
                       (Inr n, s') \<Rightarrow>
                         disableSubdivisionMode (s'\<lparr>alerts := alerts s' @ [SubdivisionComplete n]\<rparr>)
                     | (Inl msg, s') \<Rightarrow> s'\<lparr>alerts := alerts s' @ [SubdivisionFailed msg]\<rparr>)))
      | _ \<Rightarrow> s)"

section \<open>Electrical node registry\<close>

text \<open>
  A node of \<open>electricalNodes\<close>. The latitude and longitude shown in the popup are
  left out. \<open>propertyCentroids\<close> is an object keyed by the parcel identifier, so its
  keys are the identifiers as strings; it is \<open>undefined\<close>, here \<open>None\<close>, until a
  centroid is stored.
\<close>

datatype frontageSide = left | right

record node =
  nid :: jsval
  ntype :: string
  position :: point
  properties :: "jsval list"
  createdAt :: string
  side :: "frontageSide option"
  isPotential :: bool
  isPillar :: bool
  propertyCentroids :: "(string \<times> point) list option"

text \<open>
  The graphics of the electrical layer: a rendered node (its \<open>nodeId\<close>, its
  \<open>properties\<close> joined into one string, \<open>isPotential\<close>, \<open>isNearby\<close>), a
  distance label and a connection line.
\<close>

datatype electricalGraphic =
    NodeGraphic jsval string bool bool
  | LabelGraphic jsval
  | ConnectionLineGraphic jsval jsval

text \<open>
  The registry and the layer it draws on; the layer is \<open>None\<close> while
  \<open>appState.layers.electrical\<close> is not set.
\<close>

record registryState =
  electricalNodes :: "node list"
  electricalLayer :: "electricalGraphic list option"

text \<open>A pillar of the inventory layer, as the query returns it.\<close>

record pillarFeature =
  pf_pick_id :: jsval
  pf_geometry :: point

text \<open>
  What the pillar query of one call gives: there is no pillars layer, the query throws
  (it is caught and logged), or it returns features.
\<close>

datatype pillarQuery = NoPillarsLayer | QueryFailed | QueryResult "pillarFeature list"

definition SHARING_THRESHOLD :: real where
  "SHARING_THRESHOLD = 30"

definition INSET_DISTANCE :: real where
  "INSET_DISTANCE = 10"

definition ensureWebMercator :: "geometry \<Rightarrow> geometryEngine \<Rightarrow> geometry" where
  "ensureWebMercator polygonGeometry ge =
     (if wkid polygonGeometry = 102100 then polygonGeometry else ge_project ge polygonGeometry)"

text \<open>
  The two ends of the first path of a frontage line, projected when the line is not in
  Web Mercator. A line without a first point makes the caller read an index of
  \<open>undefined\<close>, a \<open>TypeError\<close>.
\<close>

definition getConvertedFrontageEndpoints ::
  "lineFeature \<Rightarrow> geometryEngine \<Rightarrow> string + (coord \<times> coord)" where
  "getConvertedFrontageEndpoints frontageFeature ge =
     (case lf_paths frontageFeature of
        [] \<Rightarrow> Inl ''TypeError''
      | [] # _ \<Rightarrow> Inl ''TypeError''
      | (c # cs) # _ \<Rightarrow>
          (let startPoint = c; endPoint = last (c # cs)
           in if lf_wkid frontageFeature \<noteq> 102100
              then
                (let startPointGeom = ge_projectPoint ge (mkPoint startPoint (lf_wkid frontageFeature));
                     endPointGeom = ge_projectPoint ge (mkPoint endPoint (lf_wkid frontageFeature))
                 in Inr ((px startPointGeom, py startPointGeom), (px endPointGeom, py endPointGeom)))
              else Inr (startPoint, endPoint)))"

text \<open>
  The position of a node at one end of a frontage segment, 10 meters inside the
  parcel. For a segment of length zero the perpendicular is \<open>NaN\<close>; a point with
  such coordinates is taken to be contained in no polygon, which leaves the edge point.
\<close>

definition calculateNodePosition ::
  "coord \<Rightarrow> coord \<Rightarrow> geometry \<Rightarrow> frontageSide \<Rightarrow> geometryEngine \<Rightarrow> point" where
  "calculateNodePosition startPoint endPoint polygonGeometry sd ge =
     (let edgePoint = (if sd = left then startPoint else endPoint);
          edgePointGeom = mkPoint edgePoint (wkid polygonGeometry);
          dx = fst endPoint - fst startPoint;
          dy = snd endPoint - snd startPoint;
          len = sqrt (dx * dx + dy * dy)
      in if len = 0 then edgePointGeom
         else
           (let perpX = - dy / len;
                perpY = dx / len;
                testPoint1 = \<lparr>px = fst edgePoint + perpX * INSET_DISTANCE,
                              py = snd edgePoint + perpY * INSET_DISTANCE,
                              pwkid = wkid polygonGeometry\<rparr>;
                testPoint2 = \<lparr>px = fst edgePoint - perpX * INSET_DISTANCE,
                              py = snd edgePoint - perpY * INSET_DISTANCE,
                              pwkid = wkid polygonGeometry\<rparr>;
                isInside1 = ge_contains ge polygonGeometry testPoint1;
                isInside2 = ge_contains ge polygonGeometry testPoint2
            in if isInside1 then testPoint1
               else if isInside2 then testPoint2
               else edgePointGeom))"

text \<open>The four candidate positions, in the order of the array.\<close>

record potentialPositions =
  first_left :: point
  first_right :: point
  last_left :: point
  last_right :: point

definition calculatePotentialNodePositions ::
  "lineFeature list \<Rightarrow> geometry \<Rightarrow> geometryEngine \<Rightarrow> string + potentialPositions" where
  "calculatePotentialNodePositions frontageLines workingPolygonGeometry ge =
     (case frontageLines of
        [] \<Rightarrow> Inl ''TypeError''
      | firstFrontage # _ \<Rightarrow>
          (case getConvertedFrontageEndpoints firstFrontage ge of
             Inl e \<Rightarrow> Inl e
           | Inr (firstStart, firstEnd) \<Rightarrow>
               (case getConvertedFrontageEndpoints (last frontageLines) ge of
                  Inl e \<Rightarrow> Inl e
                | Inr (lastStart, lastEnd) \<Rightarrow>
                    Inr \<lparr>first_left =
                           calculateNodePosition firstStart firstEnd workingPolygonGeometry left ge,
                         first_right =
                           calculateNodePosition firstStart firstEnd workingPolygonGeometry right ge,
                         last_left =
                           calculateNodePosition lastStart lastEnd workingPolygonGeometry left ge,
                         last_right =
                           calculateNodePosition lastStart lastEnd workingPolygonGeometry right ge\<rparr>)))"

text \<open>\<open>s.split(', ')\<close>; the first argument collects the piece being read, reversed.\<close>

fun splitCommaSpace :: "string \<Rightarrow> string \<Rightarrow> string list" where
  "splitCommaSpace acc [] = [rev acc]"
| "splitCommaSpace acc [c] = [rev (c # acc)]"
| "splitCommaSpace acc (c # d # cs) =
     (if c = CHR '','' \<and> d = CHR '' '' then rev acc # splitCommaSpace [] cs
      else splitCommaSpace (c # acc) (d # cs))"

text \<open>
  The filter of \<open>removePotentialNodesForProperty\<close> on the graphics: a graphic
  flagged potential whose \<open>properties\<close> string lists the identifier.
\<close>

fun isPotentialGraphic :: "electricalGraphic \<Rightarrow> bool" where
  "isPotentialGraphic (NodeGraphic i props potential nearby) = potential"
| "isPotentialGraphic _ = False"

fun potentialGraphicOf :: "jsval \<Rightarrow> electricalGraphic \<Rightarrow> bool" where
  "potentialGraphicOf pid (NodeGraphic i props potential nearby) =
     (potential \<and> jsString pid \<in> set (splitCommaSpace [] props))"
| "potentialGraphicOf pid _ = False"

text \<open>
  \<open>removePotentialNodesForProperty\<close>. The registry is filtered first. On the layer,
  the filter calls \<open>polygonId.toString()\<close> for each graphic flagged potential, which
  throws for \<open>undefined\<close> and \<open>null\<close>; the layer is then left as it is. The result
  is the exception, if any, and the state.
\<close>

definition removePotentialNodesForProperty ::
  "jsval \<Rightarrow> registryState \<Rightarrow> string option \<times> registryState" where
  "removePotentialNodesForProperty pid st =
     (let st1 = st\<lparr>electricalNodes :=
                  filter (\<lambda>node. \<not> (isPotential node \<and> pid \<in> set (properties node)))
                    (electricalNodes st)\<rparr>
      in case electricalLayer st1 of
           None \<Rightarrow> (None, st1)
         | Some graphics \<Rightarrow>
             if (pid = JUndefined \<or> pid = JNull)
                \<and> list_ex isPotentialGraphic graphics
             then (Some ''TypeError'', st1)
             else (None,
                   st1\<lparr>electricalLayer :=
                     Some (filter (\<lambda>g. \<not> potentialGraphicOf pid g) graphics)\<rparr>))"

text \<open>
  \<open>createElectricalNode\<close>: the identifier is made of the clock and a random
  number, here the \<open>stamp\<close> of the call.
\<close>

definition createElectricalNode ::
  "point \<Rightarrow> jsval \<Rightarrow> frontageSide \<Rightarrow> bool \<Rightarrow> string \<Rightarrow> string \<Rightarrow> node" where
  "createElectricalNode pos pid sd potential now stamp =
     \<lparr>nid = JStr ((if potential then ''POTENTIAL_'' else ''NODE_'') @ stamp),
      ntype = (if potential then ''potential_service_point'' else ''service_point''),
      position = pos,
      properties = [pid],
      createdAt = now,
      side = Some sd,
      isPotential = potential,
      isPillar = False,
      propertyCentroids = None\<rparr>"

definition createAndRenderPotentialNode ::
  "potentialPositions \<Rightarrow> jsval \<Rightarrow> string \<Rightarrow> string \<Rightarrow> registryState
   \<Rightarrow> (string + node) \<times> registryState" where
  "createAndRenderPotentialNode positions pid now stamp st =
     (case removePotentialNodesForProperty pid st of
        (Some e, st1) \<Rightarrow> (Inl e, st1)
      | (None, st1) \<Rightarrow>
          (let chosenPosition = first_right positions;
               potentialNode = createElectricalNode chosenPosition pid right True now stamp
           in (Inr potentialNode,
               st1\<lparr>electricalNodes := electricalNodes st1 @ [potentialNode]\<rparr>)))"

text \<open>The union of the frontage geometries, each projected when it is not in Web Mercator.\<close>

definition inWebMercator :: "geometry \<Rightarrow> geometryEngine \<Rightarrow> geometry" where
  "inWebMercator g ge = (if wkid g \<noteq> 102100 then ge_project ge g else g)"

definition unionFrontageLines :: "lineFeature list \<Rightarrow> geometryEngine \<Rightarrow> geometry option" where
  "unionFrontageLines frontageLines ge =
     (case frontageLines of
        [] \<Rightarrow> None
      | f # fs \<Rightarrow>
          Some (foldl (\<lambda>frontageUnion line.
                         ge_union ge frontageUnion (inWebMercator (lineGeometry line) ge))
                  (inWebMercator (lineGeometry f) ge) fs))"

text \<open>
  The search keeps \<open>bestNode\<close> and \<open>shortestDistance\<close> together: \<open>None\<close> is
  \<open>(null, Infinity)\<close>, and a node is its index in the registry. \<open>Found\<close> is a
  \<open>return\<close> out of a loop.
\<close>

datatype scan = Found nat | Best "(nat \<times> real) option"

definition closer :: "real \<Rightarrow> (nat \<times> real) option \<Rightarrow> bool" where
  "closer distance best =
     (case best of None \<Rightarrow> True | Some (bestNode, shortestDistance) \<Rightarrow> distance < shortestDistance)"

text \<open>Step 3: the nodes in memory.\<close>

fun scanNodes ::
  "geometryEngine \<Rightarrow> geometry \<Rightarrow> geometry \<Rightarrow> jsval \<Rightarrow> node list \<Rightarrow> nat
   \<Rightarrow> (nat \<times> real) option \<Rightarrow> scan" where
  "scanNodes ge frontageBuffer frontageUnion currentPolygonId [] i best = Best best"
| "scanNodes ge frontageBuffer frontageUnion currentPolygonId (node # rest) i best =
     (if isPotential node
      then scanNodes ge frontageBuffer frontageUnion currentPolygonId rest (Suc i) best
      else if currentPolygonId \<in> set (properties node) then Found i
      else if ge_contains ge frontageBuffer (position node)
      then (if closer (ge_distance ge (position node) frontageUnion) best
            then scanNodes ge frontageBuffer frontageUnion currentPolygonId rest (Suc i)
                   (Some (i, ge_distance ge (position node) frontageUnion))
            else scanNodes ge frontageBuffer frontageUnion currentPolygonId rest (Suc i) best)
      else scanNodes ge frontageBuffer frontageUnion currentPolygonId rest (Suc i) best)"

text \<open>\<open>electricalNodes.find(n => n.id === pickId)\<close>, as the index of the node.\<close>

fun findIndex :: "('a \<Rightarrow> bool) \<Rightarrow> 'a list \<Rightarrow> nat option" where
  "findIndex P [] = None"
| "findIndex P (x # xs) = (if P x then Some 0 else map_option Suc (findIndex P xs))"

definition newPillarNode :: "pillarFeature \<Rightarrow> string \<Rightarrow> node" where
  "newPillarNode pillarFeature now =
     \<lparr>nid = pf_pick_id pillarFeature,
      ntype = ''pillar'',
      position = pf_geometry pillarFeature,
      properties = [],
      createdAt = now,
      side = None,
      isPotential = False,
      isPillar = True,
      propertyCentroids = None\<rparr>"

text \<open>Step 4: the pillars of the query, with the registry they are pushed onto.\<close>

fun pillarLoop ::
  "geometryEngine \<Rightarrow> geometry \<Rightarrow> jsval \<Rightarrow> string \<Rightarrow> pillarFeature list \<Rightarrow> node list
   \<Rightarrow> (nat \<times> real) option \<Rightarrow> scan \<times> node list" where
  "pillarLoop ge frontageUnion currentPolygonId now [] nodes best = (Best best, nodes)"
| "pillarLoop ge frontageUnion currentPolygonId now (pillarFeature # rest) nodes best =
     (case findIndex (\<lambda>n. nid n = pf_pick_id pillarFeature) nodes of
        Some k \<Rightarrow>
          if currentPolygonId \<in> set (properties (nodes ! k)) then (Found k, nodes)
          else if closer (ge_distance ge (position (nodes ! k)) frontageUnion) best
          then pillarLoop ge frontageUnion currentPolygonId now rest nodes
                 (Some (k, ge_distance ge (position (nodes ! k)) frontageUnion))
          else pillarLoop ge frontageUnion currentPolygonId now rest nodes best
      | None \<Rightarrow>
          if closer (ge_distance ge (pf_geometry pillarFeature) frontageUnion) best
          then pillarLoop ge frontageUnion currentPolygonId now rest
                 (nodes @ [newPillarNode pillarFeature now])
                 (Some (length nodes, ge_distance ge (pf_geometry pillarFeature) frontageUnion))
          else pillarLoop ge frontageUnion currentPolygonId now rest
                 (nodes @ [newPillarNode pillarFeature now]) best)"

definition addProperty :: "jsval \<Rightarrow> node \<Rightarrow> node" where
  "addProperty currentPolygonId bestNode =
     (if currentPolygonId \<in> set (properties bestNode) then bestNode
      else bestNode\<lparr>properties := properties bestNode @ [currentPolygonId]\<rparr>)"

text \<open>
  \<open>findNearbyConnectionNode\<close>: the node to share, as its index in the registry it
  returns, or \<open>None\<close>.
\<close>

definition findNearbyConnectionNode ::
  "lineFeature list \<Rightarrow> jsval \<Rightarrow> geometryEngine \<Rightarrow> pillarQuery \<Rightarrow> string \<Rightarrow> node list
   \<Rightarrow> nat option \<times> node list" where
  "findNearbyConnectionNode frontageLines currentPolygonId ge pillars now nodes =
     (case unionFrontageLines frontageLines ge of
        None \<Rightarrow> (None, nodes)
      | Some frontageUnion \<Rightarrow>
          (let frontageBuffer = ge_buffer ge frontageUnion SHARING_THRESHOLD
           in case scanNodes ge frontageBuffer frontageUnion currentPolygonId nodes 0 None of
                Found i \<Rightarrow> (Some i, nodes)
              | Best best \<Rightarrow>
                  (case (case pillars of
                           QueryResult features \<Rightarrow>
                             pillarLoop ge frontageUnion currentPolygonId now features nodes best
                         | _ \<Rightarrow> (Best best, nodes)) of
                     (Found k, nodes1) \<Rightarrow> (Some k, nodes1)
                   | (Best None, nodes1) \<Rightarrow> (None, nodes1)
                   | (Best (Some (b, d)), nodes1) \<Rightarrow>
                       (Some b, nodes1[b := addProperty currentPolygonId (nodes1 ! b)]))))"

text \<open>\<open>node.propertyCentroids[polygonId] = propertyCentroid\<close>.\<close>

fun setKey :: "string \<Rightarrow> point \<Rightarrow> (string \<times> point) list \<Rightarrow> (string \<times> point) list" where
  "setKey k v [] = [(k, v)]"
| "setKey k v ((k', v') # kvs) = (if k' = k then (k, v) # kvs else (k', v') # setKey k v kvs)"

definition storeCentroid :: "jsval \<Rightarrow> point \<Rightarrow> node \<Rightarrow> node" where
  "storeCentroid pid propertyCentroid n =
     n\<lparr>propertyCentroids :=
         Some (setKey (jsString pid) propertyCentroid
                 (case propertyCentroids n of None \<Rightarrow> [] | Some m \<Rightarrow> m))\<rparr>"

text \<open>
  \<open>generateOrFindConnectionNode\<close>, one call run to its end: the node it resolves
  to (or \<open>null\<close>), or the exception it is rejected with, and the state it leaves.
\<close>

definition generateOrFindConnectionNode ::
  "graphic \<Rightarrow> lineFeature list \<Rightarrow> geometryEngine \<Rightarrow> pillarQuery \<Rightarrow> string \<Rightarrow> string
   \<Rightarrow> registryState \<Rightarrow> (string + node option) \<times> registryState" where
  "generateOrFindConnectionNode polygonGraphic frontageLines ge pillars now stamp st =
     (if frontageLines = [] then (Inr None, st)
      else
        (let pid = polygonId (g_attributes polygonGraphic);
             workingPolygonGeometry = ensureWebMercator (g_geometry polygonGraphic) ge;
             propertyCentroid = ge_centroid ge workingPolygonGeometry
         in case calculatePotentialNodePositions frontageLines workingPolygonGeometry ge of
              Inl e \<Rightarrow> (Inl e, st)
            | Inr positions \<Rightarrow>
                (case findNearbyConnectionNode frontageLines pid ge pillars now
                        (electricalNodes st) of
                   (Some i, nodes1) \<Rightarrow>
                     (let nearbyNode = storeCentroid pid propertyCentroid (nodes1 ! i)
                      in case removePotentialNodesForProperty pid
                                (st\<lparr>electricalNodes := nodes1[i := nearbyNode]\<rparr>) of
                           (Some e, st') \<Rightarrow> (Inl e, st')
                         | (None, st') \<Rightarrow> (Inr (Some nearbyNode), st'))
                 | (None, nodes1) \<Rightarrow>
                     (case createAndRenderPotentialNode positions pid now stamp
                             (st\<lparr>electricalNodes := nodes1\<rparr>) of
                        (Inl e, st') \<Rightarrow> (Inl e, st')
                      | (Inr potentialNode, st') \<Rightarrow>
                          (let stored = storeCentroid pid propertyCentroid potentialNode
                           in (Inr (Some stored),
                               st'\<lparr>electricalNodes :=
                                    butlast (electricalNodes st') @ [stored]\<rparr>))))))"

text \<open>\<open>removeAllPotentialNodes\<close>, run when a polygon is selected or deselected.\<close>

definition removeAllPotentialNodes :: "registryState \<Rightarrow> registryState" where
  "removeAllPotentialNodes st =
     (if filter isPotential (electricalNodes st) = [] then st
      else st\<lparr>electricalNodes := filter (\<lambda>node. \<not> isPotential node) (electricalNodes st),
              electricalLayer :=
                map_option (filter (\<lambda>g. \<not> isPotentialGraphic g)) (electricalLayer st)\<rparr>)"

text \<open>
  The tests of the registry code on a node and a parcel: the node is an actual one
  holding the parcel (the first test of the scan of \<open>findNearbyConnectionNode\<close>),
  it is a potential one holding the parcel (the filter of
  \<open>removePotentialNodesForProperty\<close>), it is an actual one that the scan either
  returns or measures.
\<close>

definition serving :: "jsval \<Rightarrow> node \<Rightarrow> bool" where
  "serving p n \<longleftrightarrow> \<not> isPotential n \<and> p \<in> set (properties n)"

definition potentialFor :: "jsval \<Rightarrow> node \<Rightarrow> bool" where
  "potentialFor p n \<longleftrightarrow> isPotential n \<and> p \<in> set (properties n)"

definition candidate :: "geometryEngine \<Rightarrow> geometry \<Rightarrow> jsval \<Rightarrow> node \<Rightarrow> bool" where
  "candidate ge B p n \<longleftrightarrow>
     \<not> isPotential n \<and> (p \<in> set (properties n) \<or> ge_contains ge B (position n))"

section \<open>An engine of rectangles, to run the model\<close>

text \<open>
  A small engine for the worked examples: every geometry counts as its bounding box,
  distances are measured in the maximum norm, and a polygon is cut by the vertical line
  through the first point of the cutting line.
\<close>

fun lo :: "real list \<Rightarrow> real" where
  "lo [] = 0"
| "lo [x] = x"
| "lo (x # y # ys) = (if x \<le> lo (y # ys) then x else lo (y # ys))"

fun hi :: "real list \<Rightarrow> real" where
  "hi [] = 0"
| "hi [x] = x"
| "hi (x # y # ys) = (if hi (y # ys) \<le> x then x else hi (y # ys))"

fun coordsOf :: "geometry \<Rightarrow> coord list" where
  "coordsOf (Point p) = [(px p, py p)]"
| "coordsOf (Polyline ps w) = concat ps"
| "coordsOf (Polygon rs w) = concat rs"

text \<open>The bounding box of a geometry: its least and greatest \<open>x\<close> and \<open>y\<close>.\<close>

definition xlo :: "geometry \<Rightarrow> real" where "xlo g = lo (map fst (coordsOf g))"
definition xhi :: "geometry \<Rightarrow> real" where "xhi g = hi (map fst (coordsOf g))"
definition ylo :: "geometry \<Rightarrow> real" where "ylo g = lo (map snd (coordsOf g))"
definition yhi :: "geometry \<Rightarrow> real" where "yhi g = hi (map snd (coordsOf g))"

text \<open>How far a value lies outside an interval, and the nearest value inside it.\<close>

definition outside :: "real \<Rightarrow> real \<Rightarrow> real \<Rightarrow> real" where
  "outside a b v = (if v < a then a - v else if b < v then v - b else 0)"

definition clamp :: "real \<Rightarrow> real \<Rightarrow> real \<Rightarrow> real" where
  "clamp a b v = (if v < a then a else if b < v then b else v)"

definition boxDistance :: "point \<Rightarrow> geometry \<Rightarrow> real" where
  "boxDistance p g =
     (if outside (xlo g) (xhi g) (px p) \<le> outside (ylo g) (yhi g) (py p)
      then outside (ylo g) (yhi g) (py p)
      else outside (xlo g) (xhi g) (px p))"

definition rectangle :: "real \<Rightarrow> real \<Rightarrow> real \<Rightarrow> real \<Rightarrow> nat \<Rightarrow> geometry" where
  "rectangle x0 y0 x1 y1 w = Polygon [[(x0, y0), (x1, y0), (x1, y1), (x0, y1), (x0, y0)]] w"

definition boxCut :: "geometry \<Rightarrow> geometry \<Rightarrow> geometry list option" where
  "boxCut poly line =
     (case coordsOf line of
        [] \<Rightarrow> None
      | (c, _) # _ \<Rightarrow>
          if xlo poly < c \<and> c < xhi poly
          then Some [rectangle (xlo poly) (ylo poly) c (yhi poly) (wkid poly),
                     rectangle c (ylo poly) (xhi poly) (yhi poly) (wkid poly)]
          else None)"

fun reproject :: "geometry \<Rightarrow> geometry" where
  "reproject (Point p) = Point (p\<lparr>pwkid := 102100\<rparr>)"
| "reproject (Polyline ps w) = Polyline ps 102100"
| "reproject (Polygon rs w) = Polygon rs 102100"

definition boxBuffer :: "geometry \<Rightarrow> real \<Rightarrow> geometry" where
  "boxBuffer g d = rectangle (xlo g - d) (ylo g - d) (xhi g + d) (yhi g + d) (wkid g)"

definition boxNearest :: "geometry \<Rightarrow> point \<Rightarrow> (point \<times> real) option" where
  "boxNearest g p =
     Some (\<lparr>px = clamp (xlo g) (xhi g) (px p), py = clamp (ylo g) (yhi g) (py p),
            pwkid = wkid g\<rparr>,
           boxDistance p g)"

definition boxCentroid :: "geometry \<Rightarrow> point" where
  "boxCentroid g = \<lparr>px = (xlo g + xhi g) / 2, py = (ylo g + yhi g) / 2, pwkid = wkid g\<rparr>"

definition boxEngine :: geometryEngine where
  "boxEngine =
     \<lparr>ge_distance = boxDistance,
      ge_contains = (\<lambda>g p. boxDistance p g = 0),
      ge_buffer = boxBuffer,
      ge_union = (\<lambda>a b. Polyline [coordsOf a @ coordsOf b] (wkid a)),
      ge_project = reproject,
      ge_projectPoint = (\<lambda>p. p\<lparr>pwkid := 102100\<rparr>),
      ge_cut = boxCut,
      ge_nearestCoordinate = boxNearest,
      ge_centroid = boxCentroid\<rparr>"

section \<open>A parcel and a session for the worked examples\<close>

definition exampleParcel :: graphic where
  "exampleParcel =
     \<lparr>g_geometry = rectangle 0 0 20 20 102100, g_attributes = [(''objectid'', JNum 7)]\<rparr>"

definition exampleFrontage :: lineFeature where
  "exampleFrontage =
     \<lparr>lf_paths = [[(0, 0), (20, 0)]], lf_wkid = 102100,
      lf_attributes = [(''usage_code'', JNum 1)]\<rparr>"

definition exampleSession :: subdivisionState where
  "exampleSession =
     \<lparr>subdivisionMode = True,
      currentPolygonGeometry = Some (g_geometry exampleParcel),
      currentPolygonGraphic = Some exampleParcel,
      drawingPoints = [],
      subdivisionLayer = [],
      currentFrontageLines = Some [exampleFrontage],
      subPolygonData = None,
      alerts = []\<rparr>"

definition exampleDrawn :: subdivisionState where
  "exampleDrawn =
     exampleSession\<lparr>subdivisionLayer :=
       [SubdivisionLine (Polyline [[(10, 0), (10, 20)]] 102100) ''boundary to boundary'' 2]\<rparr>"

text \<open>
  The nodes of the worked examples: the potential node that a call for the example
  parcel creates, two pillars south of its frontage, and the nodes they are registered as.
\<close>

definition examplePotentialNode :: "string \<Rightarrow> string \<Rightarrow> node" where
  "examplePotentialNode now stamp =
     \<lparr>nid = JStr (''POTENTIAL_'' @ stamp),
      ntype = ''potential_service_point'',
      position = \<lparr>px = 20, py = 10, pwkid = 102100\<rparr>,
      properties = [JNum 7],
      createdAt = now,
      side = Some right,
      isPotential = True,
      isPillar = False,
      propertyCentroids = Some [(''7'', \<lparr>px = 10, py = 10, pwkid = 102100\<rparr>)]\<rparr>"

definition examplePillars :: "pillarFeature list" where
  "examplePillars =
     [\<lparr>pf_pick_id = JStr ''P1'', pf_geometry = \<lparr>px = 5, py = -3, pwkid = 102100\<rparr>\<rparr>,
      \<lparr>pf_pick_id = JStr ''P2'', pf_geometry = \<lparr>px = 15, py = -8, pwkid = 102100\<rparr>\<rparr>]"

definition examplePillarNode :: "string \<Rightarrow> point \<Rightarrow> jsval list \<Rightarrow> string \<Rightarrow> node" where
  "examplePillarNode pick pos served now =
     \<lparr>nid = JStr pick, ntype = ''pillar'', position = pos, properties = served,
      createdAt = now, side = None, isPotential = False, isPillar = True,
      propertyCentroids = None\<rparr>"

section \<open>Verification: identifiers, classification and the distance filters\<close>

lemma boxEngine_sel:
  "ge_distance boxEngine = boxDistance"
  "ge_contains boxEngine = (\<lambda>g p. boxDistance p g = 0)"
  "ge_buffer boxEngine = boxBuffer"
  "ge_union boxEngine = (\<lambda>a b. Polyline [coordsOf a @ coordsOf b] (wkid a))"
  "ge_project boxEngine = reproject"
  "ge_projectPoint boxEngine = (\<lambda>p. p\<lparr>pwkid := 102100\<rparr>)"
  "ge_cut boxEngine = boxCut"
  "ge_nearestCoordinate boxEngine = boxNearest"
  "ge_centroid boxEngine = boxCentroid"
  by (simp_all add: boxEngine_def)

lemmas box_simps =
  boxEngine_sel boxDistance_def mkPoint_def rectangle_def boxCut_def boxBuffer_def
  boxNearest_def boxCentroid_def xlo_def xhi_def ylo_def yhi_def outside_def clamp_def

lemmas example_simps =
  exampleParcel_def exampleFrontage_def exampleSession_def exampleDrawn_def

lemma truthy_nonnull: "truthy v \<Longrightarrow> v \<noteq> JUndefined \<and> v \<noteq> JNull"
  by (cases v) auto

text \<open>
  C8, as the code has it. The three fields are read in the order \<open>objectid\<close>,
  \<open>__OBJECTID\<close>, \<open>OBJECTID\<close> and the first truthy value wins: \<open>undefined\<close>,
  \<open>null\<close>, \<open>0\<close>, the empty string and \<open>false\<close> are passed over. When no field is
  truthy the result is the value of \<open>OBJECTID\<close> (in \<open>completeSubdivision\<close>, the
  string \<open>Unknown\<close>). The first non-null value wins whenever it is truthy.
\<close>

theorem polygonId_first_truthy:
  "polygonId a =
     (case List.find truthy
             [getAttr a ''objectid'', getAttr a ''__OBJECTID'', getAttr a ''OBJECTID''] of
        Some v \<Rightarrow> v | None \<Rightarrow> getAttr a ''OBJECTID'')
   \<and> originalPolygonId a =
     (case List.find truthy
             [getAttr a ''objectid'', getAttr a ''__OBJECTID'', getAttr a ''OBJECTID''] of
        Some v \<Rightarrow> v | None \<Rightarrow> JStr ''Unknown'')
   \<and> (List.find (\<lambda>v. v \<noteq> JUndefined \<and> v \<noteq> JNull)
         [getAttr a ''objectid'', getAttr a ''__OBJECTID'', getAttr a ''OBJECTID''] = Some w
        \<and> truthy w \<longrightarrow> polygonId a = w)"
  by (auto simp: polygonId_def originalPolygonId_def jsOr_def dest: truthy_nonnull
        split: if_splits)

theorem polygonId_first_truthy_witness:
  "polygonId [(''objectid'', JNull), (''__OBJECTID'', JNum 12), (''OBJECTID'', JNum 9)] = JNum 12
   \<and> originalPolygonId [(''objectid'', JNum 0)] = JStr ''Unknown''
   \<and> List.find (\<lambda>v. v \<noteq> JUndefined \<and> v \<noteq> JNull)
        [getAttr [(''objectid'', JNull), (''__OBJECTID'', JNum 12), (''OBJECTID'', JNum 9)]
           ''objectid'',
         getAttr [(''objectid'', JNull), (''__OBJECTID'', JNum 12), (''OBJECTID'', JNum 9)]
           ''__OBJECTID'',
         getAttr [(''objectid'', JNull), (''__OBJECTID'', JNum 12), (''OBJECTID'', JNum 9)]
           ''OBJECTID''] = Some (JNum 12)"
  using polygonId_first_truthy
          [of "[(''objectid'', JNull), (''__OBJECTID'', JNum 12), (''OBJECTID'', JNum 9)]"
              "JNum 12"]
        polygonId_first_truthy [of "[(''objectid'', JNum 0)]" "JNum 12"]
  by (simp add: getAttr_def)

text \<open>
  C8, as the claim has it, fails: a parcel whose \<open>objectid\<close> is the non-null value
  \<open>0\<close> does not resolve to \<open>0\<close>. It resolves to the next truthy field, or to
  \<open>undefined\<close> when there is none.
\<close>

theorem polygonId_zero_counterexample:
  "polygonId [(''objectid'', JNum 0), (''OBJECTID'', JNum 7)] = JNum 7
   \<and> polygonId [(''objectid'', JNum 0)] = JUndefined"
  by (simp add: polygonId_def jsOr_def getAttr_def)

text \<open>
  C3. Every boundary line gets exactly one of the three labels. It is frontage iff
  its usage code is \<open>1\<close>, \<open>"1-Y"\<close> or \<open>"1-N"\<close>, or its render-normal is \<open>"1-Y"\<close>
  or \<open>"1-N"\<close>; it is interior iff its usage code is \<open>2\<close> and it is not frontage;
  it is other in every remaining case. The frontage filter agrees with the label. A
  line with usage code \<open>1\<close> and a line with render-normal \<open>"1-Y"\<close> are frontage.
\<close>

theorem usageLabel_classification:
  "(usageLabel a = FRONTAGE \<longleftrightarrow>
      getAttr a ''usage_code'' \<in> {JNum 1, JStr ''1-Y'', JStr ''1-N''}
      \<or> getAttr a ''render_normal'' \<in> {JStr ''1-Y'', JStr ''1-N''})
   \<and> (usageLabel a = INTERIOR \<longleftrightarrow>
      getAttr a ''usage_code'' = JNum 2 \<and> usageLabel a \<noteq> FRONTAGE)
   \<and> (usageLabel a = OTHER \<longleftrightarrow>
      usageLabel a \<noteq> FRONTAGE \<and> getAttr a ''usage_code'' \<noteq> JNum 2)
   \<and> (isFrontage a \<longleftrightarrow> usageLabel a = FRONTAGE)
   \<and> usageLabel [(''usage_code'', JNum 1)] = FRONTAGE
   \<and> usageLabel [(''render_normal'', JStr ''1-Y'')] = FRONTAGE"
  by (auto simp: usageLabel_def isFrontage_def Let_def getAttr_def)

theorem usageLabel_classification_witness:
  "usageLabel [(''usage_code'', JNum 2), (''render_normal'', JStr ''1-N'')] = FRONTAGE
   \<and> usageLabel [(''usage_code'', JNum 2)] = INTERIOR
   \<and> usageLabel [(''usage_code'', JStr ''2'')] = OTHER
   \<and> isFrontage [(''usage_code'', JStr ''1-Y'')]"
  using usageLabel_classification
          [of "[(''usage_code'', JNum 2), (''render_normal'', JStr ''1-N'')]"]
        usageLabel_classification [of "[(''usage_code'', JNum 2)]"]
        usageLabel_classification [of "[(''usage_code'', JStr ''2'')]"]
        usageLabel_classification [of "[(''usage_code'', JStr ''1-Y'')]"]
  by (simp add: getAttr_def)

text \<open>
  C4. The matcher is true iff the distance from the start point of the edge to the
  reference line and the distance from its end point to the reference line are both
  at most 2 meters; nothing else of the edge is looked at. Its result does not change
  when the two ends of the edge are swapped.
\<close>

theorem edgeMatchesFrontageLine_endpoints:
  "(edgeMatchesFrontageLine e line ge sr \<longleftrightarrow>
      ge_distance ge (mkPoint (edge_start e) sr) line \<le> 2
      \<and> ge_distance ge (mkPoint (edge_end e) sr) line \<le> 2)
   \<and> edgeMatchesFrontageLine \<lparr>edge_start = edge_end e, edge_end = edge_start e\<rparr> line ge sr
       = edgeMatchesFrontageLine e line ge sr"
  by (auto simp: edgeMatchesFrontageLine_def Let_def)

theorem edgeMatchesFrontageLine_endpoints_witness:
  "edgeMatchesFrontageLine \<lparr>edge_start = (0, 0), edge_end = (10, 1)\<rparr>
     (Polyline [[(0, 0), (10, 0)]] 102100) boxEngine 102100
   \<and> \<not> edgeMatchesFrontageLine \<lparr>edge_start = (10, 3), edge_end = (0, 0)\<rparr>
     (Polyline [[(0, 0), (10, 0)]] 102100) boxEngine 102100"
  using edgeMatchesFrontageLine_endpoints
          [of "\<lparr>edge_start = (0, 0), edge_end = (10, 1)\<rparr>" "Polyline [[(0, 0), (10, 0)]] 102100"
              boxEngine 102100]
        edgeMatchesFrontageLine_endpoints
          [of "\<lparr>edge_start = (0, 0), edge_end = (10, 3)\<rparr>" "Polyline [[(0, 0), (10, 0)]] 102100"
              boxEngine 102100]
  by (simp add: box_simps)

text \<open>
  C7. A queried line is among the valid lines only if both ends of its first path
  are within 1.5 meters of the polygon geometry. The frontage lines are taken from the
  valid lines, so a line that fails the test is in neither list, whatever its usage
  code says.
\<close>

theorem validLines_both_endpoints_close:
  "(f \<in> set (validLines ge polygonGeometry features) \<longrightarrow>
      f \<in> set features
      \<and> (\<exists>path rest. lf_paths f = path # rest \<and> 2 \<le> length path
           \<and> ge_distance ge (mkPoint (hd path) (lf_wkid f)) polygonGeometry \<le> 1.5
           \<and> ge_distance ge (mkPoint (last path) (lf_wkid f)) polygonGeometry \<le> 1.5))
   \<and> (f \<in> set (frontageLinesOf ge polygonGeometry features) \<longrightarrow>
      f \<in> set (validLines ge polygonGeometry features))
   \<and> (lf_paths f = path # rest
      \<and> \<not> (ge_distance ge (mkPoint (hd path) (lf_wkid f)) polygonGeometry \<le> 1.5
            \<and> ge_distance ge (mkPoint (last path) (lf_wkid f)) polygonGeometry \<le> 1.5)
      \<longrightarrow> f \<notin> set (validLines ge polygonGeometry features)
          \<and> f \<notin> set (frontageLinesOf ge polygonGeometry features))"
  by (auto simp: validLines_def frontageLinesOf_def validLine_def Let_def
        ENDPOINT_DISTANCE_THRESHOLD_def split: list.splits if_splits)

theorem validLines_both_endpoints_close_witness:
  "frontageLinesOf boxEngine (rectangle 0 0 20 20 102100)
     [\<lparr>lf_paths = [[(0, -1), (20, -1)]], lf_wkid = 102100,
        lf_attributes = [(''usage_code'', JNum 1)]\<rparr>,
      \<lparr>lf_paths = [[(0, -1), (25, -1)]], lf_wkid = 102100,
        lf_attributes = [(''usage_code'', JNum 1)]\<rparr>]
     = [\<lparr>lf_paths = [[(0, -1), (20, -1)]], lf_wkid = 102100,
          lf_attributes = [(''usage_code'', JNum 1)]\<rparr>]
   \<and> isFrontage [(''usage_code'', JNum 1)]
   \<and> ge_distance boxEngine (mkPoint (25, -1) 102100) (rectangle 0 0 20 20 102100) = 5"
  using validLines_both_endpoints_close
          [of "\<lparr>lf_paths = [[(0, -1), (20, -1)]], lf_wkid = 102100,
                 lf_attributes = [(''usage_code'', JNum 1)]\<rparr>"
              boxEngine "rectangle 0 0 20 20 102100"
              "[\<lparr>lf_paths = [[(0, -1), (20, -1)]], lf_wkid = 102100,
                  lf_attributes = [(''usage_code'', JNum 1)]\<rparr>,
                \<lparr>lf_paths = [[(0, -1), (25, -1)]], lf_wkid = 102100,
                  lf_attributes = [(''usage_code'', JNum 1)]\<rparr>]"
              "[(0, -1), (20, -1)]" "[]"]
        validLines_both_endpoints_close
          [of "\<lparr>lf_paths = [[(0, -1), (25, -1)]], lf_wkid = 102100,
                 lf_attributes = [(''usage_code'', JNum 1)]\<rparr>"
              boxEngine "rectangle 0 0 20 20 102100"
              "[\<lparr>lf_paths = [[(0, -1), (20, -1)]], lf_wkid = 102100,
                  lf_attributes = [(''usage_code'', JNum 1)]\<rparr>,
                \<lparr>lf_paths = [[(0, -1), (25, -1)]], lf_wkid = 102100,
                  lf_attributes = [(''usage_code'', JNum 1)]\<rparr>]"
              "[(0, -1), (25, -1)]" "[]"]
  by (simp add: box_simps validLines_def frontageLinesOf_def validLine_def Let_def
        ENDPOINT_DISTANCE_THRESHOLD_def isFrontage_def getAttr_def)

section \<open>Verification: the cut loop\<close>

lemma cutAll_snoc: "cutAll ge (ls @ [l]) ps = cutEach ge l (cutAll ge ls ps)"
  by (induction ls arbitrary: ps) simp_all

lemma cutEach_append: "cutEach ge l (ps1 @ ps2) = cutEach ge l ps1 @ cutEach ge l ps2"
  by (induction ps1) (simp_all split: option.splits list.splits)

lemma cutAll_all_fail:
  "\<forall>l \<in> set ls. ge_cut ge g l = None \<or> ge_cut ge g l = Some [] \<Longrightarrow> cutAll ge ls [g] = [g]"
  by (induction ls) auto

lemma frontageResults_single_ring:
  "\<exists>fl. frontageResults ge parent opid i [Polygon (ring # rings) w]
     = Inr [\<lparr>spr_geometry = Polygon (ring # rings) w, spr_frontageLines = fl,
              spr_index = i, spr_originalPolygonId = opid\<rparr>]"
  by (simp add: calculateSubPolygonFrontage_def extractPolygonEdges_def)

lemma frontageResults_geometry:
  "frontageResults ge parent opid i ps = Inr rs \<Longrightarrow> map spr_geometry rs = ps"
proof (induction ps arbitrary: i rs)
  case Nil
  then show ?case by simp
next
  case (Cons p ps)
  then show ?case by (auto split: sum.splits)
qed








text \<open>The two ways out of \<open>completeSubdivision\<close> past its guards.\<close>

lemma completeSubdivision_outcome:
  assumes "currentPolygonGeometry s = Some g"
    and "currentPolygonGraphic s = Some gr"
    and "getSubdivisionLines (subdivisionLayer s) \<noteq> []"
    and "completionBody ge fault er g gr (getSubdivisionLines (subdivisionLayer s))
           (case currentFrontageLines s of None \<Rightarrow> [] | Some fl \<Rightarrow> fl) s = (r, s')"
  shows "completeSubdivision ge fault er s =
           (case r of
              Inr n \<Rightarrow> disableSubdivisionMode (s'\<lparr>alerts := alerts s' @ [SubdivisionComplete n]\<rparr>)
            | Inl msg \<Rightarrow> s'\<lparr>alerts := alerts s' @ [SubdivisionFailed msg]\<rparr>)"
  using assms by (simp add: completeSubdivision_def Let_def split: sum.splits)



lemma propagateFrontage_plain:
  "\<forall>m. fault \<noteq> Some (FrontageStep, m) \<Longrightarrow>
     propagateFrontage ge fault F opid ps = frontageResults ge F opid 0 ps"
  by (auto simp: propagateFrontage_def split: option.splits prod.splits step.splits)

lemma body_after_cut:
  assumes "\<forall>m. fault \<noteq> Some (CutStep, m)"
  shows "completionBody ge fault er g gr L F s =
     (case propagateFrontage ge fault F (originalPolygonId (g_attributes gr)) (cutAll ge L [g]) of
        Inl e \<Rightarrow> (Inl e, s)
      | Inr rs \<Rightarrow>
          (case renderSubPolygons fault rs s of
             (Some msg, s1) \<Rightarrow> (Inl msg, s1)
           | (None, s2) \<Rightarrow>
               (case updateNodeVisualizationForSubPolygons fault er rs s2 of
                  (Some msg, s3) \<Rightarrow> (Inl msg, s3)
                | (None, s3) \<Rightarrow> (Inr (length (cutAll ge L [g])), s3))))"
  using assms
  by (auto simp: completionBody_def Let_def split: option.splits prod.splits step.splits)

lemma body_frontage_error:
  assumes "\<forall>m. fault \<noteq> Some (CutStep, m)" and "\<forall>m. fault \<noteq> Some (FrontageStep, m)"
    and "frontageResults ge F (originalPolygonId (g_attributes gr)) 0 (cutAll ge L [g]) = Inl e"
  shows "completionBody ge fault er g gr L F s = (Inl e, s)"
  by (simp add: body_after_cut [OF assms(1)] propagateFrontage_plain [OF assms(2)] assms(3))





lemma body_success:
  assumes "frontageResults ge F (originalPolygonId (g_attributes gr)) 0 (cutAll ge L [g]) = Inr rs"
    and "fault = None \<or> fault = Some (AssignStep, msg) \<or> fault = Some (SetbackStep, msg)"
  shows "completionBody ge fault er g gr L F s
     = (Inr (length (cutAll ge L [g])),
        if concat (map spr_frontageLines rs) \<noteq> [] \<and> er
        then s\<lparr>subPolygonData := Some rs,
               subdivisionLayer := subdivisionLayer s @ renderedGraphics 0 rs,
               currentFrontageLines := Some (concat (map spr_frontageLines rs))\<rparr>
        else s\<lparr>subPolygonData := Some rs,
               subdivisionLayer := subdivisionLayer s @ renderedGraphics 0 rs\<rparr>)"
proof -
  from assms(2) have c: "\<forall>m. fault \<noteq> Some (CutStep, m)" and f: "\<forall>m. fault \<noteq> Some (FrontageStep, m)"
    by auto
  from assms(2) show ?thesis
    by (auto simp: body_after_cut [OF c] propagateFrontage_plain [OF f] assms(1)
          renderSubPolygons_def Let_def updateNodeVisualizationForSubPolygons_def
          updateNodeVisualizationForProperty_def
          simp del: frontageResults.simps)
qed

lemma frontageResults_total:
  "\<forall>p \<in> set ps. \<exists>ring rings w. p = Polygon (ring # rings) w \<Longrightarrow>
     \<exists>rs. frontageResults ge parent opid i ps = Inr rs"
proof (induction ps arbitrary: i)
  case Nil
  then show ?case by simp
next
  case (Cons p ps)
  then obtain ring rings w where p: "p = Polygon (ring # rings) w"
    by auto
  from Cons obtain rs where "frontageResults ge parent opid (Suc i) ps = Inr rs"
    by fastforce
  with p show ?case
    by (auto simp: calculateSubPolygonFrontage_def extractPolygonEdges_def)
qed

text \<open>
  C6. The lines cut in the order they were drawn: the last line cuts what the lines
  before it left. A line cuts every polygon of the working list, and each polygon is
  replaced, at its place, by the pieces of its cut, or kept as it is when the cut gives
  \<open>null\<close> or an empty array. The completion runs this loop over the drawn lines,
  from the selected parcel alone: when no exception is thrown, the sub-polygons it
  stores and counts are those the loop leaves, and the only failure it can report is
  the one of the frontage propagation. A failed cut is no error: when every cut of the
  parcel fails, the completion still succeeds, with the parcel as its one sub-polygon.
\<close>

theorem cut_failure_keeps_polygon:
  "cutAll ge (ls @ [l]) ps = cutEach ge l (cutAll ge ls ps)
   \<and> cutEach ge l (ps1 @ p # ps2) =
       cutEach ge l ps1
       @ (case ge_cut ge p l of None \<Rightarrow> [p] | Some [] \<Rightarrow> [p] | Some (r # rs) \<Rightarrow> r # rs)
       @ cutEach ge l ps2
   \<and> (currentPolygonGeometry s = Some g
      \<and> currentPolygonGraphic s = Some gr
      \<and> getSubdivisionLines (subdivisionLayer s) \<noteq> []
      \<longrightarrow> (\<forall>results.
             frontageResults ge (case currentFrontageLines s of None \<Rightarrow> [] | Some fl \<Rightarrow> fl)
               (originalPolygonId (g_attributes gr)) 0
               (cutAll ge (getSubdivisionLines (subdivisionLayer s)) [g]) = Inr results
             \<longrightarrow> subPolygonData (completeSubdivision ge None er s) = Some results
                 \<and> map spr_geometry results
                     = cutAll ge (getSubdivisionLines (subdivisionLayer s)) [g]
                 \<and> alerts (completeSubdivision ge None er s)
                     = alerts s @ [SubdivisionComplete
                         (length (cutAll ge (getSubdivisionLines (subdivisionLayer s)) [g]))])
          \<and> (\<forall>m. alerts (completeSubdivision ge None er s) = alerts s @ [SubdivisionFailed m]
                \<longrightarrow> frontageResults ge
                      (case currentFrontageLines s of None \<Rightarrow> [] | Some fl \<Rightarrow> fl)
                      (originalPolygonId (g_attributes gr)) 0
                      (cutAll ge (getSubdivisionLines (subdivisionLayer s)) [g]) = Inl m))
   \<and> (currentPolygonGeometry s = Some (Polygon (ring # rings) w)
      \<and> currentPolygonGraphic s = Some gr
      \<and> getSubdivisionLines (subdivisionLayer s) \<noteq> []
      \<and> (\<forall>line \<in> set (getSubdivisionLines (subdivisionLayer s)).
            ge_cut ge (Polygon (ring # rings) w) line = None
            \<or> ge_cut ge (Polygon (ring # rings) w) line = Some [])
      \<longrightarrow> alerts (completeSubdivision ge None er s) = alerts s @ [SubdivisionComplete 1]
          \<and> map_option (map spr_geometry) (subPolygonData (completeSubdivision ge None er s))
              = Some [Polygon (ring # rings) w])"
proof (intro conjI impI allI)
  show "cutAll ge (ls @ [l]) ps = cutEach ge l (cutAll ge ls ps)"
    by (rule cutAll_snoc)
  show "cutEach ge l (ps1 @ p # ps2) =
       cutEach ge l ps1
       @ (case ge_cut ge p l of None \<Rightarrow> [p] | Some [] \<Rightarrow> [p] | Some (r # rs) \<Rightarrow> r # rs)
       @ cutEach ge l ps2"
    by (simp add: cutEach_append split: option.splits list.splits)
next
  fix results
  let ?L = "getSubdivisionLines (subdivisionLayer s)"
  let ?F = "case currentFrontageLines s of None \<Rightarrow> [] | Some fl \<Rightarrow> fl"
  assume a: "currentPolygonGeometry s = Some g
      \<and> currentPolygonGraphic s = Some gr
      \<and> getSubdivisionLines (subdivisionLayer s) \<noteq> []"
    and f: "frontageResults ge ?F (originalPolygonId (g_attributes gr)) 0 (cutAll ge ?L [g])
      = Inr results"
  from a have h: "currentPolygonGeometry s = Some g" "currentPolygonGraphic s = Some gr" "?L \<noteq> []"
    by simp_all
  have b: "\<exists>s'. completionBody ge None er g gr ?L ?F s = (Inr (length (cutAll ge ?L [g])), s')
      \<and> subPolygonData s' = Some results \<and> alerts s' = alerts s"
    by (simp add: body_success [OF f disjI1 [OF refl]])
  then obtain s' where s': "completionBody ge None er g gr ?L ?F s = (Inr (length (cutAll ge ?L [g])), s')"
    "subPolygonData s' = Some results" "alerts s' = alerts s"
    by blast
  note out = completeSubdivision_outcome [OF h s'(1)]
  show "subPolygonData (completeSubdivision ge None er s) = Some results"
    unfolding out using s'(2) by (simp add: disableSubdivisionMode_def)
  show "map spr_geometry results = cutAll ge ?L [g]"
    using f by (rule frontageResults_geometry)
  show "alerts (completeSubdivision ge None er s)
      = alerts s @ [SubdivisionComplete (length (cutAll ge ?L [g]))]"
    unfolding out using s'(3) by (simp add: disableSubdivisionMode_def)
next
  fix m
  let ?L = "getSubdivisionLines (subdivisionLayer s)"
  let ?F = "case currentFrontageLines s of None \<Rightarrow> [] | Some fl \<Rightarrow> fl"
  let ?R = "frontageResults ge ?F (originalPolygonId (g_attributes gr)) 0 (cutAll ge ?L [g])"
  assume a: "currentPolygonGeometry s = Some g
      \<and> currentPolygonGraphic s = Some gr
      \<and> getSubdivisionLines (subdivisionLayer s) \<noteq> []"
    and failed: "alerts (completeSubdivision ge None er s) = alerts s @ [SubdivisionFailed m]"
  from a have h: "currentPolygonGeometry s = Some g" "currentPolygonGraphic s = Some gr" "?L \<noteq> []"
    by simp_all
  show "?R = Inl m"
  proof (cases ?R)
    case (Inl e)
    have "completionBody ge None er g gr ?L ?F s = (Inl e, s)"
      by (rule body_frontage_error [OF _ _ Inl]) simp_all
    from completeSubdivision_outcome [OF h this] failed have "e = m"
      by simp
    with Inl show ?thesis by simp
  next
    case (Inr results)
    have "\<exists>s'. completionBody ge None er g gr ?L ?F s = (Inr (length (cutAll ge ?L [g])), s')
        \<and> alerts s' = alerts s"
      by (simp add: body_success [OF Inr disjI1 [OF refl]])
    then obtain s' where s': "completionBody ge None er g gr ?L ?F s
        = (Inr (length (cutAll ge ?L [g])), s')" "alerts s' = alerts s"
      by blast
    from completeSubdivision_outcome [OF h s'(1)] s'(2) failed show ?thesis
      by (simp add: disableSubdivisionMode_def)
  qed
next
  assume a: "currentPolygonGeometry s = Some (Polygon (ring # rings) w)
      \<and> currentPolygonGraphic s = Some gr
      \<and> getSubdivisionLines (subdivisionLayer s) \<noteq> []
      \<and> (\<forall>line \<in> set (getSubdivisionLines (subdivisionLayer s)).
            ge_cut ge (Polygon (ring # rings) w) line = None
            \<or> ge_cut ge (Polygon (ring # rings) w) line = Some [])"
  let ?g = "Polygon (ring # rings) w"
  let ?L = "getSubdivisionLines (subdivisionLayer s)"
  let ?F = "case currentFrontageLines s of None \<Rightarrow> [] | Some fl \<Rightarrow> fl"
  from a have h: "currentPolygonGeometry s = Some ?g" "currentPolygonGraphic s = Some gr" "?L \<noteq> []"
    by simp_all
  from a have cut: "cutAll ge ?L [?g] = [?g]"
    by (intro cutAll_all_fail) simp
  obtain fl where "frontageResults ge ?F (originalPolygonId (g_attributes gr)) 0 [?g]
     = Inr [\<lparr>spr_geometry = ?g, spr_frontageLines = fl, spr_index = 0,
             spr_originalPolygonId = originalPolygonId (g_attributes gr)\<rparr>]"
    using frontageResults_single_ring by blast
  with cut have f: "frontageResults ge ?F (originalPolygonId (g_attributes gr)) 0 (cutAll ge ?L [?g])
     = Inr [\<lparr>spr_geometry = ?g, spr_frontageLines = fl, spr_index = 0,
             spr_originalPolygonId = originalPolygonId (g_attributes gr)\<rparr>]"
    by simp
  have "\<exists>s'. completionBody ge None er ?g gr ?L ?F s = (Inr (length (cutAll ge ?L [?g])), s')
      \<and> subPolygonData s' = Some [\<lparr>spr_geometry = ?g, spr_frontageLines = fl, spr_index = 0,
             spr_originalPolygonId = originalPolygonId (g_attributes gr)\<rparr>]
      \<and> alerts s' = alerts s"
    by (simp add: body_success [OF f disjI1 [OF refl]])
  then obtain s' where s': "completionBody ge None er ?g gr ?L ?F s
      = (Inr (length (cutAll ge ?L [?g])), s')"
    "subPolygonData s' = Some [\<lparr>spr_geometry = ?g, spr_frontageLines = fl, spr_index = 0,
             spr_originalPolygonId = originalPolygonId (g_attributes gr)\<rparr>]"
    "alerts s' = alerts s"
    by blast
  note out = completeSubdivision_outcome [OF h s'(1)]
  show "alerts (completeSubdivision ge None er s) = alerts s @ [SubdivisionComplete 1]"
    unfolding out using s'(3) cut by (simp add: disableSubdivisionMode_def)
  show "map_option (map spr_geometry) (subPolygonData (completeSubdivision ge None er s))
              = Some [?g]"
    unfolding out using s'(2) by (simp add: disableSubdivisionMode_def)
qed

theorem cut_failure_keeps_polygon_witness:
  "cutAll boxEngine
     [Polyline [[(10, 0), (10, 20)]] 102100, Polyline [[(5, 0), (5, 20)]] 102100]
     [rectangle 0 0 20 20 102100]
   = [rectangle 0 0 5 20 102100, rectangle 5 0 10 20 102100, rectangle 10 0 20 20 102100]
   \<and> map_option (map spr_geometry)
       (subPolygonData (completeSubdivision boxEngine None True
          (exampleSession\<lparr>subdivisionLayer :=
             [SubdivisionLine (Polyline [[(10, 0), (10, 20)]] 102100) ''boundary to boundary'' 2,
              SubdivisionLine (Polyline [[(5, 0), (5, 20)]] 102100) ''boundary to boundary'' 2]\<rparr>)))
     = Some [rectangle 0 0 5 20 102100, rectangle 5 0 10 20 102100, rectangle 10 0 20 20 102100]
   \<and> alerts (completeSubdivision boxEngine None True
        (exampleSession\<lparr>subdivisionLayer :=
           [SubdivisionLine (Polyline [[(10, 0), (10, 20)]] 102100) ''boundary to boundary'' 2,
            SubdivisionLine (Polyline [[(5, 0), (5, 20)]] 102100) ''boundary to boundary'' 2]\<rparr>))
     = [SubdivisionComplete 3]
   \<and> cutEach boxEngine (Polyline [[(30, 0), (30, 20)]] 102100)
       [rectangle 0 0 20 20 102100] = [rectangle 0 0 20 20 102100]
   \<and> alerts (completeSubdivision boxEngine None True
        (exampleSession\<lparr>subdivisionLayer :=
           [SubdivisionLine (Polyline [[(30, 0), (30, 20)]] 102100) ''boundary to boundary'' 2]\<rparr>))
      = [SubdivisionComplete 1]"
proof -
  let ?two = "exampleSession\<lparr>subdivisionLayer :=
             [SubdivisionLine (Polyline [[(10, 0), (10, 20)]] 102100) ''boundary to boundary'' 2,
              SubdivisionLine (Polyline [[(5, 0), (5, 20)]] 102100) ''boundary to boundary'' 2]\<rparr>"
  let ?far = "exampleSession\<lparr>subdivisionLayer :=
           [SubdivisionLine (Polyline [[(30, 0), (30, 20)]] 102100) ''boundary to boundary'' 2]\<rparr>"
  let ?pieces = "[rectangle 0 0 5 20 102100, rectangle 5 0 10 20 102100,
                  rectangle 10 0 20 20 102100]"
  have lines: "getSubdivisionLines (subdivisionLayer ?two)
      = [Polyline [[(10, 0), (10, 20)]] 102100, Polyline [[(5, 0), (5, 20)]] 102100]"
    by simp
  have cut: "cutAll boxEngine
      [Polyline [[(10, 0), (10, 20)]] 102100, Polyline [[(5, 0), (5, 20)]] 102100]
      [rectangle 0 0 20 20 102100] = ?pieces"
    by (simp add: box_simps)
  have guards: "currentPolygonGeometry ?two = Some (rectangle 0 0 20 20 102100)
      \<and> currentPolygonGraphic ?two = Some exampleParcel
      \<and> getSubdivisionLines (subdivisionLayer ?two) \<noteq> []"
    by (simp add: example_simps)
  have "\<exists>rs. frontageResults boxEngine
      (case currentFrontageLines ?two of None \<Rightarrow> [] | Some fl \<Rightarrow> fl)
      (originalPolygonId (g_attributes exampleParcel)) 0 ?pieces = Inr rs"
    by (rule frontageResults_total) (simp add: rectangle_def)
  then obtain rs where f: "frontageResults boxEngine
      (case currentFrontageLines ?two of None \<Rightarrow> [] | Some fl \<Rightarrow> fl)
      (originalPolygonId (g_attributes exampleParcel)) 0
      (cutAll boxEngine (getSubdivisionLines (subdivisionLayer ?two))
         [rectangle 0 0 20 20 102100]) = Inr rs"
    unfolding lines cut by blast
  note t = cut_failure_keeps_polygon
    [where ge = boxEngine and s = ?two and g = "rectangle 0 0 20 20 102100"
       and gr = exampleParcel and er = True,
     THEN conjunct2, THEN conjunct2, THEN conjunct1, THEN mp, OF guards,
     THEN conjunct1, THEN spec, THEN mp, OF f]
  from t have data: "subPolygonData (completeSubdivision boxEngine None True ?two) = Some rs"
    and geo: "map spr_geometry rs = ?pieces"
    and count: "alerts (completeSubdivision boxEngine None True ?two)
      = alerts ?two @ [SubdivisionComplete (length ?pieces)]"
    unfolding lines cut by simp_all
  have two: "map_option (map spr_geometry)
       (subPolygonData (completeSubdivision boxEngine None True ?two)) = Some ?pieces"
    unfolding data using geo by simp
  have three: "alerts (completeSubdivision boxEngine None True ?two) = [SubdivisionComplete 3]"
    unfolding count by (simp add: example_simps)
  have far: "currentPolygonGeometry ?far
        = Some (Polygon ([(0, 0), (20, 0), (20, 20), (0, 20), (0, 0)] # []) 102100)
      \<and> currentPolygonGraphic ?far = Some exampleParcel
      \<and> getSubdivisionLines (subdivisionLayer ?far) \<noteq> []
      \<and> (\<forall>line \<in> set (getSubdivisionLines (subdivisionLayer ?far)).
            ge_cut boxEngine (Polygon ([(0, 0), (20, 0), (20, 20), (0, 20), (0, 0)] # []) 102100) line
              = None
            \<or> ge_cut boxEngine (Polygon ([(0, 0), (20, 0), (20, 20), (0, 20), (0, 0)] # []) 102100)
                 line = Some [])"
    by (simp add: example_simps box_simps)
  note u = cut_failure_keeps_polygon
    [where ge = boxEngine and s = ?far and gr = exampleParcel and er = True
       and ring = "[(0, 0), (20, 0), (20, 20), (0, 20), (0, 0)]" and rings = "[]" and w = 102100,
     THEN conjunct2, THEN conjunct2, THEN conjunct2, THEN mp, OF far, THEN conjunct1]
  from u have one: "alerts (completeSubdivision boxEngine None True ?far) = [SubdivisionComplete 1]"
    by (simp add: example_simps)
  have kept: "cutEach boxEngine (Polyline [[(30, 0), (30, 20)]] 102100)
       [rectangle 0 0 20 20 102100] = [rectangle 0 0 20 20 102100]"
    by (simp add: box_simps)
  from cut two three kept one show ?thesis
    by (intro conjI)
qed

section \<open>Verification: failure of a completion\<close>









section \<open>Verification: the clicks of a subdivision session\<close>

lemma point_eta: "\<lparr>px = px (p::point), py = py p, pwkid = pwkid p\<rparr> = p"
  by simp

lemma click_rules:
  assumes "subdivisionMode s" and "currentPolygonGeometry s = Some poly"
    and "findNearestEdgePoint p poly ge = Inr (Some n)"
  shows "\<exists>pd s'. handleSubdivisionClick p ge s = Inr (True, s')
      \<and> pd_originalClick pd = p
      \<and> (pd_type pd = boundary \<longleftrightarrow>
            drawingPoints s = [] \<or> \<not> ge_contains ge poly p \<or> ge_distance ge p (Point n) < 5)
      \<and> (pd_type pd = boundary \<longrightarrow> pd_point pd = n \<and> pd_snapped pd)
      \<and> (pd_type pd = midpoint \<longrightarrow> pd_point pd = p \<and> \<not> pd_snapped pd)
      \<and> (if 2 \<le> length (drawingPoints s @ [pd]) \<and> pd_type pd = boundary
          then drawingPoints s' = []
               \<and> subdivisionLayer s' = subdivisionLayer s
                    @ [PointMarker (pd_point pd) (pd_type pd),
                       SubdivisionLine
                         (Polyline [map (\<lambda>d. (px (pd_point d), py (pd_point d))) (drawingPoints s @ [pd])]
                            (pwkid (pd_point (hd (drawingPoints s @ [pd])))))
                         (subdivisionTypeOf (map pd_type (drawingPoints s @ [pd])))
                         (length (drawingPoints s @ [pd]))]
          else drawingPoints s' = drawingPoints s @ [pd]
               \<and> subdivisionLayer s' = subdivisionLayer s @ [PointMarker (pd_point pd) (pd_type pd)])"
proof -
  let ?pd = "(if drawingPoints s = [] then
                \<lparr>pd_point = n, pd_type = boundary, pd_snapped = True, pd_originalClick = p\<rparr>
              else if \<not> ge_contains ge poly p then
                \<lparr>pd_point = n, pd_type = boundary, pd_snapped = True, pd_originalClick = p\<rparr>
              else if ge_distance ge p (Point n) < 5 then
                \<lparr>pd_point = n, pd_type = boundary, pd_snapped = True, pd_originalClick = p\<rparr>
              else
                \<lparr>pd_point = p, pd_type = midpoint, pd_snapped = False, pd_originalClick = p\<rparr>)"
  let ?s1 = "s\<lparr>drawingPoints := drawingPoints s @ [?pd],
               subdivisionLayer := subdivisionLayer s @ [PointMarker (pd_point ?pd) (pd_type ?pd)]\<rparr>"
  let ?s' = "if 2 \<le> length (drawingPoints s @ [?pd]) \<and> pd_type ?pd = boundary
             then drawSubdivisionLine ?s1 else ?s1"
  have run: "handleSubdivisionClick p ge s = Inr (True, ?s')"
    using assms by (simp add: handleSubdivisionClick_def Let_def point_eta)
  show ?thesis
    apply (rule exI [where x = ?pd])
    apply (rule exI [where x = ?s'])
    apply (simp only: run)
    apply (simp add: drawSubdivisionLine_def Let_def)
    done
qed


lemma click_first:
  assumes "subdivisionMode s" and "currentPolygonGeometry s = Some poly"
    and "drawingPoints s = []" and "findNearestEdgePoint p poly ge = Inr (Some n)"
  shows "handleSubdivisionClick p ge s =
     Inr (True, s\<lparr>drawingPoints :=
                      [\<lparr>pd_point = n, pd_type = boundary, pd_snapped = True, pd_originalClick = p\<rparr>],
                    subdivisionLayer := subdivisionLayer s @ [PointMarker n boundary]\<rparr>)"
  using assms by (simp add: handleSubdivisionClick_def Let_def)

lemma click_midpoint:
  assumes "subdivisionMode s" and "currentPolygonGeometry s = Some poly"
    and "drawingPoints s \<noteq> []" and "findNearestEdgePoint p poly ge = Inr (Some n)"
    and "ge_contains ge poly p" and "\<not> ge_distance ge p (Point n) < 5"
  shows "handleSubdivisionClick p ge s =
     Inr (True, s\<lparr>drawingPoints := drawingPoints s
                      @ [\<lparr>pd_point = p, pd_type = midpoint, pd_snapped = False, pd_originalClick = p\<rparr>],
                    subdivisionLayer := subdivisionLayer s @ [PointMarker p midpoint]\<rparr>)"
  using assms by (simp add: handleSubdivisionClick_def Let_def point_eta)

lemma click_closing:
  assumes "subdivisionMode s" and "currentPolygonGeometry s = Some poly"
    and "drawingPoints s \<noteq> []" and "findNearestEdgePoint p poly ge = Inr (Some n)"
    and "\<not> ge_contains ge poly p \<or> ge_distance ge p (Point n) < 5"
  shows "handleSubdivisionClick p ge s =
     Inr (True, drawSubdivisionLine
       (s\<lparr>drawingPoints := drawingPoints s
            @ [\<lparr>pd_point = n, pd_type = boundary, pd_snapped = True, pd_originalClick = p\<rparr>],
          subdivisionLayer := subdivisionLayer s @ [PointMarker n boundary]\<rparr>))"
proof -
  from assms(3) have "2 \<le> length (drawingPoints s) + 1"
    by (cases "drawingPoints s") simp_all
  with assms show ?thesis
    by (auto simp: handleSubdivisionClick_def Let_def point_eta)
qed

lemma three_clicks:
  assumes m: "subdivisionMode s" and g: "currentPolygonGeometry s = Some poly"
    and e: "drawingPoints s = []"
    and n1: "findNearestEdgePoint c1 poly ge = Inr (Some n1)"
    and n2: "findNearestEdgePoint c2 poly ge = Inr (Some n2)"
    and n3: "findNearestEdgePoint c3 poly ge = Inr (Some n3)"
    and i2: "ge_contains ge poly c2" and d2: "\<not> ge_distance ge c2 (Point n2) < 5"
    and o3: "\<not> ge_contains ge poly c3"
  shows "\<exists>s3. runClicks [c1, c2, c3] ge s = Inr s3
      \<and> drawingPoints s3 = []
      \<and> subdivisionLayer s3 = subdivisionLayer s
           @ [PointMarker n1 boundary, PointMarker c2 midpoint, PointMarker n3 boundary,
              SubdivisionLine
                (Polyline [[(px n1, py n1), (px c2, py c2), (px n3, py n3)]] (pwkid n1))
                ''boundary to midpoint to boundary'' 3]"
proof -
  let ?s1 = "s\<lparr>drawingPoints :=
                  [\<lparr>pd_point = n1, pd_type = boundary, pd_snapped = True, pd_originalClick = c1\<rparr>],
                subdivisionLayer := subdivisionLayer s @ [PointMarker n1 boundary]\<rparr>"
  let ?s2 = "?s1\<lparr>drawingPoints := drawingPoints ?s1
                  @ [\<lparr>pd_point = c2, pd_type = midpoint, pd_snapped = False, pd_originalClick = c2\<rparr>],
                subdivisionLayer := subdivisionLayer ?s1 @ [PointMarker c2 midpoint]\<rparr>"
  let ?s3 = "drawSubdivisionLine
       (?s2\<lparr>drawingPoints := drawingPoints ?s2
            @ [\<lparr>pd_point = n3, pd_type = boundary, pd_snapped = True, pd_originalClick = c3\<rparr>],
          subdivisionLayer := subdivisionLayer ?s2 @ [PointMarker n3 boundary]\<rparr>)"
  have 1: "handleSubdivisionClick c1 ge s = Inr (True, ?s1)"
    using m g e n1 by (rule click_first)
  have 2: "handleSubdivisionClick c2 ge ?s1 = Inr (True, ?s2)"
    by (rule click_midpoint [where poly = poly and n = n2]) (simp_all add: m g n2 i2 d2)
  have 3: "handleSubdivisionClick c3 ge ?s2 = Inr (True, ?s3)"
    by (rule click_closing [where poly = poly and n = n3]) (simp_all add: m g n3 o3)
  have run: "runClicks [c1, c2, c3] ge s = Inr ?s3"
    by (simp only: runClicks.simps 1 2 3 sum.case prod.case)
  have "drawingPoints ?s3 = []"
    by (simp add: drawSubdivisionLine_def Let_def)
  moreover have "subdivisionLayer ?s3 = subdivisionLayer s
           @ [PointMarker n1 boundary, PointMarker c2 midpoint, PointMarker n3 boundary,
              SubdivisionLine
                (Polyline [[(px n1, py n1), (px c2, py c2), (px n3, py n3)]] (pwkid n1))
                ''boundary to midpoint to boundary'' 3]"
    by (simp add: drawSubdivisionLine_def Let_def subdivisionTypeOf_def)
  ultimately show ?thesis
    using run by blast
qed

text \<open>
  C5, as the code has it. In an active session, with a nearest boundary point at
  hand: the placed point is marked boundary iff it is the first point of the line, or
  the click is outside the parcel, or the click is less than 5 meters (strictly)
  from its nearest boundary point; a boundary point is snapped to that nearest point,
  every other point keeps its raw position and is marked midpoint. The line is
  finalized exactly when the accumulator holds two points at least and the point just
  added is boundary; then the accumulator is emptied. Three clicks, the second inside
  and 5 meters or more from the boundary, the third outside, give exactly one
  completed line, of 3 points tagged boundary, midpoint, boundary, with the type
  string \<open>boundary to midpoint to boundary\<close>.
\<close>

theorem click_typing_and_finalization:
  "(subdivisionMode s \<and> currentPolygonGeometry s = Some poly
      \<and> findNearestEdgePoint p poly ge = Inr (Some n)
    \<longrightarrow> (\<exists>pd s'. handleSubdivisionClick p ge s = Inr (True, s')
      \<and> pd_originalClick pd = p
      \<and> (pd_type pd = boundary \<longleftrightarrow>
            drawingPoints s = [] \<or> \<not> ge_contains ge poly p \<or> ge_distance ge p (Point n) < 5)
      \<and> (pd_type pd = boundary \<longrightarrow> pd_point pd = n \<and> pd_snapped pd)
      \<and> (pd_type pd = midpoint \<longrightarrow> pd_point pd = p \<and> \<not> pd_snapped pd)
      \<and> (if 2 \<le> length (drawingPoints s @ [pd]) \<and> pd_type pd = boundary
          then drawingPoints s' = []
               \<and> subdivisionLayer s' = subdivisionLayer s
                    @ [PointMarker (pd_point pd) (pd_type pd),
                       SubdivisionLine
                         (Polyline [map (\<lambda>d. (px (pd_point d), py (pd_point d))) (drawingPoints s @ [pd])]
                            (pwkid (pd_point (hd (drawingPoints s @ [pd])))))
                         (subdivisionTypeOf (map pd_type (drawingPoints s @ [pd])))
                         (length (drawingPoints s @ [pd]))]
          else drawingPoints s' = drawingPoints s @ [pd]
               \<and> subdivisionLayer s' = subdivisionLayer s @ [PointMarker (pd_point pd) (pd_type pd)])))
   \<and> (subdivisionMode s \<and> currentPolygonGeometry s = Some poly \<and> drawingPoints s = []
      \<and> findNearestEdgePoint c1 poly ge = Inr (Some n1)
      \<and> findNearestEdgePoint c2 poly ge = Inr (Some n2)
      \<and> findNearestEdgePoint c3 poly ge = Inr (Some n3)
      \<and> ge_contains ge poly c2 \<and> \<not> ge_distance ge c2 (Point n2) < 5
      \<and> \<not> ge_contains ge poly c3
    \<longrightarrow> (\<exists>s3. runClicks [c1, c2, c3] ge s = Inr s3
      \<and> drawingPoints s3 = []
      \<and> subdivisionLayer s3 = subdivisionLayer s
           @ [PointMarker n1 boundary, PointMarker c2 midpoint, PointMarker n3 boundary,
              SubdivisionLine
                (Polyline [[(px n1, py n1), (px c2, py c2), (px n3, py n3)]] (pwkid n1))
                ''boundary to midpoint to boundary'' 3]))"
proof (intro conjI impI)
  assume "subdivisionMode s \<and> currentPolygonGeometry s = Some poly
      \<and> findNearestEdgePoint p poly ge = Inr (Some n)"
  then show "\<exists>pd s'. handleSubdivisionClick p ge s = Inr (True, s')
      \<and> pd_originalClick pd = p
      \<and> (pd_type pd = boundary \<longleftrightarrow>
            drawingPoints s = [] \<or> \<not> ge_contains ge poly p \<or> ge_distance ge p (Point n) < 5)
      \<and> (pd_type pd = boundary \<longrightarrow> pd_point pd = n \<and> pd_snapped pd)
      \<and> (pd_type pd = midpoint \<longrightarrow> pd_point pd = p \<and> \<not> pd_snapped pd)
      \<and> (if 2 \<le> length (drawingPoints s @ [pd]) \<and> pd_type pd = boundary
          then drawingPoints s' = []
               \<and> subdivisionLayer s' = subdivisionLayer s
                    @ [PointMarker (pd_point pd) (pd_type pd),
                       SubdivisionLine
                         (Polyline [map (\<lambda>d. (px (pd_point d), py (pd_point d))) (drawingPoints s @ [pd])]
                            (pwkid (pd_point (hd (drawingPoints s @ [pd])))))
                         (subdivisionTypeOf (map pd_type (drawingPoints s @ [pd])))
                         (length (drawingPoints s @ [pd]))]
          else drawingPoints s' = drawingPoints s @ [pd]
               \<and> subdivisionLayer s' = subdivisionLayer s @ [PointMarker (pd_point pd) (pd_type pd)])"
    using click_rules [of s poly p ge n] by blast
next
  assume "subdivisionMode s \<and> currentPolygonGeometry s = Some poly \<and> drawingPoints s = []
      \<and> findNearestEdgePoint c1 poly ge = Inr (Some n1)
      \<and> findNearestEdgePoint c2 poly ge = Inr (Some n2)
      \<and> findNearestEdgePoint c3 poly ge = Inr (Some n3)
      \<and> ge_contains ge poly c2 \<and> \<not> ge_distance ge c2 (Point n2) < 5
      \<and> \<not> ge_contains ge poly c3"
  then show "\<exists>s3. runClicks [c1, c2, c3] ge s = Inr s3
      \<and> drawingPoints s3 = []
      \<and> subdivisionLayer s3 = subdivisionLayer s
           @ [PointMarker n1 boundary, PointMarker c2 midpoint, PointMarker n3 boundary,
              SubdivisionLine
                (Polyline [[(px n1, py n1), (px c2, py c2), (px n3, py n3)]] (pwkid n1))
                ''boundary to midpoint to boundary'' 3]"
    using three_clicks [of s poly c1 ge n1 c2 n2 c3 n3] by blast
qed

lemma example_nearest:
  "findNearestEdgePoint \<lparr>px = 10, py = -3, pwkid = 102100\<rparr> (rectangle 0 0 20 20 102100) boxEngine
     = Inr (Some \<lparr>px = 10, py = 0, pwkid = 102100\<rparr>)"
  "findNearestEdgePoint \<lparr>px = 10, py = 10, pwkid = 102100\<rparr> (rectangle 0 0 20 20 102100) boxEngine
     = Inr (Some \<lparr>px = 10, py = 0, pwkid = 102100\<rparr>)"
  "findNearestEdgePoint \<lparr>px = 10, py = 25, pwkid = 102100\<rparr> (rectangle 0 0 20 20 102100) boxEngine
     = Inr (Some \<lparr>px = 10, py = 20, pwkid = 102100\<rparr>)"
  "findNearestEdgePoint \<lparr>px = 10, py = 5, pwkid = 102100\<rparr> (rectangle 0 0 20 20 102100) boxEngine
     = Inr (Some \<lparr>px = 10, py = 0, pwkid = 102100\<rparr>)"
  by (simp_all add: findNearestEdgePoint_def box_simps)

theorem click_typing_and_finalization_witness:
  "(\<exists>s3. runClicks [\<lparr>px = 10, py = -3, pwkid = 102100\<rparr>, \<lparr>px = 10, py = 10, pwkid = 102100\<rparr>,
                     \<lparr>px = 10, py = 25, pwkid = 102100\<rparr>] boxEngine exampleSession = Inr s3
      \<and> drawingPoints s3 = []
      \<and> subdivisionLayer s3 =
           [PointMarker \<lparr>px = 10, py = 0, pwkid = 102100\<rparr> boundary,
            PointMarker \<lparr>px = 10, py = 10, pwkid = 102100\<rparr> midpoint,
            PointMarker \<lparr>px = 10, py = 20, pwkid = 102100\<rparr> boundary,
            SubdivisionLine (Polyline [[(10, 0), (10, 10), (10, 20)]] 102100)
              ''boundary to midpoint to boundary'' 3])
   \<and> (\<exists>pd s'. handleSubdivisionClick \<lparr>px = 10, py = -3, pwkid = 102100\<rparr> boxEngine exampleSession
              = Inr (True, s')
         \<and> pd_type pd = boundary \<and> pd_point pd = \<lparr>px = 10, py = 0, pwkid = 102100\<rparr>
         \<and> drawingPoints s' = [pd])"
proof -
  have h: "subdivisionMode exampleSession"
    "currentPolygonGeometry exampleSession = Some (rectangle 0 0 20 20 102100)"
    "drawingPoints exampleSession = []"
    by (simp_all add: example_simps)
  have l: "subdivisionLayer exampleSession = []"
    by (simp add: example_simps)
  have c: "ge_contains boxEngine (rectangle 0 0 20 20 102100) \<lparr>px = 10, py = 10, pwkid = 102100\<rparr>"
    "\<not> ge_distance boxEngine \<lparr>px = 10, py = 10, pwkid = 102100\<rparr>
         (Point \<lparr>px = 10, py = 0, pwkid = 102100\<rparr>) < 5"
    "\<not> ge_contains boxEngine (rectangle 0 0 20 20 102100) \<lparr>px = 10, py = 25, pwkid = 102100\<rparr>"
    by (simp_all add: box_simps)
  note t = click_typing_and_finalization
         [of exampleSession "rectangle 0 0 20 20 102100" "\<lparr>px = 10, py = -3, pwkid = 102100\<rparr>"
             boxEngine "\<lparr>px = 10, py = 0, pwkid = 102100\<rparr>"
             "\<lparr>px = 10, py = -3, pwkid = 102100\<rparr>" "\<lparr>px = 10, py = 0, pwkid = 102100\<rparr>"
             "\<lparr>px = 10, py = 10, pwkid = 102100\<rparr>" "\<lparr>px = 10, py = 0, pwkid = 102100\<rparr>"
             "\<lparr>px = 10, py = 25, pwkid = 102100\<rparr>" "\<lparr>px = 10, py = 20, pwkid = 102100\<rparr>"]
  have p1: "subdivisionMode exampleSession
      \<and> currentPolygonGeometry exampleSession = Some (rectangle 0 0 20 20 102100)
      \<and> findNearestEdgePoint \<lparr>px = 10, py = -3, pwkid = 102100\<rparr> (rectangle 0 0 20 20 102100)
           boxEngine = Inr (Some \<lparr>px = 10, py = 0, pwkid = 102100\<rparr>)"
    by (intro conjI h example_nearest)
  have p2: "subdivisionMode exampleSession
      \<and> currentPolygonGeometry exampleSession = Some (rectangle 0 0 20 20 102100)
      \<and> drawingPoints exampleSession = []
      \<and> findNearestEdgePoint \<lparr>px = 10, py = -3, pwkid = 102100\<rparr> (rectangle 0 0 20 20 102100)
           boxEngine = Inr (Some \<lparr>px = 10, py = 0, pwkid = 102100\<rparr>)
      \<and> findNearestEdgePoint \<lparr>px = 10, py = 10, pwkid = 102100\<rparr> (rectangle 0 0 20 20 102100)
           boxEngine = Inr (Some \<lparr>px = 10, py = 0, pwkid = 102100\<rparr>)
      \<and> findNearestEdgePoint \<lparr>px = 10, py = 25, pwkid = 102100\<rparr> (rectangle 0 0 20 20 102100)
           boxEngine = Inr (Some \<lparr>px = 10, py = 20, pwkid = 102100\<rparr>)
      \<and> ge_contains boxEngine (rectangle 0 0 20 20 102100) \<lparr>px = 10, py = 10, pwkid = 102100\<rparr>
      \<and> \<not> ge_distance boxEngine \<lparr>px = 10, py = 10, pwkid = 102100\<rparr>
             (Point \<lparr>px = 10, py = 0, pwkid = 102100\<rparr>) < 5
      \<and> \<not> ge_contains boxEngine (rectangle 0 0 20 20 102100) \<lparr>px = 10, py = 25, pwkid = 102100\<rparr>"
    by (intro conjI h c example_nearest)
  from t [THEN conjunct2, THEN mp, OF p2]
  have r2: "\<exists>s3. runClicks [\<lparr>px = 10, py = -3, pwkid = 102100\<rparr>, \<lparr>px = 10, py = 10, pwkid = 102100\<rparr>,
                     \<lparr>px = 10, py = 25, pwkid = 102100\<rparr>] boxEngine exampleSession = Inr s3
      \<and> drawingPoints s3 = []
      \<and> subdivisionLayer s3 =
           [PointMarker \<lparr>px = 10, py = 0, pwkid = 102100\<rparr> boundary,
            PointMarker \<lparr>px = 10, py = 10, pwkid = 102100\<rparr> midpoint,
            PointMarker \<lparr>px = 10, py = 20, pwkid = 102100\<rparr> boundary,
            SubdivisionLine (Polyline [[(10, 0), (10, 10), (10, 20)]] 102100)
              ''boundary to midpoint to boundary'' 3]"
    by (simp only: l append_Nil point.simps)
  from t [THEN conjunct1, THEN mp, OF p1]
  obtain pd s' where r1:
    "handleSubdivisionClick \<lparr>px = 10, py = -3, pwkid = 102100\<rparr> boxEngine exampleSession
       = Inr (True, s')"
    "pd_type pd = boundary \<longleftrightarrow>
       drawingPoints exampleSession = []
       \<or> \<not> ge_contains boxEngine (rectangle 0 0 20 20 102100) \<lparr>px = 10, py = -3, pwkid = 102100\<rparr>
       \<or> ge_distance boxEngine \<lparr>px = 10, py = -3, pwkid = 102100\<rparr>
            (Point \<lparr>px = 10, py = 0, pwkid = 102100\<rparr>) < 5"
    "pd_type pd = boundary \<longrightarrow> pd_point pd = \<lparr>px = 10, py = 0, pwkid = 102100\<rparr> \<and> pd_snapped pd"
    "if 2 \<le> length (drawingPoints exampleSession @ [pd]) \<and> pd_type pd = boundary
     then drawingPoints s' = []
               \<and> subdivisionLayer s' = subdivisionLayer exampleSession
                    @ [PointMarker (pd_point pd) (pd_type pd),
                       SubdivisionLine
                         (Polyline [map (\<lambda>d. (px (pd_point d), py (pd_point d)))
                                      (drawingPoints exampleSession @ [pd])]
                            (pwkid (pd_point (hd (drawingPoints exampleSession @ [pd])))))
                         (subdivisionTypeOf (map pd_type (drawingPoints exampleSession @ [pd])))
                         (length (drawingPoints exampleSession @ [pd]))]
     else drawingPoints s' = drawingPoints exampleSession @ [pd]
               \<and> subdivisionLayer s' = subdivisionLayer exampleSession
                    @ [PointMarker (pd_point pd) (pd_type pd)]"
    by blast
  from r1(2) h(3) have b: "pd_type pd = boundary"
    by simp
  from r1(4) h(3) have d: "drawingPoints s' = [pd]"
    by simp
  from r1(1) r1(3) b d
  have "\<exists>pd s'. handleSubdivisionClick \<lparr>px = 10, py = -3, pwkid = 102100\<rparr> boxEngine exampleSession
              = Inr (True, s')
         \<and> pd_type pd = boundary \<and> pd_point pd = \<lparr>px = 10, py = 0, pwkid = 102100\<rparr>
         \<and> drawingPoints s' = [pd]"
    by blast
  with r2 show ?thesis
    by (rule conjI)
qed

text \<open>
  C5, as the claim has it, fails at the limit: a click inside the parcel at exactly
  5 meters from the boundary is within 5 meters of it, and it is marked midpoint at
  its raw position, not snapped.
\<close>

theorem click_within_5m_counterexample:
  "ge_contains boxEngine (rectangle 0 0 20 20 102100) \<lparr>px = 10, py = 5, pwkid = 102100\<rparr>
   \<and> findNearestEdgePoint \<lparr>px = 10, py = 5, pwkid = 102100\<rparr> (rectangle 0 0 20 20 102100) boxEngine
       = Inr (Some \<lparr>px = 10, py = 0, pwkid = 102100\<rparr>)
   \<and> ge_distance boxEngine \<lparr>px = 10, py = 5, pwkid = 102100\<rparr>
        (Point \<lparr>px = 10, py = 0, pwkid = 102100\<rparr>) = 5
   \<and> map_sum id (\<lambda>s'. map (\<lambda>d. (pd_type d, pd_point d, pd_snapped d)) (drawingPoints s'))
        (runClicks [\<lparr>px = 10, py = -3, pwkid = 102100\<rparr>, \<lparr>px = 10, py = 5, pwkid = 102100\<rparr>]
           boxEngine exampleSession)
       = Inr [(boundary, \<lparr>px = 10, py = 0, pwkid = 102100\<rparr>, True),
              (midpoint, \<lparr>px = 10, py = 5, pwkid = 102100\<rparr>, False)]"
proof -
  have h: "subdivisionMode exampleSession"
    "currentPolygonGeometry exampleSession = Some (rectangle 0 0 20 20 102100)"
    "drawingPoints exampleSession = []"
    by (simp_all add: example_simps)
  have c: "ge_contains boxEngine (rectangle 0 0 20 20 102100) \<lparr>px = 10, py = 5, pwkid = 102100\<rparr>"
    "ge_distance boxEngine \<lparr>px = 10, py = 5, pwkid = 102100\<rparr>
         (Point \<lparr>px = 10, py = 0, pwkid = 102100\<rparr>) = 5"
    by (simp_all add: box_simps)
  show ?thesis
    using h c example_nearest
    by (simp add: handleSubdivisionClick_def Let_def)
qed

section \<open>Verification: the node registry\<close>

lemma findIndex_Some:
  "findIndex P xs = Some k \<Longrightarrow> k < length xs \<and> P (xs ! k) \<and> (\<forall>m < k. \<not> P (xs ! m))"
proof (induction xs arbitrary: k)
  case Nil
  then show ?case by simp
next
  case (Cons x xs)
  show ?case
  proof (cases "P x")
    case True
    with Cons.prems show ?thesis by simp
  next
    case False
    with Cons.prems obtain j where j: "findIndex P xs = Some j" "k = Suc j"
      by auto
    from Cons.IH [OF j(1)] False j(2) show ?thesis
      by (auto simp: nth_Cons split: nat.splits)
  qed
qed

lemma findIndex_None: "findIndex P xs = None \<longleftrightarrow> (\<forall>x \<in> set xs. \<not> P x)"
  by (induction xs) auto

lemma findIndex_first:
  "k < length xs \<Longrightarrow> P (xs ! k) \<Longrightarrow> \<forall>m < k. \<not> P (xs ! m) \<Longrightarrow> findIndex P xs = Some k"
proof (induction xs arbitrary: k)
  case Nil
  then show ?case by simp
next
  case (Cons x xs)
  show ?case
  proof (cases k)
    case 0
    with Cons.prems show ?thesis by simp
  next
    case (Suc j)
    with Cons.prems have "\<not> P x" by auto
    moreover from Suc Cons.prems have "findIndex P xs = Some j"
      by (intro Cons.IH) auto
    ultimately show ?thesis using Suc by simp
  qed
qed

lemma findIndex_hd_filter:
  "findIndex P xs = Some k \<Longrightarrow> hd (filter P xs) = xs ! k"
proof (induction xs arbitrary: k)
  case Nil
  then show ?case by simp
next
  case (Cons x xs)
  then show ?case by (cases "P x") auto
qed

lemma findIndex_filter_nonempty:
  "filter P xs \<noteq> [] \<Longrightarrow> \<exists>k. findIndex P xs = Some k"
  by (cases "findIndex P xs") (auto simp: findIndex_None filter_empty_conv)

lemma scanNodes_found:
  "findIndex (serving p) ns = Some k \<Longrightarrow> scanNodes ge B U p ns i best = Found (i + k)"
proof (induction ns arbitrary: i best k)
  case Nil
  then show ?case by simp
next
  case (Cons n ns)
  show ?case
  proof (cases "serving p n")
    case True
    with Cons.prems show ?thesis by (simp add: serving_def)
  next
    case False
    with Cons.prems obtain j where j: "findIndex (serving p) ns = Some j" "k = Suc j"
      by auto
    from False Cons.IH [OF j(1)] j(2) show ?thesis
      by (auto simp: serving_def)
  qed
qed

lemma scanNodes_best:
  "findIndex (serving p) ns = None \<Longrightarrow>
     \<exists>b. scanNodes ge B U p ns i best = Best b
       \<and> (b = best \<or> (\<exists>k d. b = Some (i + k, d) \<and> k < length ns \<and> \<not> isPotential (ns ! k)))"
proof (induction ns arbitrary: i best)
  case Nil
  then show ?case by simp
next
  case (Cons n ns)
  from Cons.prems have n: "\<not> serving p n" and rest: "findIndex (serving p) ns = None"
    by (auto split: if_splits)
  have step: "\<exists>b. scanNodes ge B U p ns (Suc i) best' = Best b
       \<and> (b = best' \<or> (\<exists>k d. b = Some (Suc i + k, d) \<and> k < length ns \<and> \<not> isPotential (ns ! k)))"
    for best'
    using Cons.IH [OF rest] by blast
  show ?case
  proof (cases "\<not> isPotential n \<and> ge_contains ge B (position n)
      \<and> closer (ge_distance ge (position n) U) best")
    case True
    from step [of "Some (i, ge_distance ge (position n) U)"]
    obtain b where b: "scanNodes ge B U p ns (Suc i) (Some (i, ge_distance ge (position n) U)) = Best b"
      "b = Some (i, ge_distance ge (position n) U)
       \<or> (\<exists>k d. b = Some (Suc i + k, d) \<and> k < length ns \<and> \<not> isPotential (ns ! k))"
      by blast
    from True n have run: "scanNodes ge B U p (n # ns) i best
        = scanNodes ge B U p ns (Suc i) (Some (i, ge_distance ge (position n) U))"
      by (simp add: serving_def)
    from b(2) show ?thesis
    proof
      assume "b = Some (i, ge_distance ge (position n) U)"
      with True have "b = Some (i + 0, ge_distance ge (position n) U) \<and> 0 < length (n # ns)
          \<and> \<not> isPotential ((n # ns) ! 0)"
        by simp
      then have "\<exists>k d. b = Some (i + k, d) \<and> k < length (n # ns) \<and> \<not> isPotential ((n # ns) ! k)"
        by blast
      with run b(1) show ?thesis by simp
    next
      assume "\<exists>k d. b = Some (Suc i + k, d) \<and> k < length ns \<and> \<not> isPotential (ns ! k)"
      then obtain k d where "b = Some (Suc i + k, d)" "k < length ns" "\<not> isPotential (ns ! k)"
        by blast
      then have "b = Some (i + Suc k, d) \<and> Suc k < length (n # ns)
          \<and> \<not> isPotential ((n # ns) ! Suc k)"
        by simp
      then have "\<exists>k d. b = Some (i + k, d) \<and> k < length (n # ns) \<and> \<not> isPotential ((n # ns) ! k)"
        by blast
      with run b(1) show ?thesis by simp
    qed
  next
    case False
    with n have run: "scanNodes ge B U p (n # ns) i best = scanNodes ge B U p ns (Suc i) best"
      by (auto simp: serving_def)
    from step [of best]
    obtain b where b: "scanNodes ge B U p ns (Suc i) best = Best b"
      "b = best \<or> (\<exists>k d. b = Some (Suc i + k, d) \<and> k < length ns \<and> \<not> isPotential (ns ! k))"
      by blast
    from b(2) show ?thesis
    proof
      assume "b = best"
      with run b(1) show ?thesis by simp
    next
      assume "\<exists>k d. b = Some (Suc i + k, d) \<and> k < length ns \<and> \<not> isPotential (ns ! k)"
      then obtain k d where "b = Some (Suc i + k, d)" "k < length ns" "\<not> isPotential (ns ! k)"
        by blast
      then have "b = Some (i + Suc k, d) \<and> Suc k < length (n # ns)
          \<and> \<not> isPotential ((n # ns) ! Suc k)"
        by simp
      then have "\<exists>k d. b = Some (i + k, d) \<and> k < length (n # ns) \<and> \<not> isPotential ((n # ns) ! k)"
        by blast
      with run b(1) show ?thesis by simp
    qed
  qed
qed

lemma scanNodes_cases:
  "(\<exists>k. findIndex (serving p) ns = Some k \<and> scanNodes ge B U p ns 0 None = Found k)
   \<or> (findIndex (serving p) ns = None
      \<and> (\<exists>b. scanNodes ge B U p ns 0 None = Best b
           \<and> (b = None \<or> (\<exists>k d. b = Some (k, d) \<and> k < length ns \<and> \<not> isPotential (ns ! k)))))"
proof (cases "findIndex (serving p) ns")
  case None
  from scanNodes_best [OF None, of ge B U 0 None] None show ?thesis by auto
next
  case (Some k)
  from scanNodes_found [OF Some, of ge B U 0 None] Some show ?thesis by simp
qed

lemma closer_None [simp]: "closer d None"
  by (simp add: closer_def)

lemma pillarLoop_shape:
  "pillarLoop ge U p now fs nodes best = (r, nodes') \<Longrightarrow>
     \<exists>news. nodes' = nodes @ news
       \<and> (\<forall>n \<in> set news. isPillar n \<and> \<not> isPotential n \<and> properties n = []
             \<and> nid n \<in> pf_pick_id ` set fs \<and> nid n \<notin> nid ` set nodes)
       \<and> distinct (map nid news)"
proof (induction fs arbitrary: nodes best)
  case Nil
  then show ?case by simp
next
  case (Cons f fs)
  show ?case
  proof (cases "findIndex (\<lambda>n. nid n = pf_pick_id f) nodes")
    case (Some k)
    show ?thesis
    proof (cases "p \<in> set (properties (nodes ! k))")
      case True
      with Some Cons.prems show ?thesis by simp
    next
      case False
      with Some Cons.prems obtain best' where
        "pillarLoop ge U p now fs nodes best' = (r, nodes')"
        by (auto split: if_splits)
      from Cons.IH [OF this] show ?thesis by auto
    qed
  next
    case None
    let ?np = "newPillarNode f now"
    from None Cons.prems obtain best' where
      "pillarLoop ge U p now fs (nodes @ [?np]) best' = (r, nodes')"
      by (auto split: if_splits)
    from Cons.IH [OF this] obtain news where news:
      "nodes' = (nodes @ [?np]) @ news"
      "\<forall>n \<in> set news. isPillar n \<and> \<not> isPotential n \<and> properties n = []
             \<and> nid n \<in> pf_pick_id ` set fs \<and> nid n \<notin> nid ` set (nodes @ [?np])"
      "distinct (map nid news)"
      by blast
    from None have fresh: "nid ?np \<notin> nid ` set nodes"
      by (auto simp: findIndex_None newPillarNode_def)
    have np: "isPillar ?np \<and> \<not> isPotential ?np \<and> properties ?np = []
        \<and> nid ?np \<in> pf_pick_id ` set (f # fs)"
      by (simp add: newPillarNode_def)
    have "nodes' = nodes @ (?np # news)"
      using news(1) by simp
    moreover have "\<forall>n \<in> set (?np # news). isPillar n \<and> \<not> isPotential n \<and> properties n = []
             \<and> nid n \<in> pf_pick_id ` set (f # fs) \<and> nid n \<notin> nid ` set nodes"
      using news(2) np fresh by auto
    moreover have "distinct (map nid (?np # news))"
      using news(2) news(3) by auto
    ultimately show ?thesis by blast
  qed
qed

lemma pillarLoop_result:
  "pillarLoop ge U p now fs nodes best = (r, nodes') \<Longrightarrow>
   (\<forall>b d. best = Some (b, d) \<longrightarrow> b < length nodes) \<Longrightarrow>
     (\<forall>k. r = Found k \<longrightarrow> k < length nodes \<and> p \<in> set (properties (nodes ! k))
              \<and> nid (nodes ! k) \<in> pf_pick_id ` set fs)
     \<and> (\<forall>b d. r = Best (Some (b, d)) \<longrightarrow> b < length nodes')
     \<and> (r = Best None \<longrightarrow> fs = [] \<and> best = None)
     \<and> ((\<forall>k. r \<noteq> Found k) \<longrightarrow> (\<forall>f \<in> set fs. pf_pick_id f \<in> nid ` set nodes'))"
proof (induction fs arbitrary: nodes best)
  case Nil
  then show ?case by auto
next
  case (Cons f fs)
  show ?case
  proof (cases "findIndex (\<lambda>n. nid n = pf_pick_id f) nodes")
    case (Some k)
    from findIndex_Some [OF Some] have k: "k < length nodes" "nid (nodes ! k) = pf_pick_id f"
      by simp_all
    show ?thesis
    proof (cases "p \<in> set (properties (nodes ! k))")
      case True
      with Some Cons.prems k show ?thesis by auto
    next
      case False
      define best' where "best' =
        (if closer (ge_distance ge (position (nodes ! k)) U) best
         then Some (k, ge_distance ge (position (nodes ! k)) U) else best)"
      from False Some Cons.prems(1) have run: "pillarLoop ge U p now fs nodes best' = (r, nodes')"
        by (auto simp: best'_def split: if_splits)
      have ok: "\<forall>b d. best' = Some (b, d) \<longrightarrow> b < length nodes"
        using Cons.prems(2) k(1) by (auto simp: best'_def)
      have some: "best' \<noteq> None"
        by (cases best) (auto simp: best'_def closer_def)
      from pillarLoop_shape [OF run] have sub: "set nodes \<subseteq> set nodes'"
        by auto
      from k have "pf_pick_id f \<in> nid ` set nodes"
        by (metis imageI nth_mem)
      with sub have tracked: "pf_pick_id f \<in> nid ` set nodes'"
        by auto
      from Cons.IH [OF run ok] some tracked show ?thesis
        by auto
    qed
  next
    case None
    let ?np = "newPillarNode f now"
    define best' where "best' =
        (if closer (ge_distance ge (pf_geometry f) U) best
         then Some (length nodes, ge_distance ge (pf_geometry f) U) else best)"
    from None Cons.prems(1) have run: "pillarLoop ge U p now fs (nodes @ [?np]) best' = (r, nodes')"
      by (auto simp: best'_def split: if_splits)
    have ok: "\<forall>b d. best' = Some (b, d) \<longrightarrow> b < length (nodes @ [?np])"
      using Cons.prems(2) by (auto simp: best'_def less_Suc_eq)
    have some: "best' \<noteq> None"
      by (cases best) (auto simp: best'_def closer_def)
    from pillarLoop_shape [OF run] have sub: "set (nodes @ [?np]) \<subseteq> set nodes'"
      by auto
    have "pf_pick_id f \<in> nid ` set (nodes @ [?np])"
      by (simp add: newPillarNode_def)
    with sub have tracked: "pf_pick_id f \<in> nid ` set nodes'"
      by blast
    note ih = Cons.IH [OF run ok]
    have found: "\<forall>k. r = Found k \<longrightarrow> k < length nodes \<and> p \<in> set (properties (nodes ! k))
              \<and> nid (nodes ! k) \<in> pf_pick_id ` set (f # fs)"
    proof (intro allI impI)
      fix k assume "r = Found k"
      with ih have k: "k < length (nodes @ [?np])" "p \<in> set (properties ((nodes @ [?np]) ! k))"
        "nid ((nodes @ [?np]) ! k) \<in> pf_pick_id ` set fs"
        by auto
      have "k \<noteq> length nodes"
      proof
        assume "k = length nodes"
        with k(2) show False by (simp add: newPillarNode_def)
      qed
      with k(1) have "k < length nodes" by simp
      with k show "k < length nodes \<and> p \<in> set (properties (nodes ! k))
              \<and> nid (nodes ! k) \<in> pf_pick_id ` set (f # fs)"
        by (auto simp: nth_append)
    qed
    from ih some tracked found show ?thesis
      by auto
  qed
qed

lemma serving_not_potentialFor: "serving p n \<Longrightarrow> \<not> potentialFor p n"
  by (simp add: serving_def potentialFor_def)

lemma filter_serving_kept:
  "filter (serving p) (filter (\<lambda>n. \<not> potentialFor p n) xs) = filter (serving p) xs"
  by (induction xs) (auto simp: serving_def potentialFor_def)

lemma findIndex_through_filter:
  assumes "findIndex (serving p) xs = Some i"
  shows "\<exists>k. findIndex (serving p) (filter (\<lambda>n. \<not> potentialFor p n) xs) = Some k
           \<and> filter (\<lambda>n. \<not> potentialFor p n) xs ! k = xs ! i"
proof -
  let ?ys = "filter (\<lambda>n. \<not> potentialFor p n) xs"
  have eq: "filter (serving p) ?ys = filter (serving p) xs"
    by (rule filter_serving_kept)
  from findIndex_Some [OF assms] have "xs ! i \<in> set xs" "serving p (xs ! i)"
    by simp_all
  then have "filter (serving p) xs \<noteq> []"
    by (auto simp: filter_empty_conv)
  then have ne: "filter (serving p) ?ys \<noteq> []"
    unfolding eq .
  then obtain k where k: "findIndex (serving p) ?ys = Some k"
    using findIndex_filter_nonempty by blast
  from findIndex_hd_filter [OF k] have "?ys ! k = hd (filter (serving p) xs)"
    unfolding eq by (rule sym)
  with findIndex_hd_filter [OF assms] have "?ys ! k = xs ! i"
    by simp
  with k show ?thesis by blast
qed

lemma removePotential_nodes:
  "electricalNodes (snd (removePotentialNodesForProperty p st))
     = filter (\<lambda>n. \<not> potentialFor p n) (electricalNodes st)"
  by (simp add: removePotentialNodesForProperty_def Let_def potentialFor_def split: option.splits)

lemma removePotential_layer:
  "removePotentialNodesForProperty p st = (None, st') \<Longrightarrow>
     electricalLayer st' = map_option (filter (\<lambda>g. \<not> potentialGraphicOf p g)) (electricalLayer st)"
  by (auto simp: removePotentialNodesForProperty_def Let_def split: option.splits if_splits)

lemma potentialGraphicOf_isPotentialGraphic: "potentialGraphicOf p g \<Longrightarrow> isPotentialGraphic g"
  by (cases g) simp_all

lemma removePotential_again:
  assumes "removePotentialNodesForProperty p st = (None, st')"
  shows "removePotentialNodesForProperty p (st'\<lparr>electricalNodes := ns\<rparr>)
     = (None, st'\<lparr>electricalNodes := filter (\<lambda>n. \<not> potentialFor p n) ns\<rparr>)"
proof (cases "electricalLayer st")
  case None
  with assms show ?thesis
    by (auto simp: removePotentialNodesForProperty_def Let_def potentialFor_def)
next
  case (Some gs)
  with assms have ok: "\<not> ((p = JUndefined \<or> p = JNull) \<and> list_ex isPotentialGraphic gs)"
    and st': "st' = st\<lparr>electricalNodes :=
                  filter (\<lambda>node. \<not> (isPotential node \<and> p \<in> set (properties node)))
                    (electricalNodes st),
                electricalLayer := Some (filter (\<lambda>g. \<not> potentialGraphicOf p g) gs)\<rparr>"
    by (auto simp: removePotentialNodesForProperty_def Let_def split: if_splits)
  from ok have ok': "\<not> ((p = JUndefined \<or> p = JNull)
      \<and> list_ex isPotentialGraphic (filter (\<lambda>g. \<not> potentialGraphicOf p g) gs))"
    by (auto simp: list_ex_iff)
  show ?thesis
    unfolding st' using ok'
    by (simp add: removePotentialNodesForProperty_def Let_def potentialFor_def)
qed

lemma removePotential_same:
  assumes "removePotentialNodesForProperty p st = (None, st')"
  shows "removePotentialNodesForProperty p st' = (None, st')"
proof -
  have "st'\<lparr>electricalNodes := electricalNodes st'\<rparr> = st'" by simp
  moreover from assms have "electricalNodes st' = filter (\<lambda>n. \<not> potentialFor p n) (electricalNodes st)"
    using removePotential_nodes [of p st] by simp
  then have "filter (\<lambda>n. \<not> potentialFor p n) (electricalNodes st') = electricalNodes st'"
    by simp
  ultimately show ?thesis
    using removePotential_again [OF assms, of "electricalNodes st'"] by simp
qed

lemma setKey_idem: "setKey k v (setKey k v m) = setKey k v m"
  by (induction m) auto

lemma storeCentroid_idem: "storeCentroid p c (storeCentroid p c n) = storeCentroid p c n"
  by (simp add: storeCentroid_def setKey_idem)

lemma storeCentroid_fields [simp]:
  "isPotential (storeCentroid p c n) = isPotential n"
  "properties (storeCentroid p c n) = properties n"
  "nid (storeCentroid p c n) = nid n"
  "isPillar (storeCentroid p c n) = isPillar n"
  "position (storeCentroid p c n) = position n"
  by (simp_all add: storeCentroid_def)

lemma serving_storeCentroid [simp]: "serving p (storeCentroid q c n) = serving p n"
  by (simp add: serving_def)

lemma unionFrontageLines_Some: "fl \<noteq> [] \<Longrightarrow> \<exists>U. unionFrontageLines fl ge = Some U"
  by (cases fl) (simp_all add: unionFrontageLines_def)

text \<open>A second call on a registry whose first serving node already stores the centroid.\<close>

lemma second_call_same:
  assumes fl: "fl \<noteq> []"
    and pos: "calculatePotentialNodePositions fl (ensureWebMercator (g_geometry g) ge) ge = Inr ps"
    and k: "findIndex (serving (polygonId (g_attributes g))) (electricalNodes st1) = Some k"
    and c: "storeCentroid (polygonId (g_attributes g))
              (ge_centroid ge (ensureWebMercator (g_geometry g) ge)) (electricalNodes st1 ! k)
            = electricalNodes st1 ! k"
    and r: "removePotentialNodesForProperty (polygonId (g_attributes g)) st1 = (None, st1)"
  shows "generateOrFindConnectionNode g fl ge pq now stamp st1
           = (Inr (Some (electricalNodes st1 ! k)), st1)"
proof -
  let ?p = "polygonId (g_attributes g)"
  obtain U where U: "unionFrontageLines fl ge = Some U"
    using unionFrontageLines_Some [OF fl] by blast
  have scan: "scanNodes ge (ge_buffer ge U SHARING_THRESHOLD) U ?p (electricalNodes st1) 0 None = Found k"
    using scanNodes_found [OF k, of ge _ U 0 None] by simp
  have near: "findNearbyConnectionNode fl ?p ge pq now (electricalNodes st1)
      = (Some k, electricalNodes st1)"
    by (simp add: findNearbyConnectionNode_def U scan Let_def)
  have upd: "(electricalNodes st1)[k := electricalNodes st1 ! k] = electricalNodes st1"
    by simp
  have same: "st1\<lparr>electricalNodes := electricalNodes st1\<rparr> = st1"
    by simp
  show ?thesis
    using fl
    by (simp add: generateOrFindConnectionNode_def Let_def pos near c upd same r)
qed

lemma addProperty_fields [simp]:
  "isPotential (addProperty p n) = isPotential n"
  "nid (addProperty p n) = nid n"
  "isPillar (addProperty p n) = isPillar n"
  "position (addProperty p n) = position n"
  "p \<in> set (properties (addProperty p n))"
  by (simp_all add: addProperty_def)

text \<open>What the search returns when it returns a node that is not potential.\<close>

lemma findNearby_Some:
  assumes run: "findNearbyConnectionNode fl p ge pq now nodes = (Some i, nodes1)"
    and np: "\<not> isPotential (nodes1 ! i)"
  shows "i < length nodes1 \<and> findIndex (serving p) nodes1 = Some i"
proof -
  from run obtain U where U: "unionFrontageLines fl ge = Some U"
    by (auto simp: findNearbyConnectionNode_def split: option.splits)
  let ?B = "ge_buffer ge U SHARING_THRESHOLD"
  from scanNodes_cases [of p nodes ge ?B U]
  show ?thesis
  proof
    assume "\<exists>k. findIndex (serving p) nodes = Some k \<and> scanNodes ge ?B U p nodes 0 None = Found k"
    then obtain k where k: "findIndex (serving p) nodes = Some k"
      "scanNodes ge ?B U p nodes 0 None = Found k"
      by blast
    with run U have "i = k" "nodes1 = nodes"
      by (simp_all add: findNearbyConnectionNode_def Let_def)
    with k(1) findIndex_Some [OF k(1)] show ?thesis by simp
  next
    assume "findIndex (serving p) nodes = None
      \<and> (\<exists>b. scanNodes ge ?B U p nodes 0 None = Best b
           \<and> (b = None \<or> (\<exists>k d. b = Some (k, d) \<and> k < length nodes \<and> \<not> isPotential (nodes ! k))))"
    then obtain best where none: "findIndex (serving p) nodes = None"
      and scan: "scanNodes ge ?B U p nodes 0 None = Best best"
      and best: "\<forall>b d. best = Some (b, d) \<longrightarrow> b < length nodes"
      by auto
    obtain r X where loop:
      "(case pq of QueryResult features \<Rightarrow> pillarLoop ge U p now features nodes best
        | _ \<Rightarrow> (Best best, nodes)) = (r, X)"
      by (cases "case pq of QueryResult features \<Rightarrow> pillarLoop ge U p now features nodes best
        | _ \<Rightarrow> (Best best, nodes)") blast
    have shape: "\<exists>news. X = nodes @ news \<and> (\<forall>n \<in> set news. properties n = [])"
    proof (cases pq)
      case (QueryResult fs)
      with loop have "pillarLoop ge U p now fs nodes best = (r, X)" by simp
      from pillarLoop_shape [OF this] show ?thesis by blast
    qed (use loop in auto)
    then obtain news where news: "X = nodes @ news" "\<forall>n \<in> set news. properties n = []"
      by blast
    have res: "(\<forall>k. r = Found k \<longrightarrow> k < length nodes \<and> p \<in> set (properties (nodes ! k)))
       \<and> (\<forall>b d. r = Best (Some (b, d)) \<longrightarrow> b < length X)"
    proof (cases pq)
      case (QueryResult fs)
      with loop have "pillarLoop ge U p now fs nodes best = (r, X)" by simp
      from pillarLoop_result [OF this best] show ?thesis by blast
    qed (use loop best in auto)
    have unserved: "\<forall>m < length X. \<not> serving p (X ! m)"
    proof (intro allI impI)
      fix m assume m: "m < length X"
      show "\<not> serving p (X ! m)"
      proof (cases "m < length nodes")
        case True
        with none have "\<not> serving p (nodes ! m)"
          by (simp add: findIndex_None)
        with True news(1) show ?thesis by (simp add: nth_append)
      next
        case False
        with m news(1) have "X ! m \<in> set news"
          by (simp add: nth_append)
        with news(2) show ?thesis by (simp add: serving_def)
      qed
    qed
    show ?thesis
    proof (cases r)
      case (Found k)
      with run U scan loop have ik: "i = k" "nodes1 = X"
        by (simp_all add: findNearbyConnectionNode_def Let_def)
      from Found res have k: "k < length nodes" "p \<in> set (properties (nodes ! k))"
        by simp_all
      with news(1) ik have "nodes1 ! i = nodes ! k"
        by (simp add: nth_append)
      with np k(2) have "serving p (nodes ! k)"
        by (simp add: serving_def)
      with none k(1) show ?thesis
        by (simp add: findIndex_None)
    next
      case (Best bo)
      show ?thesis
      proof (cases bo)
        case None
        with Best run U scan loop show ?thesis
          by (simp add: findNearbyConnectionNode_def Let_def)
      next
        case (Some bd)
        obtain b d where bd: "bd = (b, d)" by (cases bd)
        with Some Best run U scan loop have ib: "i = b"
          "nodes1 = X[b := addProperty p (X ! b)]"
          by (auto simp: findNearbyConnectionNode_def Let_def)
        from Best Some bd res have b: "b < length X" by simp
        from ib b np have "serving p (nodes1 ! b)"
          by (simp add: serving_def)
        moreover from ib b unserved have "\<forall>m < b. \<not> serving p (nodes1 ! m)"
          by simp
        ultimately have "findIndex (serving p) nodes1 = Some b"
          using b ib by (intro findIndex_first) simp_all
        with ib b show ?thesis by simp
      qed
    qed
  qed
qed

text \<open>The registry a search leaves: new pillars at the end, one served list extended.\<close>

lemma findNearby_shape:
  assumes run: "findNearbyConnectionNode fl p ge pq now nodes = (r, nodes1)"
  shows "\<exists>news. (nodes1 = nodes @ news
             \<or> (\<exists>b. r = Some b \<and> b < length (nodes @ news)
                  \<and> nodes1 = (nodes @ news)[b := addProperty p ((nodes @ news) ! b)]))
           \<and> (\<forall>n \<in> set news. isPillar n \<and> \<not> isPotential n \<and> properties n = []
                 \<and> nid n \<notin> nid ` set nodes)
           \<and> distinct (map nid news)
           \<and> (\<forall>i. r = Some i \<longrightarrow> i < length nodes1)"
proof (cases "unionFrontageLines fl ge")
  case None
  with run have "nodes1 = nodes @ []" "r = None"
    by (simp_all add: findNearbyConnectionNode_def)
  then show ?thesis by (intro exI [where x = "[]"]) simp
next
  case (Some U)
  let ?B = "ge_buffer ge U SHARING_THRESHOLD"
  from scanNodes_cases [of p nodes ge ?B U]
  show ?thesis
  proof
    assume "\<exists>k. findIndex (serving p) nodes = Some k \<and> scanNodes ge ?B U p nodes 0 None = Found k"
    then obtain k where k: "findIndex (serving p) nodes = Some k"
      "scanNodes ge ?B U p nodes 0 None = Found k"
      by blast
    with run Some have "r = Some k" "nodes1 = nodes @ []"
      by (simp_all add: findNearbyConnectionNode_def Let_def)
    with findIndex_Some [OF k(1)] show ?thesis
      by (intro exI [where x = "[]"]) simp
  next
    assume "findIndex (serving p) nodes = None
      \<and> (\<exists>b. scanNodes ge ?B U p nodes 0 None = Best b
           \<and> (b = None \<or> (\<exists>k d. b = Some (k, d) \<and> k < length nodes \<and> \<not> isPotential (nodes ! k))))"
    then obtain best where scan: "scanNodes ge ?B U p nodes 0 None = Best best"
      and best: "\<forall>b d. best = Some (b, d) \<longrightarrow> b < length nodes"
      by auto
    obtain r' X where loop:
      "(case pq of QueryResult features \<Rightarrow> pillarLoop ge U p now features nodes best
        | _ \<Rightarrow> (Best best, nodes)) = (r', X)"
      by (cases "case pq of QueryResult features \<Rightarrow> pillarLoop ge U p now features nodes best
        | _ \<Rightarrow> (Best best, nodes)") blast
    have "\<exists>news. X = nodes @ news
        \<and> (\<forall>n \<in> set news. isPillar n \<and> \<not> isPotential n \<and> properties n = []
              \<and> nid n \<notin> nid ` set nodes)
        \<and> distinct (map nid news)"
    proof (cases pq)
      case (QueryResult fs)
      with loop have "pillarLoop ge U p now fs nodes best = (r', X)" by simp
      from pillarLoop_shape [OF this] show ?thesis by blast
    qed (use loop in auto)
    then obtain news where news: "X = nodes @ news"
      "\<forall>n \<in> set news. isPillar n \<and> \<not> isPotential n \<and> properties n = []
              \<and> nid n \<notin> nid ` set nodes"
      "distinct (map nid news)"
      by blast
    have res: "(\<forall>k. r' = Found k \<longrightarrow> k < length nodes)
       \<and> (\<forall>b d. r' = Best (Some (b, d)) \<longrightarrow> b < length X)"
    proof (cases pq)
      case (QueryResult fs)
      with loop have "pillarLoop ge U p now fs nodes best = (r', X)" by simp
      from pillarLoop_result [OF this best] show ?thesis by blast
    qed (use loop best in auto)
    have "(nodes1 = nodes @ news
             \<or> (\<exists>b. r = Some b \<and> b < length (nodes @ news)
                  \<and> nodes1 = (nodes @ news)[b := addProperty p ((nodes @ news) ! b)]))
          \<and> (\<forall>i. r = Some i \<longrightarrow> i < length nodes1)"
    proof (cases r')
      case (Found k)
      with run Some scan loop have "r = Some k" "nodes1 = X"
        by (simp_all add: findNearbyConnectionNode_def Let_def)
      with Found res news(1) show ?thesis by auto
    next
      case (Best bo)
      show ?thesis
      proof (cases bo)
        case None
        with Best run Some scan loop have "r = None" "nodes1 = X"
          by (simp_all add: findNearbyConnectionNode_def Let_def)
        with news(1) show ?thesis by simp
      next
        case (Some bd)
        obtain b d where bd: "bd = (b, d)" by (cases bd)
        with Some Best run \<open>unionFrontageLines fl ge = Some U\<close> scan loop
        have "r = Some b" "nodes1 = X[b := addProperty p (X ! b)]"
          by (auto simp: findNearbyConnectionNode_def Let_def)
        moreover from Best Some bd res have "b < length X" by simp
        ultimately show ?thesis using news(1) by auto
      qed
    qed
    with news(2) news(3) show ?thesis by blast
  qed
qed

lemma addProperty_distinct: "distinct (properties n) \<Longrightarrow> distinct (properties (addProperty p n))"
  by (simp add: addProperty_def)

lemma findNearby_distinct:
  assumes run: "findNearbyConnectionNode fl p ge pq now nodes = (r, nodes1)"
    and d: "\<forall>m \<in> set nodes. distinct (properties m)"
  shows "\<forall>m \<in> set nodes1. distinct (properties m)"
proof -
  from findNearby_shape [OF run] obtain news where news:
    "nodes1 = nodes @ news
       \<or> (\<exists>b. r = Some b \<and> b < length (nodes @ news)
            \<and> nodes1 = (nodes @ news)[b := addProperty p ((nodes @ news) ! b)])"
    "\<forall>n \<in> set news. properties n = []"
    by blast
  from d news(2) have X: "\<forall>m \<in> set (nodes @ news). distinct (properties m)"
    by auto
  from news(1) show ?thesis
  proof
    assume "nodes1 = nodes @ news"
    with X show ?thesis by simp
  next
    assume "\<exists>b. r = Some b \<and> b < length (nodes @ news)
            \<and> nodes1 = (nodes @ news)[b := addProperty p ((nodes @ news) ! b)]"
    then obtain b where b: "b < length (nodes @ news)"
      "nodes1 = (nodes @ news)[b := addProperty p ((nodes @ news) ! b)]"
      by blast
    from b(1) X have "distinct (properties (addProperty p ((nodes @ news) ! b)))"
      by (intro addProperty_distinct) (metis nth_mem)
    with X b(2) show ?thesis
      using set_update_subset_insert [of "nodes @ news" b "addProperty p ((nodes @ news) ! b)"]
      by auto
  qed
qed

text \<open>The ways a call of \<open>generateOrFindConnectionNode\<close> can go.\<close>

lemma generate_cases [consumes 1, case_names Empty PosError SharedThrew Shared CreateThrew Created]:
  assumes run: "generateOrFindConnectionNode g fl ge pq now stamp st = (res, st')"
  obtains
    (Empty) "fl = []" "res = Inr None" "st' = st"
  | (PosError) e where "fl \<noteq> []"
      "calculatePotentialNodePositions fl (ensureWebMercator (g_geometry g) ge) ge = Inl e"
      "res = Inl e" "st' = st"
  | (SharedThrew) ps i nodes1 e where "fl \<noteq> []"
      "calculatePotentialNodePositions fl (ensureWebMercator (g_geometry g) ge) ge = Inr ps"
      "findNearbyConnectionNode fl (polygonId (g_attributes g)) ge pq now (electricalNodes st)
         = (Some i, nodes1)"
      "removePotentialNodesForProperty (polygonId (g_attributes g))
         (st\<lparr>electricalNodes := nodes1
            [i := storeCentroid (polygonId (g_attributes g))
                    (ge_centroid ge (ensureWebMercator (g_geometry g) ge)) (nodes1 ! i)]\<rparr>)
         = (Some e, st')"
      "res = Inl e"
  | (Shared) ps i nodes1 where "fl \<noteq> []"
      "calculatePotentialNodePositions fl (ensureWebMercator (g_geometry g) ge) ge = Inr ps"
      "findNearbyConnectionNode fl (polygonId (g_attributes g)) ge pq now (electricalNodes st)
         = (Some i, nodes1)"
      "removePotentialNodesForProperty (polygonId (g_attributes g))
         (st\<lparr>electricalNodes := nodes1
            [i := storeCentroid (polygonId (g_attributes g))
                    (ge_centroid ge (ensureWebMercator (g_geometry g) ge)) (nodes1 ! i)]\<rparr>)
         = (None, st')"
      "res = Inr (Some (storeCentroid (polygonId (g_attributes g))
                    (ge_centroid ge (ensureWebMercator (g_geometry g) ge)) (nodes1 ! i)))"
  | (CreateThrew) ps nodes1 e where "fl \<noteq> []"
      "calculatePotentialNodePositions fl (ensureWebMercator (g_geometry g) ge) ge = Inr ps"
      "findNearbyConnectionNode fl (polygonId (g_attributes g)) ge pq now (electricalNodes st)
         = (None, nodes1)"
      "removePotentialNodesForProperty (polygonId (g_attributes g))
         (st\<lparr>electricalNodes := nodes1\<rparr>) = (Some e, st')"
      "res = Inl e"
  | (Created) ps nodes1 stA where "fl \<noteq> []"
      "calculatePotentialNodePositions fl (ensureWebMercator (g_geometry g) ge) ge = Inr ps"
      "findNearbyConnectionNode fl (polygonId (g_attributes g)) ge pq now (electricalNodes st)
         = (None, nodes1)"
      "removePotentialNodesForProperty (polygonId (g_attributes g))
         (st\<lparr>electricalNodes := nodes1\<rparr>) = (None, stA)"
      "res = Inr (Some (storeCentroid (polygonId (g_attributes g))
                    (ge_centroid ge (ensureWebMercator (g_geometry g) ge))
                    (createElectricalNode (first_right ps) (polygonId (g_attributes g)) right True
                       now stamp)))"
      "st' = stA\<lparr>electricalNodes := electricalNodes stA
                 @ [storeCentroid (polygonId (g_attributes g))
                      (ge_centroid ge (ensureWebMercator (g_geometry g) ge))
                      (createElectricalNode (first_right ps) (polygonId (g_attributes g)) right True
                         now stamp)]\<rparr>"
proof (cases "fl = []")
  case True
  with run Empty show ?thesis
    by (simp add: generateOrFindConnectionNode_def)
next
  case False
  let ?p = "polygonId (g_attributes g)"
  let ?W = "ensureWebMercator (g_geometry g) ge"
  show ?thesis
  proof (cases "calculatePotentialNodePositions fl ?W ge")
    case (Inl e)
    with run False PosError show ?thesis
      by (simp add: generateOrFindConnectionNode_def Let_def)
  next
    case (Inr ps)
    obtain r nodes1 where near:
      "findNearbyConnectionNode fl ?p ge pq now (electricalNodes st) = (r, nodes1)"
      by (cases "findNearbyConnectionNode fl ?p ge pq now (electricalNodes st)") blast
    show ?thesis
    proof (cases r)
      case None
      obtain e' stA where rem:
        "removePotentialNodesForProperty ?p (st\<lparr>electricalNodes := nodes1\<rparr>) = (e', stA)"
        by (cases "removePotentialNodesForProperty ?p (st\<lparr>electricalNodes := nodes1\<rparr>)") blast
      show ?thesis
      proof (cases e')
        case (Some e)
        with run False Inr near None rem have "res = Inl e" "st' = stA"
          by (simp_all add: generateOrFindConnectionNode_def createAndRenderPotentialNode_def
                Let_def)
        with False Inr near None rem Some show ?thesis
          by (intro CreateThrew [of ps nodes1 e]) simp_all
      next
        case none: None
        with run False Inr near None rem
        have "res = Inr (Some (storeCentroid ?p (ge_centroid ge ?W)
                    (createElectricalNode (first_right ps) ?p right True now stamp)))"
          "st' = stA\<lparr>electricalNodes := electricalNodes stA
                 @ [storeCentroid ?p (ge_centroid ge ?W)
                      (createElectricalNode (first_right ps) ?p right True now stamp)]\<rparr>"
          by (simp_all add: generateOrFindConnectionNode_def createAndRenderPotentialNode_def
                Let_def)
        with False Inr near None rem none show ?thesis
          by (intro Created [of ps nodes1 stA]) simp_all
      qed
    next
      case (Some i)
      let ?n = "storeCentroid ?p (ge_centroid ge ?W) (nodes1 ! i)"
      obtain e' stA where rem:
        "removePotentialNodesForProperty ?p (st\<lparr>electricalNodes := nodes1[i := ?n]\<rparr>) = (e', stA)"
        by (cases "removePotentialNodesForProperty ?p (st\<lparr>electricalNodes := nodes1[i := ?n]\<rparr>)")
           blast
      show ?thesis
      proof (cases e')
        case some: (Some e)
        with run False Inr near Some rem have "res = Inl e" "st' = stA"
          by (simp_all add: generateOrFindConnectionNode_def Let_def)
        with False Inr near Some rem some show ?thesis
          by (intro SharedThrew [of ps i nodes1 e]) simp_all
      next
        case None
        with run False Inr near Some rem have "res = Inr (Some ?n)" "st' = stA"
          by (simp_all add: generateOrFindConnectionNode_def Let_def)
        with False Inr near Some rem None show ?thesis
          by (intro Shared [of ps i nodes1]) simp_all
      qed
    qed
  qed
qed

lemma scanNodes_Some_stays: "scanNodes ge B U p ns i (Some x) \<noteq> Best None"
  by (induction ns arbitrary: i x) (auto simp: closer_def)

lemma scanNodes_Best_None:
  "scanNodes ge B U p ns i best = Best None \<longleftrightarrow>
     best = None \<and> (\<forall>n \<in> set ns. \<not> candidate ge B p n)"
proof (induction ns arbitrary: i best)
  case Nil
  then show ?case by simp
next
  case (Cons n ns)
  show ?case
  proof (cases best)
    case None
    with Cons show ?thesis
      by (auto simp: candidate_def scanNodes_Some_stays)
  next
    case (Some x)
    then show ?thesis
      using scanNodes_Some_stays [of ge B U p "n # ns" i x] by simp
  qed
qed

lemma findNearby_None:
  assumes run: "findNearbyConnectionNode fl p ge pq now nodes = (None, nodes1)"
    and U: "unionFrontageLines fl ge = Some U"
  shows "nodes1 = nodes
    \<and> (\<forall>n \<in> set nodes. \<not> candidate ge (ge_buffer ge U SHARING_THRESHOLD) p n)"
proof -
  let ?B = "ge_buffer ge U SHARING_THRESHOLD"
  obtain sc where sc: "scanNodes ge ?B U p nodes 0 None = sc" by blast
  show ?thesis
  proof (cases sc)
    case (Found k)
    with run U sc show ?thesis
      by (simp add: findNearbyConnectionNode_def Let_def)
  next
    case (Best best)
    obtain r X where loop:
      "(case pq of QueryResult features \<Rightarrow> pillarLoop ge U p now features nodes best
        | _ \<Rightarrow> (Best best, nodes)) = (r, X)"
      by (cases "case pq of QueryResult features \<Rightarrow> pillarLoop ge U p now features nodes best
        | _ \<Rightarrow> (Best best, nodes)") blast
    from run U sc Best loop have r: "r = Best None" and X: "nodes1 = X"
      by (auto simp: findNearbyConnectionNode_def Let_def split: scan.splits option.splits)
    have "best = None \<and> X = nodes"
    proof (cases pq)
      case (QueryResult fs)
      with loop r have l: "pillarLoop ge U p now fs nodes best = (Best None, X)" by simp
      have "\<forall>b d. best = Some (b, d) \<longrightarrow> b < length nodes"
      proof (intro allI impI)
        fix b d assume b: "best = Some (b, d)"
        from scanNodes_cases [of p nodes ge ?B U] sc Best b show "b < length nodes"
          by auto
      qed
      from pillarLoop_result [OF l this] have "fs = []" "best = None"
        by simp_all
      with l show ?thesis by simp
    qed (use loop r in auto)
    with sc Best X show ?thesis
      by (simp add: scanNodes_Best_None)
  qed
qed

lemma findNearby_no_candidate:
  assumes U: "unionFrontageLines fl ge = Some U"
    and none: "\<forall>n \<in> set nodes. \<not> candidate ge (ge_buffer ge U SHARING_THRESHOLD) p n"
    and pq: "pq = NoPillarsLayer \<or> pq = QueryFailed \<or> pq = QueryResult []"
  shows "findNearbyConnectionNode fl p ge pq now nodes = (None, nodes)"
proof -
  from none have "scanNodes ge (ge_buffer ge U SHARING_THRESHOLD) U p nodes 0 None = Best None"
    by (simp add: scanNodes_Best_None)
  with U pq show ?thesis
    by (auto simp: findNearbyConnectionNode_def Let_def)
qed

lemma created_fields [simp]:
  "isPotential (createElectricalNode pos p sd pot now stamp) = pot"
  "properties (createElectricalNode pos p sd pot now stamp) = [p]"
  "position (createElectricalNode pos p sd pot now stamp) = pos"
  "nid (createElectricalNode pos p sd True now stamp) = JStr (''POTENTIAL_'' @ stamp)"
  by (simp_all add: createElectricalNode_def)

lemma filter_not_potentialFor_idem:
  "filter (\<lambda>n. \<not> potentialFor p n) (filter (\<lambda>n. \<not> potentialFor p n) xs @ [m])
     = (if potentialFor p m then filter (\<lambda>n. \<not> potentialFor p n) xs
        else filter (\<lambda>n. \<not> potentialFor p n) xs @ [m])"
  by simp

lemma filter_potentialFor_none:
  "filter (potentialFor p) (filter (\<lambda>n. \<not> potentialFor p n) xs) = []"
  by (induction xs) simp_all

text \<open>A shared node: the second call resolves to it again and changes nothing.\<close>

lemma shared_again:
  assumes first: "generateOrFindConnectionNode g fl ge pq now stamp st = (Inr (Some n), st1)"
    and np: "\<not> isPotential n"
  shows "generateOrFindConnectionNode g fl ge pq' now' stamp' st1 = (Inr (Some n), st1)
    \<and> n \<in> set (electricalNodes st1)
    \<and> polygonId (g_attributes g) \<in> set (properties n)
    \<and> ((\<forall>m \<in> set (electricalNodes st). distinct (properties m)) \<longrightarrow> distinct (properties n))"
  using first
proof (cases rule: generate_cases)
  case (Shared ps i nodes1)
  let ?p = "polygonId (g_attributes g)"
  let ?c = "ge_centroid ge (ensureWebMercator (g_geometry g) ge)"
  from Shared(5) have n: "n = storeCentroid ?p ?c (nodes1 ! i)" by simp
  with np have npi: "\<not> isPotential (nodes1 ! i)" by simp
  from findNearby_Some [OF Shared(3) npi] have i: "i < length nodes1"
    and fi: "findIndex (serving ?p) nodes1 = Some i"
    by simp_all
  let ?X = "nodes1[i := n]"
  from findIndex_Some [OF fi] have sv: "serving ?p (nodes1 ! i)"
    and before: "\<forall>m < i. \<not> serving ?p (nodes1 ! m)"
    by simp_all
  have fX: "findIndex (serving ?p) ?X = Some i"
    using i sv before n by (intro findIndex_first) simp_all
  have nodes_st1: "electricalNodes st1 = filter (\<lambda>m. \<not> potentialFor ?p m) ?X"
    using removePotential_nodes [of ?p "st\<lparr>electricalNodes := ?X\<rparr>"] Shared(4) n by simp
  from findIndex_through_filter [OF fX] nodes_st1 i
  obtain k where k: "findIndex (serving ?p) (electricalNodes st1) = Some k"
    "electricalNodes st1 ! k = n"
    by auto
  have idem: "storeCentroid ?p ?c (electricalNodes st1 ! k) = electricalNodes st1 ! k"
    using k(2) n by (simp add: storeCentroid_idem)
  have again: "removePotentialNodesForProperty ?p st1 = (None, st1)"
    using Shared(4) by (rule removePotential_same)
  have second: "generateOrFindConnectionNode g fl ge pq' now' stamp' st1 = (Inr (Some n), st1)"
    using second_call_same [OF Shared(1) Shared(2) k(1) idem again] k(2) by simp
  from findIndex_Some [OF k(1)] k(2) have mem: "n \<in> set (electricalNodes st1)"
    by (metis nth_mem)
  from sv n have served: "?p \<in> set (properties n)"
    by (simp add: serving_def)
  have dist: "(\<forall>m \<in> set (electricalNodes st). distinct (properties m)) \<longrightarrow> distinct (properties n)"
  proof
    assume "\<forall>m \<in> set (electricalNodes st). distinct (properties m)"
    from findNearby_distinct [OF Shared(3) this] i have "distinct (properties (nodes1 ! i))"
      by simp
    with n show "distinct (properties n)" by simp
  qed
  from second mem served dist show ?thesis by blast
next
  case (Created ps nodes1 stA)
  with np show ?thesis by simp
qed simp_all

lemma potentialFor_created [simp]:
  "potentialFor p (storeCentroid p c (createElectricalNode pos p sd True now stamp))"
  by (simp add: potentialFor_def)

lemma not_candidate_potential: "isPotential n \<Longrightarrow> \<not> candidate ge B p n"
  by (simp add: candidate_def)

text \<open>A potential node: the second call removes it and creates another.\<close>

lemma created_replaced:
  assumes first: "generateOrFindConnectionNode g fl ge pq now stamp st = (Inr (Some n1), st1)"
    and none: "findNearbyConnectionNode fl (polygonId (g_attributes g)) ge pq now (electricalNodes st)
                 = (None, nodes1)"
    and pq': "pq' = NoPillarsLayer \<or> pq' = QueryFailed \<or> pq' = QueryResult []"
  shows "\<exists>ps. calculatePotentialNodePositions fl (ensureWebMercator (g_geometry g) ge) ge = Inr ps
    \<and> n1 = storeCentroid (polygonId (g_attributes g))
              (ge_centroid ge (ensureWebMercator (g_geometry g) ge))
              (createElectricalNode (first_right ps) (polygonId (g_attributes g)) right True now stamp)
    \<and> electricalNodes st1
        = filter (\<lambda>m. \<not> potentialFor (polygonId (g_attributes g)) m) (electricalNodes st) @ [n1]
    \<and> generateOrFindConnectionNode g fl ge pq' now' stamp' st1
        = (Inr (Some (storeCentroid (polygonId (g_attributes g))
              (ge_centroid ge (ensureWebMercator (g_geometry g) ge))
              (createElectricalNode (first_right ps) (polygonId (g_attributes g)) right True
                 now' stamp'))),
           st1\<lparr>electricalNodes :=
                filter (\<lambda>m. \<not> potentialFor (polygonId (g_attributes g)) m) (electricalNodes st)
                @ [storeCentroid (polygonId (g_attributes g))
                     (ge_centroid ge (ensureWebMercator (g_geometry g) ge))
                     (createElectricalNode (first_right ps) (polygonId (g_attributes g)) right True
                        now' stamp')]\<rparr>)"
  using first
proof (cases rule: generate_cases)
  case (Created ps nodes1' stA)
  let ?p = "polygonId (g_attributes g)"
  let ?c = "ge_centroid ge (ensureWebMercator (g_geometry g) ge)"
  let ?Q = "\<lambda>m. \<not> potentialFor ?p m"
  let ?n2 = "storeCentroid ?p ?c (createElectricalNode (first_right ps) ?p right True now' stamp')"
  from Created(3) none have same: "nodes1' = nodes1" by simp
  obtain U where U: "unionFrontageLines fl ge = Some U"
    using unionFrontageLines_Some [OF Created(1)] by blast
  from findNearby_None [OF none U] have n1eq: "nodes1 = electricalNodes st"
    and nocand: "\<forall>n \<in> set (electricalNodes st). \<not> candidate ge (ge_buffer ge U SHARING_THRESHOLD) ?p n"
    by simp_all
  from Created(5) have n1: "n1 = storeCentroid ?p ?c
      (createElectricalNode (first_right ps) ?p right True now stamp)"
    by simp
  have st_same: "st\<lparr>electricalNodes := nodes1'\<rparr> = st"
    using same n1eq by simp
  from Created(4) st_same have rem: "removePotentialNodesForProperty ?p st = (None, stA)"
    by simp
  have nodesA: "electricalNodes stA = filter ?Q (electricalNodes st)"
    using removePotential_nodes [of ?p st] rem by simp
  from Created(6) n1 have st1: "st1 = stA\<lparr>electricalNodes := electricalNodes stA @ [n1]\<rparr>"
    by simp
  then have nodes1: "electricalNodes st1 = filter ?Q (electricalNodes st) @ [n1]"
    using nodesA by simp
  have "\<forall>n \<in> set (electricalNodes st1). \<not> candidate ge (ge_buffer ge U SHARING_THRESHOLD) ?p n"
    using nocand nodes1 n1 by (auto simp: not_candidate_potential)
  from findNearby_no_candidate [OF U this pq']
  have near2: "findNearbyConnectionNode fl ?p ge pq' now' (electricalNodes st1)
      = (None, electricalNodes st1)" .
  have upd: "st1\<lparr>electricalNodes := electricalNodes st1\<rparr> = st1" by simp
  have "removePotentialNodesForProperty ?p st1
      = (None, stA\<lparr>electricalNodes := filter ?Q (electricalNodes stA @ [n1])\<rparr>)"
    unfolding st1 by (rule removePotential_again [OF rem])
  moreover have "filter ?Q (electricalNodes stA @ [n1]) = electricalNodes stA"
    using nodesA n1 by simp
  moreover have "stA\<lparr>electricalNodes := electricalNodes stA\<rparr> = stA" by simp
  ultimately have rem2: "removePotentialNodesForProperty ?p st1 = (None, stA)"
    by simp
  have second: "generateOrFindConnectionNode g fl ge pq' now' stamp' st1
      = (Inr (Some ?n2), stA\<lparr>electricalNodes := electricalNodes stA @ [?n2]\<rparr>)"
    using Created(1)
    by (simp add: generateOrFindConnectionNode_def Let_def Created(2) near2 upd
          createAndRenderPotentialNode_def rem2)
  have "stA\<lparr>electricalNodes := electricalNodes stA @ [?n2]\<rparr>
      = st1\<lparr>electricalNodes := filter ?Q (electricalNodes st) @ [?n2]\<rparr>"
    unfolding st1 using nodesA by simp
  with second Created(2) n1 nodes1 show ?thesis
    by simp
next
  case (Shared ps i nodes1')
  with none show ?thesis by simp
qed simp_all

text \<open>Two invariants of the registry under a call, whatever its outcome.\<close>

lemma removePotential_nodes_eq:
  "removePotentialNodesForProperty p (st\<lparr>electricalNodes := X\<rparr>) = (e, st') \<Longrightarrow>
     electricalNodes st' = filter (\<lambda>m. \<not> potentialFor p m) X"
  using removePotential_nodes [of p "st\<lparr>electricalNodes := X\<rparr>"] by simp

lemma length_filter_update:
  "i < length xs \<Longrightarrow> P y = P (xs ! i) \<Longrightarrow>
     length (filter P (xs[i := y])) = length (filter P xs)"
proof (induction xs arbitrary: i)
  case Nil
  then show ?case by simp
next
  case (Cons x xs)
  then show ?case by (cases i) simp_all
qed

lemma potentialFor_addProperty: "q \<noteq> p \<Longrightarrow> potentialFor q (addProperty p n) = potentialFor q n"
  by (simp add: potentialFor_def addProperty_def)

lemma potentialFor_storeCentroid [simp]: "potentialFor q (storeCentroid p c n) = potentialFor q n"
  by (simp add: potentialFor_def)

lemma findNearby_potentials:
  assumes run: "findNearbyConnectionNode fl p ge pq now nodes = (r, nodes1)"
    and q: "q \<noteq> p"
  shows "length (filter (potentialFor q) nodes1) = length (filter (potentialFor q) nodes)"
proof -
  from findNearby_shape [OF run] obtain news where news:
    "nodes1 = nodes @ news
       \<or> (\<exists>b. r = Some b \<and> b < length (nodes @ news)
            \<and> nodes1 = (nodes @ news)[b := addProperty p ((nodes @ news) ! b)])"
    "\<forall>n \<in> set news. \<not> isPotential n"
    by blast
  from news(2) have "filter (potentialFor q) news = []"
    by (auto simp: filter_empty_conv potentialFor_def)
  then have X: "length (filter (potentialFor q) (nodes @ news)) = length (filter (potentialFor q) nodes)"
    by simp
  from news(1) show ?thesis
  proof
    assume "nodes1 = nodes @ news"
    with X show ?thesis by simp
  next
    assume "\<exists>b. r = Some b \<and> b < length (nodes @ news)
            \<and> nodes1 = (nodes @ news)[b := addProperty p ((nodes @ news) ! b)]"
    then obtain b where b: "b < length (nodes @ news)"
      "nodes1 = (nodes @ news)[b := addProperty p ((nodes @ news) ! b)]"
      by blast
    from length_filter_update [OF b(1), of "potentialFor q" "addProperty p ((nodes @ news) ! b)"]
         potentialFor_addProperty [OF q] b(2) X
    show ?thesis by simp
  qed
qed

lemma filter_potentialFor_other:
  "length (filter (potentialFor q) (filter (\<lambda>m. \<not> potentialFor p m) xs))
     \<le> length (filter (potentialFor q) xs)"
  by (induction xs) auto

lemma one_potential_after:
  assumes near: "findNearbyConnectionNode fl p ge pq now nodes = (r, nodes1)"
    and inv: "\<forall>q. length (filter (potentialFor q) nodes) \<le> 1"
    and X: "X = nodes1 \<or> (\<exists>i c. i < length nodes1 \<and> X = nodes1[i := storeCentroid p c (nodes1 ! i)])"
  shows "length (filter (potentialFor q) (filter (\<lambda>m. \<not> potentialFor p m) X))
           \<le> (if q = p then 0 else 1)"
proof (cases "q = p")
  case True
  then show ?thesis by (simp add: filter_potentialFor_none)
next
  case False
  have "length (filter (potentialFor q) X) = length (filter (potentialFor q) nodes1)"
    using X by (auto simp: length_filter_update)
  with findNearby_potentials [OF near False] inv
  have "length (filter (potentialFor q) X) \<le> 1"
    by simp
  with filter_potentialFor_other [of q p X] False show ?thesis
    by simp
qed

lemma generate_one_potential:
  assumes run: "generateOrFindConnectionNode g fl ge pq now stamp st = (res, st')"
    and inv: "\<forall>q. length (filter (potentialFor q) (electricalNodes st)) \<le> 1"
  shows "length (filter (potentialFor q) (electricalNodes st')) \<le> 1"
  using run
proof (cases rule: generate_cases)
  case Empty
  with inv show ?thesis by simp
next
  case (PosError e)
  with inv show ?thesis by simp
next
  case (SharedThrew ps i nodes1 e)
  let ?p = "polygonId (g_attributes g)"
  let ?X = "nodes1[i := storeCentroid ?p (ge_centroid ge (ensureWebMercator (g_geometry g) ge))
                          (nodes1 ! i)]"
  from findNearby_shape [OF SharedThrew(3)] have i: "i < length nodes1" by blast
  then have X: "?X = nodes1
      \<or> (\<exists>i c. i < length nodes1 \<and> ?X = nodes1[i := storeCentroid ?p c (nodes1 ! i)])"
    by blast
  have a: "length (filter (potentialFor q) (filter (\<lambda>m. \<not> potentialFor ?p m) ?X))
      \<le> (if q = ?p then 0 else 1)"
    by (rule one_potential_after [OF SharedThrew(3) inv X])
  have b: "electricalNodes st' = filter (\<lambda>m. \<not> potentialFor ?p m) ?X"
    by (rule removePotential_nodes_eq [OF SharedThrew(4)])
  show ?thesis
    unfolding b using a by (simp split: if_splits)
next
  case (Shared ps i nodes1)
  let ?p = "polygonId (g_attributes g)"
  let ?X = "nodes1[i := storeCentroid ?p (ge_centroid ge (ensureWebMercator (g_geometry g) ge))
                          (nodes1 ! i)]"
  from findNearby_shape [OF Shared(3)] have i: "i < length nodes1" by blast
  then have X: "?X = nodes1
      \<or> (\<exists>i c. i < length nodes1 \<and> ?X = nodes1[i := storeCentroid ?p c (nodes1 ! i)])"
    by blast
  have a: "length (filter (potentialFor q) (filter (\<lambda>m. \<not> potentialFor ?p m) ?X))
      \<le> (if q = ?p then 0 else 1)"
    by (rule one_potential_after [OF Shared(3) inv X])
  have b: "electricalNodes st' = filter (\<lambda>m. \<not> potentialFor ?p m) ?X"
    by (rule removePotential_nodes_eq [OF Shared(4)])
  show ?thesis
    unfolding b using a by (simp split: if_splits)
next
  case (CreateThrew ps nodes1 e)
  let ?p = "polygonId (g_attributes g)"
  have X: "nodes1 = nodes1
      \<or> (\<exists>i c. i < length nodes1 \<and> nodes1 = nodes1[i := storeCentroid ?p c (nodes1 ! i)])"
    by simp
  have a: "length (filter (potentialFor q) (filter (\<lambda>m. \<not> potentialFor ?p m) nodes1))
      \<le> (if q = ?p then 0 else 1)"
    by (rule one_potential_after [OF CreateThrew(3) inv X])
  have b: "electricalNodes st' = filter (\<lambda>m. \<not> potentialFor ?p m) nodes1"
    by (rule removePotential_nodes_eq [OF CreateThrew(4)])
  show ?thesis
    unfolding b using a by (simp split: if_splits)
next
  case (Created ps nodes1 stA)
  let ?p = "polygonId (g_attributes g)"
  have X: "nodes1 = nodes1
      \<or> (\<exists>i c. i < length nodes1 \<and> nodes1 = nodes1[i := storeCentroid ?p c (nodes1 ! i)])"
    by simp
  have a: "length (filter (potentialFor q) (filter (\<lambda>m. \<not> potentialFor ?p m) nodes1))
      \<le> (if q = ?p then 0 else 1)"
    by (rule one_potential_after [OF Created(3) inv X])
  have b: "electricalNodes stA = filter (\<lambda>m. \<not> potentialFor ?p m) nodes1"
    by (rule removePotential_nodes_eq [OF Created(4)])
  have c: "electricalNodes st' = filter (\<lambda>m. \<not> potentialFor ?p m) nodes1
      @ [storeCentroid ?p (ge_centroid ge (ensureWebMercator (g_geometry g) ge))
           (createElectricalNode (first_right ps) ?p right True now stamp)]"
    using Created(6) b by simp
  show ?thesis
    unfolding c using a by (simp add: potentialFor_def split: if_splits)
qed

lemma generate_distinct:
  assumes run: "generateOrFindConnectionNode g fl ge pq now stamp st = (res, st')"
    and inv: "\<forall>m \<in> set (electricalNodes st). distinct (properties m)"
  shows "\<forall>m \<in> set (electricalNodes st'). distinct (properties m)"
  using run
proof (cases rule: generate_cases)
  case Empty
  with inv show ?thesis by simp
next
  case (PosError e)
  with inv show ?thesis by simp
next
  case (SharedThrew ps i nodes1 e)
  let ?n = "storeCentroid (polygonId (g_attributes g))
              (ge_centroid ge (ensureWebMercator (g_geometry g) ge)) (nodes1 ! i)"
  from findNearby_shape [OF SharedThrew(3)] have i: "i < length nodes1" by blast
  note d = findNearby_distinct [OF SharedThrew(3) inv]
  with i have "distinct (properties ?n)" by simp
  with d have "\<forall>m \<in> set (nodes1[i := ?n]). distinct (properties m)"
    using set_update_subset_insert [of nodes1 i ?n] by auto
  with removePotential_nodes_eq [OF SharedThrew(4)] show ?thesis by simp
next
  case (Shared ps i nodes1)
  let ?n = "storeCentroid (polygonId (g_attributes g))
              (ge_centroid ge (ensureWebMercator (g_geometry g) ge)) (nodes1 ! i)"
  from findNearby_shape [OF Shared(3)] have i: "i < length nodes1" by blast
  note d = findNearby_distinct [OF Shared(3) inv]
  with i have "distinct (properties ?n)" by simp
  with d have "\<forall>m \<in> set (nodes1[i := ?n]). distinct (properties m)"
    using set_update_subset_insert [of nodes1 i ?n] by auto
  with removePotential_nodes_eq [OF Shared(4)] show ?thesis by simp
next
  case (CreateThrew ps nodes1 e)
  from findNearby_distinct [OF CreateThrew(3) inv] removePotential_nodes_eq [OF CreateThrew(4)]
  show ?thesis by simp
next
  case (Created ps nodes1 stA)
  from findNearby_distinct [OF Created(3) inv] removePotential_nodes_eq [OF Created(4)] Created(6)
  show ?thesis by simp
qed

lemma sqrt_400: "sqrt 400 = 20"
  using real_sqrt_abs2 [of 20] by simp

lemma example_id: "polygonId (g_attributes exampleParcel) = JNum 7"
  by (simp add: exampleParcel_def polygonId_def jsOr_def getAttr_def)

lemma example_key: "showInt 7 = ''7''"
  by (simp add: showInt_def showNat.simps [of 7] digitChar_def)

lemma example_positions:
  "calculatePotentialNodePositions [exampleFrontage]
     (ensureWebMercator (g_geometry exampleParcel) boxEngine) boxEngine
   = Inr \<lparr>first_left = \<lparr>px = 0, py = 10, pwkid = 102100\<rparr>,
          first_right = \<lparr>px = 20, py = 10, pwkid = 102100\<rparr>,
          last_left = \<lparr>px = 0, py = 10, pwkid = 102100\<rparr>,
          last_right = \<lparr>px = 20, py = 10, pwkid = 102100\<rparr>\<rparr>"
  by (simp add: calculatePotentialNodePositions_def getConvertedFrontageEndpoints_def
        calculateNodePosition_def ensureWebMercator_def INSET_DISTANCE_def Let_def sqrt_400
        example_simps box_simps)

lemma example_union:
  "unionFrontageLines [exampleFrontage] boxEngine = Some (Polyline [[(0, 0), (20, 0)]] 102100)"
  by (simp add: unionFrontageLines_def inWebMercator_def lineGeometry_def exampleFrontage_def)

lemma example_centroid:
  "ge_centroid boxEngine (ensureWebMercator (g_geometry exampleParcel) boxEngine)
     = \<lparr>px = 10, py = 10, pwkid = 102100\<rparr>"
  by (simp add: ensureWebMercator_def example_simps box_simps)

lemma example_created:
  "storeCentroid (JNum 7) \<lparr>px = 10, py = 10, pwkid = 102100\<rparr>
     (createElectricalNode \<lparr>px = 20, py = 10, pwkid = 102100\<rparr> (JNum 7) right True now stamp)
   = examplePotentialNode now stamp"
  by (simp add: storeCentroid_def createElectricalNode_def examplePotentialNode_def example_key)

lemma example_first_call:
  "generateOrFindConnectionNode exampleParcel [exampleFrontage] boxEngine NoPillarsLayer now stamp
     \<lparr>electricalNodes = [], electricalLayer = Some []\<rparr>
   = (Inr (Some (examplePotentialNode now stamp)),
      \<lparr>electricalNodes = [examplePotentialNode now stamp], electricalLayer = Some []\<rparr>)"
  by (simp add: generateOrFindConnectionNode_def Let_def example_positions example_id
        example_centroid findNearbyConnectionNode_def example_union
        createAndRenderPotentialNode_def removePotentialNodesForProperty_def example_created)

lemma example_second_call:
  "generateOrFindConnectionNode exampleParcel [exampleFrontage] boxEngine NoPillarsLayer now' stamp'
     \<lparr>electricalNodes = [examplePotentialNode now stamp], electricalLayer = Some []\<rparr>
   = (Inr (Some (examplePotentialNode now' stamp')),
      \<lparr>electricalNodes = [examplePotentialNode now' stamp'], electricalLayer = Some []\<rparr>)"
proof -
  have p: "isPotential (examplePotentialNode now stamp)"
    "JNum 7 \<in> set (properties (examplePotentialNode now stamp))"
    by (simp_all add: examplePotentialNode_def)
  show ?thesis
    by (simp add: generateOrFindConnectionNode_def Let_def example_positions example_id
        example_centroid findNearbyConnectionNode_def example_union
        createAndRenderPotentialNode_def removePotentialNodesForProperty_def example_created p)
qed

lemma example_pillar_search:
  "findNearbyConnectionNode [exampleFrontage] (JNum 7) boxEngine (QueryResult examplePillars) now []
   = (Some 0,
      [examplePillarNode ''P1'' \<lparr>px = 5, py = -3, pwkid = 102100\<rparr> [JNum 7] now,
       examplePillarNode ''P2'' \<lparr>px = 15, py = -8, pwkid = 102100\<rparr> [] now])"
  by (simp add: findNearbyConnectionNode_def example_union examplePillars_def Let_def
        newPillarNode_def examplePillarNode_def addProperty_def closer_def box_simps)

lemma example_pillar_call:
  "generateOrFindConnectionNode exampleParcel [exampleFrontage] boxEngine
     (QueryResult examplePillars) now stamp \<lparr>electricalNodes = [], electricalLayer = Some []\<rparr>
   = (Inr (Some ((examplePillarNode ''P1'' \<lparr>px = 5, py = -3, pwkid = 102100\<rparr> [JNum 7] now)
                   \<lparr>propertyCentroids := Some [(''7'', \<lparr>px = 10, py = 10, pwkid = 102100\<rparr>)]\<rparr>)),
      \<lparr>electricalNodes =
         [(examplePillarNode ''P1'' \<lparr>px = 5, py = -3, pwkid = 102100\<rparr> [JNum 7] now)
            \<lparr>propertyCentroids := Some [(''7'', \<lparr>px = 10, py = 10, pwkid = 102100\<rparr>)]\<rparr>,
          examplePillarNode ''P2'' \<lparr>px = 15, py = -8, pwkid = 102100\<rparr> [] now],
       electricalLayer = Some []\<rparr>)"
  by (simp add: generateOrFindConnectionNode_def Let_def example_positions example_id
        example_centroid example_pillar_search examplePillarNode_def storeCentroid_def
        example_key removePotentialNodesForProperty_def)

lemma pillarLoop_news:
  "pillarLoop ge U p now fs nodes best = (r, nodes') \<Longrightarrow>
     \<forall>n \<in> set (drop (length nodes) nodes'). \<exists>f \<in> set fs. n = newPillarNode f now"
proof (induction fs arbitrary: nodes best)
  case Nil
  then show ?case by simp
next
  case (Cons f fs)
  show ?case
  proof (cases "findIndex (\<lambda>n. nid n = pf_pick_id f) nodes")
    case (Some k)
    show ?thesis
    proof (cases "p \<in> set (properties (nodes ! k))")
      case True
      with Some Cons.prems show ?thesis by simp
    next
      case False
      with Some Cons.prems obtain best' where
        "pillarLoop ge U p now fs nodes best' = (r, nodes')"
        by (auto split: if_splits)
      from Cons.IH [OF this] show ?thesis by auto
    qed
  next
    case None
    let ?np = "newPillarNode f now"
    from None Cons.prems obtain best' where run:
      "pillarLoop ge U p now fs (nodes @ [?np]) best' = (r, nodes')"
      by (auto split: if_splits)
    from pillarLoop_shape [OF run] obtain news where news: "nodes' = (nodes @ [?np]) @ news"
      by blast
    from Cons.IH [OF run] news have "\<forall>n \<in> set news. \<exists>f \<in> set fs. n = newPillarNode f now"
      by simp
    moreover from news have "drop (length nodes) nodes' = ?np # news"
      by simp
    ultimately show ?thesis by auto
  qed
qed

text \<open>
  C10. When the pillar inventory is queried (no node in memory already serves the
  parcel, and the query returns features), every pillar of the result whose identifier
  the registry does not hold is appended to the registry, as a pillar node built from
  the feature with an empty served list, once for each identifier; afterwards every
  pillar of the result is tracked. At most one node of the registry, the one returned,
  then gains the parcel in its served list; every other node, appended or not, is left
  as it is. The identifiers of the inventory are taken not to be the generated
  identifiers of potential nodes.
\<close>

theorem pillar_query_registers_pillars:
  assumes U: "unionFrontageLines fl ge = Some U"
    and unserved: "\<forall>n \<in> set nodes. isPotential n \<or> p \<notin> set (properties n)"
    and ids: "\<forall>n \<in> set nodes. isPotential n \<longrightarrow> nid n \<notin> pf_pick_id ` set fs"
  shows "\<exists>news r. findNearbyConnectionNode fl p ge (QueryResult fs) now nodes
              = (r, case r of None \<Rightarrow> nodes @ news
                    | Some b \<Rightarrow> (nodes @ news)[b := addProperty p ((nodes @ news) ! b)])
      \<and> (\<forall>b. r = Some b \<longrightarrow> b < length (nodes @ news))
      \<and> (\<forall>n \<in> set news. (\<exists>f \<in> set fs. n = newPillarNode f now)
            \<and> isPillar n \<and> \<not> isPotential n \<and> properties n = [])
      \<and> nid ` set news = pf_pick_id ` set fs - nid ` set nodes
      \<and> distinct (map nid news)
      \<and> (\<forall>f \<in> set fs. pf_pick_id f \<in> nid ` set (nodes @ news))"
proof -
  let ?B = "ge_buffer ge U SHARING_THRESHOLD"
  from unserved have none: "findIndex (serving p) nodes = None"
    by (auto simp: findIndex_None serving_def)
  from scanNodes_best [OF none, of ge ?B U 0 None]
  obtain best where scan: "scanNodes ge ?B U p nodes 0 None = Best best"
    and best: "\<forall>b d. best = Some (b, d) \<longrightarrow> b < length nodes"
    by auto
  obtain r' X where loop: "pillarLoop ge U p now fs nodes best = (r', X)"
    by (cases "pillarLoop ge U p now fs nodes best") blast
  from pillarLoop_shape [OF loop] obtain news where news: "X = nodes @ news"
    "\<forall>n \<in> set news. isPillar n \<and> \<not> isPotential n \<and> properties n = []
        \<and> nid n \<in> pf_pick_id ` set fs \<and> nid n \<notin> nid ` set nodes"
    "distinct (map nid news)"
    by blast
  note res = pillarLoop_result [OF loop best]
  have notfound: "\<forall>k. r' \<noteq> Found k"
  proof (intro allI notI)
    fix k assume "r' = Found k"
    with res have k: "k < length nodes" "p \<in> set (properties (nodes ! k))"
      "nid (nodes ! k) \<in> pf_pick_id ` set fs"
      by simp_all
    from k(1) have mem: "nodes ! k \<in> set nodes" by simp
    with unserved k(2) have "isPotential (nodes ! k)" by blast
    with ids mem k(3) show False by blast
  qed
  with res have tracked: "\<forall>f \<in> set fs. pf_pick_id f \<in> nid ` set X"
    by blast
  from pillarLoop_news [OF loop] news(1)
  have built: "\<forall>n \<in> set news. \<exists>f \<in> set fs. n = newPillarNode f now"
    by simp
  have idset: "nid ` set news = pf_pick_id ` set fs - nid ` set nodes"
  proof
    show "nid ` set news \<subseteq> pf_pick_id ` set fs - nid ` set nodes"
      using news(2) by auto
    show "pf_pick_id ` set fs - nid ` set nodes \<subseteq> nid ` set news"
      using tracked news(1) by auto
  qed
  obtain r where r: "r = (case r' of Best (Some (b, d)) \<Rightarrow> Some b | _ \<Rightarrow> None)"
    by blast
  have run: "findNearbyConnectionNode fl p ge (QueryResult fs) now nodes
      = (r, case r of None \<Rightarrow> nodes @ news
            | Some b \<Rightarrow> (nodes @ news)[b := addProperty p ((nodes @ news) ! b)])"
  proof (cases r')
    case (Found k)
    with notfound show ?thesis by simp
  next
    case (Best bo)
    show ?thesis
    proof (cases bo)
      case None
      with Best r U scan loop news(1) show ?thesis
        by (simp add: findNearbyConnectionNode_def Let_def)
    next
      case (Some bd)
      obtain b d where "bd = (b, d)" by (cases bd)
      with Some Best r U scan loop news(1) show ?thesis
        by (simp add: findNearbyConnectionNode_def Let_def)
    qed
  qed
  have bound: "\<forall>b. r = Some b \<longrightarrow> b < length (nodes @ news)"
    using r res news(1) by (auto split: scan.splits option.splits)
  from run bound built news(2) idset news(3) tracked news(1) show ?thesis
    by blast
qed

theorem pillar_query_registers_pillars_witness:
  "findNearbyConnectionNode [exampleFrontage] (JNum 7) boxEngine (QueryResult examplePillars)
     ''2026-01-01T00:00:00.000Z'' []
   = (Some 0,
      [examplePillarNode ''P1'' \<lparr>px = 5, py = -3, pwkid = 102100\<rparr> [JNum 7]
         ''2026-01-01T00:00:00.000Z'',
       examplePillarNode ''P2'' \<lparr>px = 15, py = -8, pwkid = 102100\<rparr> []
         ''2026-01-01T00:00:00.000Z''])
   \<and> (\<exists>news r. findNearbyConnectionNode [exampleFrontage] (JNum 7) boxEngine
                    (QueryResult examplePillars) ''2026-01-01T00:00:00.000Z'' []
              = (r, case r of None \<Rightarrow> [] @ news
                    | Some b \<Rightarrow> ([] @ news)[b := addProperty (JNum 7) (([] @ news) ! b)])
      \<and> (\<forall>b. r = Some b \<longrightarrow> b < length ([] @ news))
      \<and> (\<forall>n \<in> set news.
            (\<exists>f \<in> set examplePillars. n = newPillarNode f ''2026-01-01T00:00:00.000Z'')
            \<and> isPillar n \<and> \<not> isPotential n \<and> properties n = [])
      \<and> nid ` set news = pf_pick_id ` set examplePillars - nid ` set ([] :: node list)
      \<and> distinct (map nid news)
      \<and> (\<forall>f \<in> set examplePillars. pf_pick_id f \<in> nid ` set ([] @ news)))"
proof -
  have h: "unionFrontageLines [exampleFrontage] boxEngine
      = Some (Polyline [[(0, 0), (20, 0)]] 102100)"
    "\<forall>n \<in> set ([] :: node list). isPotential n \<or> JNum 7 \<notin> set (properties n)"
    "\<forall>n \<in> set ([] :: node list). isPotential n \<longrightarrow> nid n \<notin> pf_pick_id ` set examplePillars"
    by (simp_all add: example_union)
  show ?thesis
    by (rule conjI) (rule example_pillar_search, rule pillar_query_registers_pillars [OF h])
qed

text \<open>
  C9. Creating a potential node for a parcel first removes from the registry every
  potential node whose served list includes the parcel, and from the map every graphic
  flagged potential whose properties list the parcel; the new node is then the only
  potential node of the parcel. A call of the assignment keeps the invariant that each
  parcel has at most one potential node, whatever its outcome, and the removal of all
  potential nodes leaves none.
\<close>

theorem one_potential_node_per_parcel:
  "(createAndRenderPotentialNode ps p now stamp st = (Inr n, st') \<longrightarrow>
       electricalNodes st' = filter (\<lambda>m. \<not> potentialFor p m) (electricalNodes st) @ [n]
       \<and> potentialFor p n \<and> properties n = [p]
       \<and> filter (potentialFor p) (electricalNodes st') = [n]
       \<and> electricalLayer st'
           = map_option (filter (\<lambda>g. \<not> potentialGraphicOf p g)) (electricalLayer st))
   \<and> ((\<forall>q. length (filter (potentialFor q) (electricalNodes st)) \<le> 1)
       \<and> generateOrFindConnectionNode g fl ge pq now stamp st = (res, st2)
      \<longrightarrow> (\<forall>q. length (filter (potentialFor q) (electricalNodes st2)) \<le> 1))
   \<and> filter isPotential (electricalNodes (removeAllPotentialNodes st)) = []"
proof (intro conjI impI)
  assume a: "createAndRenderPotentialNode ps p now stamp st = (Inr n, st')"
  obtain e stA where rem: "removePotentialNodesForProperty p st = (e, stA)"
    by (cases "removePotentialNodesForProperty p st") blast
  with a have e: "e = None" and n: "n = createElectricalNode (first_right ps) p right True now stamp"
    and st': "st' = stA\<lparr>electricalNodes := electricalNodes stA @ [n]\<rparr>"
    by (auto simp: createAndRenderPotentialNode_def Let_def split: option.splits)
  from removePotential_nodes [of p st] rem
  have nodesA: "electricalNodes stA = filter (\<lambda>m. \<not> potentialFor p m) (electricalNodes st)"
    by simp
  from rem e have layerA: "electricalLayer stA
      = map_option (filter (\<lambda>g. \<not> potentialGraphicOf p g)) (electricalLayer st)"
    by (simp add: removePotential_layer)
  show "electricalNodes st' = filter (\<lambda>m. \<not> potentialFor p m) (electricalNodes st) @ [n]"
    using st' nodesA by simp
  show "potentialFor p n"
    using n by (simp add: potentialFor_def)
  show "properties n = [p]"
    using n by simp
  show "filter (potentialFor p) (electricalNodes st') = [n]"
    using st' nodesA n by (simp add: filter_potentialFor_none potentialFor_def)
  show "electricalLayer st'
      = map_option (filter (\<lambda>g. \<not> potentialGraphicOf p g)) (electricalLayer st)"
    using st' layerA by simp
next
  assume "(\<forall>q. length (filter (potentialFor q) (electricalNodes st)) \<le> 1)
       \<and> generateOrFindConnectionNode g fl ge pq now stamp st = (res, st2)"
  then show "\<forall>q. length (filter (potentialFor q) (electricalNodes st2)) \<le> 1"
    using generate_one_potential by blast
next
  show "filter isPotential (electricalNodes (removeAllPotentialNodes st)) = []"
    by (simp add: removeAllPotentialNodes_def)
qed

theorem one_potential_node_per_parcel_witness:
  "generateOrFindConnectionNode exampleParcel [exampleFrontage] boxEngine NoPillarsLayer
     ''2026-01-01T00:00:05.000Z'' ''1767225605000_b7f3k2m9q''
     \<lparr>electricalNodes =
        [examplePotentialNode ''2026-01-01T00:00:00.000Z'' ''1767225600000_x4c1z8w0a''],
      electricalLayer = Some []\<rparr>
   = (Inr (Some (examplePotentialNode ''2026-01-01T00:00:05.000Z'' ''1767225605000_b7f3k2m9q'')),
      \<lparr>electricalNodes =
         [examplePotentialNode ''2026-01-01T00:00:05.000Z'' ''1767225605000_b7f3k2m9q''],
       electricalLayer = Some []\<rparr>)
   \<and> (\<forall>q. length (filter (potentialFor q)
         [examplePotentialNode ''2026-01-01T00:00:05.000Z'' ''1767225605000_b7f3k2m9q'']) \<le> 1)
   \<and> createAndRenderPotentialNode
        \<lparr>first_left = \<lparr>px = 0, py = 10, pwkid = 102100\<rparr>,
         first_right = \<lparr>px = 20, py = 10, pwkid = 102100\<rparr>,
         last_left = \<lparr>px = 0, py = 10, pwkid = 102100\<rparr>,
         last_right = \<lparr>px = 20, py = 10, pwkid = 102100\<rparr>\<rparr>
        (JNum 7) ''t'' ''s''
        \<lparr>electricalNodes = [examplePotentialNode ''t0'' ''s0''],
         electricalLayer = Some [NodeGraphic (JStr ''POTENTIAL_s0'') ''7'' True True,
                                 LabelGraphic (JStr ''POTENTIAL_s0'')]\<rparr>
      = (Inr (createElectricalNode \<lparr>px = 20, py = 10, pwkid = 102100\<rparr> (JNum 7) right True ''t'' ''s''),
         \<lparr>electricalNodes =
            [createElectricalNode \<lparr>px = 20, py = 10, pwkid = 102100\<rparr> (JNum 7) right True ''t'' ''s''],
          electricalLayer = Some [LabelGraphic (JStr ''POTENTIAL_s0'')]\<rparr>)"
proof -
  let ?st = "\<lparr>electricalNodes =
        [examplePotentialNode ''2026-01-01T00:00:00.000Z'' ''1767225600000_x4c1z8w0a''],
      electricalLayer = Some []\<rparr>"
  let ?n = "examplePotentialNode ''2026-01-01T00:00:05.000Z'' ''1767225605000_b7f3k2m9q''"
  let ?ps = "\<lparr>first_left = \<lparr>px = 0, py = 10, pwkid = 102100\<rparr>,
         first_right = \<lparr>px = 20, py = 10, pwkid = 102100\<rparr>,
         last_left = \<lparr>px = 0, py = 10, pwkid = 102100\<rparr>,
         last_right = \<lparr>px = 20, py = 10, pwkid = 102100\<rparr>\<rparr>"
  let ?old = "\<lparr>electricalNodes = [examplePotentialNode ''t0'' ''s0''],
         electricalLayer = Some [NodeGraphic (JStr ''POTENTIAL_s0'') ''7'' True True,
                                 LabelGraphic (JStr ''POTENTIAL_s0'')]\<rparr>"
  let ?c = "createElectricalNode \<lparr>px = 20, py = 10, pwkid = 102100\<rparr> (JNum 7) right True ''t'' ''s''"
  have run: "generateOrFindConnectionNode exampleParcel [exampleFrontage] boxEngine NoPillarsLayer
     ''2026-01-01T00:00:05.000Z'' ''1767225605000_b7f3k2m9q'' ?st
     = (Inr (Some ?n), \<lparr>electricalNodes = [?n], electricalLayer = Some []\<rparr>)"
    by (rule example_second_call)
  have inv: "\<forall>q. length (filter (potentialFor q) (electricalNodes ?st)) \<le> 1"
    by simp
  have create: "createAndRenderPotentialNode ?ps (JNum 7) ''t'' ''s'' ?old
      = (Inr ?c, \<lparr>electricalNodes = [?c],
                   electricalLayer = Some [LabelGraphic (JStr ''POTENTIAL_s0'')]\<rparr>)"
    by (simp add: createAndRenderPotentialNode_def removePotentialNodesForProperty_def Let_def
          examplePotentialNode_def example_key)
  note t = one_potential_node_per_parcel
             [of ?ps "JNum 7" "''t''" "''s''" ?old ?c
                 "\<lparr>electricalNodes = [?c],
                   electricalLayer = Some [LabelGraphic (JStr ''POTENTIAL_s0'')]\<rparr>"]
  note u = one_potential_node_per_parcel
             [of _ _ _ "''1767225605000_b7f3k2m9q''" ?st _ _ exampleParcel "[exampleFrontage]"
                 boxEngine NoPillarsLayer "Inr (Some ?n)"
                 "\<lparr>electricalNodes = [?n], electricalLayer = Some []\<rparr>"]
  from u [THEN conjunct2, THEN conjunct1, THEN mp, OF conjI [OF inv]] run
  have after: "\<forall>q. length (filter (potentialFor q) [?n]) \<le> 1"
    by simp
  from t [THEN conjunct1, THEN mp, OF create] have "properties ?c = [JNum 7]"
    by blast
  with run after create show ?thesis
    by blast
qed

lemma findNearby_local:
  assumes run: "findNearbyConnectionNode fl p ge pq now nodes = (Some i, nodes1)"
    and pq: "pq = NoPillarsLayer \<or> pq = QueryFailed \<or> pq = QueryResult []"
  shows "\<not> isPotential (nodes1 ! i)"
proof -
  from run obtain U where U: "unionFrontageLines fl ge = Some U"
    by (auto simp: findNearbyConnectionNode_def split: option.splits)
  let ?B = "ge_buffer ge U SHARING_THRESHOLD"
  from scanNodes_cases [of p nodes ge ?B U]
  show ?thesis
  proof
    assume "\<exists>k. findIndex (serving p) nodes = Some k \<and> scanNodes ge ?B U p nodes 0 None = Found k"
    then obtain k where k: "findIndex (serving p) nodes = Some k"
      "scanNodes ge ?B U p nodes 0 None = Found k"
      by blast
    from run U k(2) have "i = k" "nodes1 = nodes"
      by (simp_all add: findNearbyConnectionNode_def Let_def)
    with findIndex_Some [OF k(1)] show ?thesis
      by (simp add: serving_def)
  next
    assume "findIndex (serving p) nodes = None
      \<and> (\<exists>b. scanNodes ge ?B U p nodes 0 None = Best b
           \<and> (b = None \<or> (\<exists>k d. b = Some (k, d) \<and> k < length nodes \<and> \<not> isPotential (nodes ! k))))"
    then obtain b where b: "scanNodes ge ?B U p nodes 0 None = Best b"
      "b = None \<or> (\<exists>k d. b = Some (k, d) \<and> k < length nodes \<and> \<not> isPotential (nodes ! k))"
      by blast
    from pq have loop: "(case pq of QueryResult features \<Rightarrow> pillarLoop ge U p now features nodes b
                           | _ \<Rightarrow> (Best b, nodes)) = (Best b, nodes)"
      by auto
    from run U b(1) loop have res: "(case (Best b, nodes) of
                     (Found k, nodes1) \<Rightarrow> (Some k, nodes1)
                   | (Best None, nodes1) \<Rightarrow> (None, nodes1)
                   | (Best (Some (b, d)), nodes1) \<Rightarrow>
                       (Some b, nodes1[b := addProperty p (nodes1 ! b)])) = (Some i, nodes1)"
      by (simp add: findNearbyConnectionNode_def Let_def)
    from b(2) show ?thesis
    proof
      assume "b = None"
      with res show ?thesis by simp
    next
      assume "\<exists>k d. b = Some (k, d) \<and> k < length nodes \<and> \<not> isPotential (nodes ! k)"
      then obtain k d where k: "b = Some (k, d)" "k < length nodes" "\<not> isPotential (nodes ! k)"
        by blast
      with res have "i = k" "nodes1 = nodes[k := addProperty p (nodes ! k)]"
        by auto
      with k show ?thesis by simp
    qed
  qed
qed

lemma created_again:
  "storeCentroid p c (createElectricalNode pos p sd True now' stamp')
   = (storeCentroid p c (createElectricalNode pos p sd True now stamp))
       \<lparr>nid := JStr (''POTENTIAL_'' @ stamp'), createdAt := now'\<rparr>"
  by (simp add: storeCentroid_def createElectricalNode_def)

text \<open>
  C1. Two calls in a row for the same parcel. When the first call resolves to a node
  that is shared (a node of the registry or a pillar, never a potential one), the second
  call resolves to the same node and leaves the registry as the first call left it; the
  parcel is in the served list of that node, and once only when the served lists of the
  registry had no duplicates before. When the first call finds nothing to share and no
  pillar, it returns a potential node; the second call, finding no pillar either, removes
  that node and returns another one at the same position, with the same side and served
  list (the parcel alone) but with an identifier and a creation time of its own, which
  takes the place of the first in the registry.
\<close>

theorem assign_twice:
  assumes first: "generateOrFindConnectionNode g fl ge pq now stamp st = (Inr (Some n), st1)"
  shows "(\<not> isPotential n \<longrightarrow>
            generateOrFindConnectionNode g fl ge pq' now' stamp' st1 = (Inr (Some n), st1)
            \<and> n \<in> set (electricalNodes st1)
            \<and> polygonId (g_attributes g) \<in> set (properties n)
            \<and> ((\<forall>m \<in> set (electricalNodes st). distinct (properties m))
                 \<longrightarrow> distinct (properties n)))
       \<and> (isPotential n
            \<and> (pq = NoPillarsLayer \<or> pq = QueryFailed \<or> pq = QueryResult [])
            \<and> (pq' = NoPillarsLayer \<or> pq' = QueryFailed \<or> pq' = QueryResult []) \<longrightarrow>
            properties n = [polygonId (g_attributes g)]
            \<and> electricalNodes st1
                = filter (\<lambda>m. \<not> potentialFor (polygonId (g_attributes g)) m) (electricalNodes st)
                  @ [n]
            \<and> generateOrFindConnectionNode g fl ge pq' now' stamp' st1
                = (Inr (Some (n\<lparr>nid := JStr (''POTENTIAL_'' @ stamp'), createdAt := now'\<rparr>)),
                   st1\<lparr>electricalNodes :=
                        filter (\<lambda>m. \<not> potentialFor (polygonId (g_attributes g)) m)
                          (electricalNodes st)
                        @ [n\<lparr>nid := JStr (''POTENTIAL_'' @ stamp'), createdAt := now'\<rparr>]\<rparr>))"
proof (intro conjI impI)
  assume np: "\<not> isPotential n"
  note s = shared_again [OF first np, of pq' now' stamp']
  from s show "generateOrFindConnectionNode g fl ge pq' now' stamp' st1 = (Inr (Some n), st1)"
    by (rule conjunct1)
  from s show "n \<in> set (electricalNodes st1)"
    by (elim conjE)
  from s show "polygonId (g_attributes g) \<in> set (properties n)"
    by (elim conjE)
  assume "\<forall>m \<in> set (electricalNodes st). distinct (properties m)"
  with s show "distinct (properties n)"
    by (elim conjE impE)
next
  let ?p = "polygonId (g_attributes g)"
  let ?c = "ge_centroid ge (ensureWebMercator (g_geometry g) ge)"
  assume h: "isPotential n
            \<and> (pq = NoPillarsLayer \<or> pq = QueryFailed \<or> pq = QueryResult [])
            \<and> (pq' = NoPillarsLayer \<or> pq' = QueryFailed \<or> pq' = QueryResult [])"
  then have pot: "isPotential n"
    and pq: "pq = NoPillarsLayer \<or> pq = QueryFailed \<or> pq = QueryResult []"
    and pq': "pq' = NoPillarsLayer \<or> pq' = QueryFailed \<or> pq' = QueryResult []"
    by simp_all
  from first have "\<exists>nodes1. findNearbyConnectionNode fl ?p ge pq now (electricalNodes st)
      = (None, nodes1)"
  proof (cases rule: generate_cases)
    case (Shared ps i nodes1)
    from findNearby_local [OF Shared(3) pq] Shared(5) pot show ?thesis
      by simp
  next
    case (Created ps nodes1 stA)
    then show ?thesis by blast
  qed simp_all
  then obtain nodes1 where none:
    "findNearbyConnectionNode fl ?p ge pq now (electricalNodes st) = (None, nodes1)"
    by blast
  let ?Q = "\<lambda>m. \<not> potentialFor ?p m"
  from created_replaced [OF first none pq', of now' stamp']
  obtain ps where all:
    "calculatePotentialNodePositions fl (ensureWebMercator (g_geometry g) ge) ge = Inr ps
     \<and> n = storeCentroid ?p ?c (createElectricalNode (first_right ps) ?p right True now stamp)
     \<and> electricalNodes st1 = filter ?Q (electricalNodes st) @ [n]
     \<and> generateOrFindConnectionNode g fl ge pq' now' stamp' st1
        = (Inr (Some (storeCentroid ?p ?c
              (createElectricalNode (first_right ps) ?p right True now' stamp'))),
           st1\<lparr>electricalNodes :=
                filter ?Q (electricalNodes st)
                @ [storeCentroid ?p ?c
                     (createElectricalNode (first_right ps) ?p right True now' stamp')]\<rparr>)" ..
  note n = all [THEN conjunct2, THEN conjunct1]
  note nodes = all [THEN conjunct2, THEN conjunct2, THEN conjunct1]
  note second = all [THEN conjunct2, THEN conjunct2, THEN conjunct2]
  have again: "storeCentroid ?p ?c (createElectricalNode (first_right ps) ?p right True now' stamp')
      = n\<lparr>nid := JStr (''POTENTIAL_'' @ stamp'), createdAt := now'\<rparr>"
    unfolding n by (rule created_again)
  from n show "properties n = [?p]"
    by simp
  from nodes show "electricalNodes st1 = filter (\<lambda>m. \<not> potentialFor ?p m) (electricalNodes st) @ [n]" .
  from second show "generateOrFindConnectionNode g fl ge pq' now' stamp' st1
                = (Inr (Some (n\<lparr>nid := JStr (''POTENTIAL_'' @ stamp'), createdAt := now'\<rparr>)),
                   st1\<lparr>electricalNodes :=
                        filter (\<lambda>m. \<not> potentialFor ?p m) (electricalNodes st)
                        @ [n\<lparr>nid := JStr (''POTENTIAL_'' @ stamp'), createdAt := now'\<rparr>]\<rparr>)"
    unfolding again .
qed

theorem assign_twice_witness:
  "generateOrFindConnectionNode exampleParcel [exampleFrontage] boxEngine
     (QueryResult examplePillars) ''2026-01-01T00:00:05.000Z'' ''1767225605000_b7f3k2m9q''
     \<lparr>electricalNodes =
        [(examplePillarNode ''P1'' \<lparr>px = 5, py = -3, pwkid = 102100\<rparr> [JNum 7]
            ''2026-01-01T00:00:00.000Z'')
           \<lparr>propertyCentroids := Some [(''7'', \<lparr>px = 10, py = 10, pwkid = 102100\<rparr>)]\<rparr>,
         examplePillarNode ''P2'' \<lparr>px = 15, py = -8, pwkid = 102100\<rparr> []
           ''2026-01-01T00:00:00.000Z''],
      electricalLayer = Some []\<rparr>
   = (Inr (Some ((examplePillarNode ''P1'' \<lparr>px = 5, py = -3, pwkid = 102100\<rparr> [JNum 7]
                    ''2026-01-01T00:00:00.000Z'')
                   \<lparr>propertyCentroids := Some [(''7'', \<lparr>px = 10, py = 10, pwkid = 102100\<rparr>)]\<rparr>)),
      \<lparr>electricalNodes =
         [(examplePillarNode ''P1'' \<lparr>px = 5, py = -3, pwkid = 102100\<rparr> [JNum 7]
             ''2026-01-01T00:00:00.000Z'')
            \<lparr>propertyCentroids := Some [(''7'', \<lparr>px = 10, py = 10, pwkid = 102100\<rparr>)]\<rparr>,
          examplePillarNode ''P2'' \<lparr>px = 15, py = -8, pwkid = 102100\<rparr> []
            ''2026-01-01T00:00:00.000Z''],
       electricalLayer = Some []\<rparr>)
   \<and> generateOrFindConnectionNode exampleParcel [exampleFrontage] boxEngine NoPillarsLayer
       ''2026-01-01T00:00:05.000Z'' ''1767225605000_b7f3k2m9q''
       \<lparr>electricalNodes =
          [examplePotentialNode ''2026-01-01T00:00:00.000Z'' ''1767225600000_x4c1z8w0a''],
        electricalLayer = Some []\<rparr>
     = (Inr (Some ((examplePotentialNode ''2026-01-01T00:00:00.000Z'' ''1767225600000_x4c1z8w0a'')
                     \<lparr>nid := JStr ''POTENTIAL_1767225605000_b7f3k2m9q'',
                      createdAt := ''2026-01-01T00:00:05.000Z''\<rparr>)),
        \<lparr>electricalNodes =
           [(examplePotentialNode ''2026-01-01T00:00:00.000Z'' ''1767225600000_x4c1z8w0a'')
              \<lparr>nid := JStr ''POTENTIAL_1767225605000_b7f3k2m9q'',
               createdAt := ''2026-01-01T00:00:05.000Z''\<rparr>],
         electricalLayer = Some []\<rparr>)"
proof -
  let ?t0 = "''2026-01-01T00:00:00.000Z''"
  let ?t1 = "''2026-01-01T00:00:05.000Z''"
  let ?s0 = "''1767225600000_x4c1z8w0a''"
  let ?s1 = "''1767225605000_b7f3k2m9q''"
  let ?empty = "\<lparr>electricalNodes = [], electricalLayer = Some []\<rparr>"
  let ?P1 = "(examplePillarNode ''P1'' \<lparr>px = 5, py = -3, pwkid = 102100\<rparr> [JNum 7] ?t0)
               \<lparr>propertyCentroids := Some [(''7'', \<lparr>px = 10, py = 10, pwkid = 102100\<rparr>)]\<rparr>"
  let ?P2 = "examplePillarNode ''P2'' \<lparr>px = 15, py = -8, pwkid = 102100\<rparr> [] ?t0"
  let ?shared = "\<lparr>electricalNodes = [?P1, ?P2], electricalLayer = Some []\<rparr>"
  let ?n = "examplePotentialNode ?t0 ?s0"
  let ?created = "\<lparr>electricalNodes = [?n], electricalLayer = Some []\<rparr>"
  have sharedFirst: "generateOrFindConnectionNode exampleParcel [exampleFrontage] boxEngine
      (QueryResult examplePillars) ?t0 ?s0 ?empty = (Inr (Some ?P1), ?shared)"
    by (rule example_pillar_call)
  have np: "\<not> isPotential ?P1"
    by (simp add: examplePillarNode_def)
  have createdFirst: "generateOrFindConnectionNode exampleParcel [exampleFrontage] boxEngine
      NoPillarsLayer ?t0 ?s0 ?empty = (Inr (Some ?n), ?created)"
    by (rule example_first_call)
  have h: "isPotential ?n
      \<and> (NoPillarsLayer = NoPillarsLayer \<or> NoPillarsLayer = QueryFailed
           \<or> NoPillarsLayer = QueryResult [])
      \<and> (NoPillarsLayer = NoPillarsLayer \<or> NoPillarsLayer = QueryFailed
           \<or> NoPillarsLayer = QueryResult [])"
    by (simp add: examplePotentialNode_def)
  note a = assign_twice [where pq' = "QueryResult examplePillars" and now' = ?t1 and stamp' = ?s1,
             OF sharedFirst, THEN conjunct1, THEN mp, OF np, THEN conjunct1]
  note b = assign_twice [where pq' = NoPillarsLayer and now' = ?t1 and stamp' = ?s1,
             OF createdFirst, THEN conjunct2, THEN mp, OF h, THEN conjunct2, THEN conjunct2]
  from b have b': "generateOrFindConnectionNode exampleParcel [exampleFrontage] boxEngine
      NoPillarsLayer ?t1 ?s1 ?created
      = (Inr (Some (?n\<lparr>nid := JStr ''POTENTIAL_1767225605000_b7f3k2m9q'', createdAt := ?t1\<rparr>)),
         \<lparr>electricalNodes =
            [?n\<lparr>nid := JStr ''POTENTIAL_1767225605000_b7f3k2m9q'', createdAt := ?t1\<rparr>],
          electricalLayer = Some []\<rparr>)"
    by simp
  from a b' show ?thesis
    by (rule conjI)
qed

text \<open>
  C1, as the claim has it, fails when no shareable node exists: the identifier of a
  potential node is made of the clock and of a random number when the node is created,
  so the node of the second call is not the node of the first, which has left the
  registry by then.
\<close>

theorem assign_twice_counterexample:
  "generateOrFindConnectionNode exampleParcel [exampleFrontage] boxEngine NoPillarsLayer
     ''2026-01-01T00:00:00.000Z'' ''1767225600000_x4c1z8w0a''
     \<lparr>electricalNodes = [], electricalLayer = Some []\<rparr>
   = (Inr (Some (examplePotentialNode ''2026-01-01T00:00:00.000Z'' ''1767225600000_x4c1z8w0a'')),
      \<lparr>electricalNodes =
         [examplePotentialNode ''2026-01-01T00:00:00.000Z'' ''1767225600000_x4c1z8w0a''],
       electricalLayer = Some []\<rparr>)
   \<and> generateOrFindConnectionNode exampleParcel [exampleFrontage] boxEngine NoPillarsLayer
       ''2026-01-01T00:00:05.000Z'' ''1767225605000_b7f3k2m9q''
       \<lparr>electricalNodes =
          [examplePotentialNode ''2026-01-01T00:00:00.000Z'' ''1767225600000_x4c1z8w0a''],
        electricalLayer = Some []\<rparr>
     = (Inr (Some (examplePotentialNode ''2026-01-01T00:00:05.000Z'' ''1767225605000_b7f3k2m9q'')),
        \<lparr>electricalNodes =
           [examplePotentialNode ''2026-01-01T00:00:05.000Z'' ''1767225605000_b7f3k2m9q''],
         electricalLayer = Some []\<rparr>)
   \<and> examplePotentialNode ''2026-01-01T00:00:05.000Z'' ''1767225605000_b7f3k2m9q''
       \<noteq> examplePotentialNode ''2026-01-01T00:00:00.000Z'' ''1767225600000_x4c1z8w0a''
   \<and> nid (examplePotentialNode ''2026-01-01T00:00:05.000Z'' ''1767225605000_b7f3k2m9q'')
       = JStr ''POTENTIAL_1767225605000_b7f3k2m9q''
   \<and> nid (examplePotentialNode ''2026-01-01T00:00:00.000Z'' ''1767225600000_x4c1z8w0a'')
       = JStr ''POTENTIAL_1767225600000_x4c1z8w0a''
   \<and> examplePotentialNode ''2026-01-01T00:00:00.000Z'' ''1767225600000_x4c1z8w0a''
       \<notin> set [examplePotentialNode ''2026-01-01T00:00:05.000Z'' ''1767225605000_b7f3k2m9q'']"
proof -
  have differ: "examplePotentialNode ''2026-01-01T00:00:05.000Z'' ''1767225605000_b7f3k2m9q''
       \<noteq> examplePotentialNode ''2026-01-01T00:00:00.000Z'' ''1767225600000_x4c1z8w0a''"
    by (simp add: examplePotentialNode_def)
  have ids: "nid (examplePotentialNode ''2026-01-01T00:00:05.000Z'' ''1767225605000_b7f3k2m9q'')
       = JStr ''POTENTIAL_1767225605000_b7f3k2m9q''"
    "nid (examplePotentialNode ''2026-01-01T00:00:00.000Z'' ''1767225600000_x4c1z8w0a'')
       = JStr ''POTENTIAL_1767225600000_x4c1z8w0a''"
    by (simp_all add: examplePotentialNode_def)
  from differ have gone:
    "examplePotentialNode ''2026-01-01T00:00:00.000Z'' ''1767225600000_x4c1z8w0a''
       \<notin> set [examplePotentialNode ''2026-01-01T00:00:05.000Z'' ''1767225605000_b7f3k2m9q'']"
    by simp
  show ?thesis
    by (intro conjI example_first_call example_second_call differ ids gone)
qed

end
